theory Spec2Isabelle
  imports Complex_Main "HOL-Library.Sublist" "HOL-Library.Multiset" "HOL-Library.Char_ord"
    "HOL-Library.List_Lexorder" "HOL-Library.Product_Lexorder"
begin

section \<open>Strings as the Python code uses them\<close>

text \<open>
  Strings are character lists. \<open>lower\<close> is \<^verbatim>\<open>str.lower()\<close> on the ASCII letters and
  leaves every other character as it is; \<open>py_in kw s\<close> is the substring
  test \<^verbatim>\<open>kw in s\<close>.
\<close>

definition lower_char :: "char \<Rightarrow> char" where
  "lower_char c =
     (case map_of (zip ''ABCDEFGHIJKLMNOPQRSTUVWXYZ'' ''abcdefghijklmnopqrstuvwxyz'') c of
        Some d \<Rightarrow> d
      | None \<Rightarrow> c)"

definition lower :: "string \<Rightarrow> string" where
  "lower s = map lower_char s"

fun py_in :: "string \<Rightarrow> string \<Rightarrow> bool" where
  "py_in kw [] = (kw = [])"
| "py_in kw (c # s) = (prefix kw (c # s) \<or> py_in kw s)"

definition any_kw :: "string list \<Rightarrow> string \<Rightarrow> bool" where
  "any_kw kws s = list_ex (\<lambda>kw. py_in kw s) kws"

section \<open>Purpose normalization (app/utils.py)\<close>

definition normalize_purpose :: "string \<Rightarrow> string" where
  "normalize_purpose purpose =
     (let purpose_lower = lower purpose in
      if any_kw [''content'', ''generate'', ''create'', ''write''] purpose_lower
        then ''content_generation''
      else if any_kw [''recommend'', ''suggest'', ''recommendation''] purpose_lower
        then ''recommendation''
      else if any_kw [''scheduling'', ''schedule'', ''calendar'', ''time''] purpose_lower
        then ''scheduling''
      else if any_kw [''ui'', ''render'', ''display'', ''show''] purpose_lower
        then ''ui_rendering''
      else if any_kw [''notify'', ''notification'', ''alert''] purpose_lower
        then ''notification_delivery''
      else if any_kw [''task'', ''execute'', ''action'', ''run''] purpose_lower
        then ''task_execution''
      else ''content_generation'')"

definition purpose_classes :: "string list" where
  "purpose_classes =
     [''content_generation'', ''recommendation'', ''scheduling'', ''ui_rendering'',
      ''notification_delivery'', ''task_execution'']"

section \<open>Python values\<close>

text \<open>
  Untyped Python data (policy documents, rule conditions, constraint dictionaries, JSON
  payloads) is a \<open>pyval\<close>. A dictionary is an association list in insertion order;
  \<open>py_eq\<close> is Python's \<^verbatim>\<open>==\<close>: dictionaries compare without regard to order, a
  list never equals a string, and \<^verbatim>\<open>True == 1\<close>.
\<close>

datatype pyval =
    PNone
  | PBool bool
  | PInt int
  | PFloat real
  | PStr string
  | PList "pyval list"
  | PDict "(string \<times> pyval) list"

datatype py_error = KeyError string | ValueError string | TypeError string | StoreError string

text \<open>An error response of an endpoint: status and detail.\<close>

datatype http_error = HTTPException nat string

text \<open>
  \<^verbatim>\<open>str(e)\<close>: the message, and for a KeyError the missing key between quotes.
\<close>

fun error_text :: "py_error \<Rightarrow> string" where
  "error_text (KeyError k) = [CHR 0x27] @ k @ [CHR 0x27]"
| "error_text (ValueError v) = v"
| "error_text (TypeError t) = t"
| "error_text (StoreError t) = t"

fun num_of :: "pyval \<Rightarrow> real option" where
  "num_of (PBool b) = Some (if b then 1 else 0)"
| "num_of (PInt i) = Some (of_int i)"
| "num_of (PFloat r) = Some r"
| "num_of _ = None"

fun py_eq :: "pyval \<Rightarrow> pyval \<Rightarrow> bool" where
  "py_eq PNone y = (y = PNone)"
| "py_eq (PStr a) y = (y = PStr a)"
| "py_eq (PList xs) (PList ys) = list_all2 py_eq xs ys"
| "py_eq (PList xs) _ = False"
| "py_eq (PDict a) (PDict b) =
     (length a = length b \<and>
      list_all (\<lambda>kv. case map_of b (fst kv) of None \<Rightarrow> False | Some w \<Rightarrow> py_eq (snd kv) w) a)"
| "py_eq (PDict a) _ = False"
| "py_eq x y = (case num_of y of None \<Rightarrow> False | Some b \<Rightarrow> num_of x = Some b)"

text \<open>Truthiness, as \<^verbatim>\<open>all(...)\<close> and \<^verbatim>\<open>if x:\<close> read a value.\<close>

fun truthy :: "pyval \<Rightarrow> bool" where
  "truthy PNone = False"
| "truthy (PBool b) = b"
| "truthy (PInt i) = (i \<noteq> 0)"
| "truthy (PFloat r) = (r \<noteq> 0)"
| "truthy (PStr s) = (s \<noteq> [])"
| "truthy (PList xs) = (xs \<noteq> [])"
| "truthy (PDict d) = (d \<noteq> [])"

text \<open>\<^verbatim>\<open>s.split(d)\<close> for a one-character separator.\<close>

fun py_split :: "char \<Rightarrow> string \<Rightarrow> string list" where
  "py_split d [] = [[]]"
| "py_split d (c # s) =
     (if c = d then [] # py_split d s
      else (case py_split d s of [] \<Rightarrow> [[c]] | h # t \<Rightarrow> (c # h) # t))"

text \<open>
  Whitespace as \<^verbatim>\<open>str.strip()\<close>, \<^verbatim>\<open>str.split()\<close> and the whitespace class of the
  regular expressions see it, on ASCII: the blank, the five controls from tab to carriage return, and the four
  separators \<open>0x1C\<close> to \<open>0x1F\<close>.
\<close>

definition is_space :: "char \<Rightarrow> bool" where
  "is_space c =
     (c \<in> set [CHR '' '', CHR 0x09, CHR 0x0A, CHR 0x0B, CHR 0x0C, CHR 0x0D,
               CHR 0x1C, CHR 0x1D, CHR 0x1E, CHR 0x1F])"

text \<open>Decimal printing of a natural number, as an f-string prints a length.\<close>

function show_nat :: "nat \<Rightarrow> string" where
  "show_nat n =
     (if n < 10 then [''0123456789'' ! n]
      else show_nat (n div 10) @ [''0123456789'' ! (n mod 10)])"
  by pat_completeness auto
termination
  by (relation "measure id") auto

section \<open>Deterministic merge (app/utils.py)\<close>

text \<open>
  A memory as \<open>merge_memories_deterministic\<close> receives it: the four entries of the
  dictionary built by \<open>_query_and_merge_memories\<close>. Two library functions stay
  parameters: \<open>ratio\<close> is \<^verbatim>\<open>SequenceMatcher(None, a, b).ratio()\<close>, and \<open>str_of\<close> is
  \<^verbatim>\<open>str(x)\<close> on a value that is not a string. Type errors that Python raises are
  results.
\<close>

record MemoryDict =
  md_id :: string
  md_value_json :: pyval
  md_value_shape :: string
  md_created_at :: int

record MergeResult =
  summary_text :: string
  summary_struct :: "(string \<times> pyval) list"
  merge_confidence :: real

text \<open>Dictionary assignment and \<^verbatim>\<open>update\<close>: an existing key keeps its place.\<close>

fun dict_set :: "(string \<times> pyval) list \<Rightarrow> string \<Rightarrow> pyval \<Rightarrow> (string \<times> pyval) list" where
  "dict_set [] k v = [(k, v)]"
| "dict_set ((k', v') # d) k v = (if k' = k then (k, v) # d else (k', v') # dict_set d k v)"

definition dict_update :: "(string \<times> pyval) list \<Rightarrow> (string \<times> pyval) list \<Rightarrow> (string \<times> pyval) list" where
  "dict_update d items = foldl (\<lambda>acc kv. dict_set acc (fst kv) (snd kv)) d items"

definition dict_get :: "(string \<times> pyval) list \<Rightarrow> string \<Rightarrow> pyval \<Rightarrow> pyval" where
  "dict_get d k dflt = (case map_of d k of None \<Rightarrow> dflt | Some v \<Rightarrow> v)"

text \<open>What \<^verbatim>\<open>list.extend(x)\<close> iterates over.\<close>

fun py_iter :: "pyval \<Rightarrow> py_error + pyval list" where
  "py_iter (PList xs) = Inr xs"
| "py_iter (PStr s) = Inr (map (\<lambda>c. PStr [c]) s)"
| "py_iter (PDict d) = Inr (map (\<lambda>kv. PStr (fst kv)) d)"
| "py_iter _ = Inl (TypeError ''object is not iterable'')"

definition strip :: "string \<Rightarrow> string" where
  "strip s = rev (dropWhile is_space (rev (dropWhile is_space s)))"

definition py_str :: "(pyval \<Rightarrow> string) \<Rightarrow> pyval \<Rightarrow> string" where
  "py_str str_of v = (case v of PStr s \<Rightarrow> s | _ \<Rightarrow> str_of v)"

definition fuzzy_match_strings :: "(string \<Rightarrow> string \<Rightarrow> real) \<Rightarrow> string \<Rightarrow> string \<Rightarrow> real \<Rightarrow> bool" where
  "fuzzy_match_strings ratio str1 str2 threshold =
     (let s1 = strip (lower str1); s2 = strip (lower str2)
      in if s1 = s2 then True else ratio s1 s2 \<ge> threshold)"

fun dedupe_loop ::
  "(string \<Rightarrow> string \<Rightarrow> real) \<Rightarrow> real \<Rightarrow> string list \<Rightarrow> string list \<Rightarrow> string list" where
  "dedupe_loop ratio threshold [] seen_items = seen_items"
| "dedupe_loop ratio threshold (item # rest) seen_items =
     (if strip (lower item) \<in> set (map (\<lambda>x. strip (lower x)) seen_items)
        then dedupe_loop ratio threshold rest seen_items
      else if list_ex (\<lambda>seen. fuzzy_match_strings ratio item seen threshold) seen_items
        then dedupe_loop ratio threshold rest seen_items
      else dedupe_loop ratio threshold rest (seen_items @ [item]))"

definition dedupe_with_fuzzy :: "(string \<Rightarrow> string \<Rightarrow> real) \<Rightarrow> string list \<Rightarrow> string list" where
  "dedupe_with_fuzzy ratio items = sort (dedupe_loop ratio (85 / 100) items [])"

definition truncate_summary :: "string \<Rightarrow> string" where
  "truncate_summary s = (if length s > 240 then take 237 s @ ''...'' else s)"

definition merge_confidence_of :: "nat \<Rightarrow> real" where
  "merge_confidence_of n = min (9 / 10) (5 / 10 + real n * (1 / 10))"

subsection \<open>preferences\<close>

definition normalize_key :: "string \<Rightarrow> string" where
  "normalize_key k = filter (\<lambda>c. c \<noteq> CHR ''_'' \<and> c \<noteq> CHR '' '' \<and> c \<noteq> CHR ''-'') k"

text \<open>
  One key of a \<open>kv_map\<close> memory: the first existing key with the same normalized form
  takes the new value (both branches of the source's fuzzy comparison assign it); an
  empty matching key counts as no match, as \<^verbatim>\<open>if matching_key:\<close> reads it.
\<close>

definition merge_kv_item :: "(string \<times> pyval) list \<Rightarrow> string \<times> pyval \<Rightarrow> (string \<times> pyval) list" where
  "merge_kv_item kv_pairs kv =
     (let key_lower = strip (lower (fst kv));
          key_normalized = normalize_key key_lower
      in case find (\<lambda>existing_key. normalize_key existing_key = key_normalized)
                (map fst kv_pairs) of
           None \<Rightarrow> dict_set kv_pairs key_lower (snd kv)
         | Some matching_key \<Rightarrow>
             (if matching_key \<noteq> [] then dict_set kv_pairs matching_key (snd kv)
              else dict_set kv_pairs key_lower (snd kv)))"

record PrefAcc =
  all_likes :: "pyval list"
  all_dislikes :: "pyval list"
  pref_kv_pairs :: "(string \<times> pyval) list"

definition pref_step :: "PrefAcc \<Rightarrow> MemoryDict \<Rightarrow> py_error + PrefAcc" where
  "pref_step acc mem =
     (case md_value_json mem of
        PDict d \<Rightarrow>
          (if md_value_shape mem = ''likes_dislikes'' then
             (case py_iter (dict_get d ''likes'' (PList [])) of
                Inl e \<Rightarrow> Inl e
              | Inr ls \<Rightarrow>
                  (case py_iter (dict_get d ''dislikes'' (PList [])) of
                     Inl e \<Rightarrow> Inl e
                   | Inr ds \<Rightarrow>
                       Inr (acc\<lparr>all_likes := all_likes acc @ ls,
                                all_dislikes := all_dislikes acc @ ds\<rparr>)))
           else if md_value_shape mem = ''kv_map'' then
             Inr (acc\<lparr>pref_kv_pairs := foldl merge_kv_item (pref_kv_pairs acc) d\<rparr>)
           else Inr acc)
      | _ \<Rightarrow> Inr acc)"

fun fold_err :: "('a \<Rightarrow> 'b \<Rightarrow> py_error + 'a) \<Rightarrow> 'a \<Rightarrow> 'b list \<Rightarrow> py_error + 'a" where
  "fold_err f acc [] = Inr acc"
| "fold_err f acc (x # xs) = (case f acc x of Inl e \<Rightarrow> Inl e | Inr acc' \<Rightarrow> fold_err f acc' xs)"

definition merge_preferences ::
  "(string \<Rightarrow> string \<Rightarrow> real) \<Rightarrow> (pyval \<Rightarrow> string) \<Rightarrow> MemoryDict list \<Rightarrow> py_error + MergeResult" where
  "merge_preferences ratio str_of memories =
     (case fold_err pref_step \<lparr>all_likes = [], all_dislikes = [], pref_kv_pairs = []\<rparr> memories of
        Inl e \<Rightarrow> Inl e
      | Inr acc \<Rightarrow>
          (let deduped_likes =
                 dedupe_with_fuzzy ratio (map (py_str str_of) (filter (\<lambda>l. l \<noteq> PNone) (all_likes acc)));
               deduped_dislikes =
                 dedupe_with_fuzzy ratio (map (py_str str_of) (filter (\<lambda>d. d \<noteq> PNone) (all_dislikes acc)))
           in Inr \<lparr> summary_text =
                      truncate_summary
                        (''Likes: '' @ show_nat (length deduped_likes) @ '', Dislikes: ''
                           @ show_nat (length deduped_dislikes) @ '', Settings: ''
                           @ show_nat (length (pref_kv_pairs acc))),
                    summary_struct =
                      [(''likes'', PList (map PStr deduped_likes)),
                       (''dislikes'', PList (map PStr deduped_dislikes)),
                       (''settings'', PDict (pref_kv_pairs acc))],
                    merge_confidence = merge_confidence_of (length memories) \<rparr>))"

subsection \<open>constraints\<close>

text \<open>
  \<^verbatim>\<open>sorted(list(set(rules)))\<close>: lists and dictionaries cannot be hashed; equal values
  are kept once; the rest is sorted when it is all strings or all numbers, and more than
  one value of mixed or unordered types is a TypeError.
\<close>

definition hashable :: "pyval \<Rightarrow> bool" where
  "hashable v = (case v of PList _ \<Rightarrow> False | PDict _ \<Rightarrow> False | _ \<Rightarrow> True)"

definition py_set :: "pyval list \<Rightarrow> pyval list" where
  "py_set xs = foldl (\<lambda>acc x. if list_ex (py_eq x) acc then acc else acc @ [x]) [] xs"

definition num_val :: "pyval \<Rightarrow> real" where
  "num_val v = (case num_of v of None \<Rightarrow> 0 | Some r \<Rightarrow> r)"

definition str_val :: "pyval \<Rightarrow> string" where
  "str_val v = (case v of PStr s \<Rightarrow> s | _ \<Rightarrow> [])"

definition is_str :: "pyval \<Rightarrow> bool" where
  "is_str v = (case v of PStr _ \<Rightarrow> True | _ \<Rightarrow> False)"

definition py_sorted_set :: "pyval list \<Rightarrow> py_error + pyval list" where
  "py_sorted_set xs =
     (if \<not> list_all hashable xs then Inl (TypeError ''unhashable type'')
      else (let s = py_set xs in
            if length s \<le> 1 then Inr s
            else if list_all is_str s then Inr (sort_key str_val s)
            else if list_all (\<lambda>v. num_of v \<noteq> None) s then Inr (sort_key num_val s)
            else Inl (TypeError ''not supported between instances'')))"

record ConsAcc =
  cons_rules :: "pyval list"
  cons_kv_pairs :: "(string \<times> pyval) list"

definition cons_step :: "ConsAcc \<Rightarrow> MemoryDict \<Rightarrow> ConsAcc" where
  "cons_step acc mem =
     (if md_value_shape mem = ''rules_list'' then
        (case md_value_json mem of
           PList xs \<Rightarrow> acc\<lparr>cons_rules := cons_rules acc @ xs\<rparr>
         | _ \<Rightarrow> acc)
      else if md_value_shape mem = ''kv_map'' then
        (case md_value_json mem of
           PDict d \<Rightarrow> acc\<lparr>cons_kv_pairs := dict_update (cons_kv_pairs acc) d\<rparr>
         | _ \<Rightarrow> acc)
      else acc)"

definition merge_constraints :: "MemoryDict list \<Rightarrow> py_error + MergeResult" where
  "merge_constraints memories =
     (let acc = foldl cons_step \<lparr>cons_rules = [], cons_kv_pairs = []\<rparr> memories
      in case py_sorted_set (cons_rules acc) of
           Inl e \<Rightarrow> Inl e
         | Inr rules \<Rightarrow>
             Inr \<lparr> summary_text =
                     truncate_summary
                       (''Rules: '' @ show_nat (length rules) @ '', Constraints: ''
                          @ show_nat (length (cons_kv_pairs acc))),
                   summary_struct =
                     [(''rules'', PList rules), (''constraints'', PDict (cons_kv_pairs acc))],
                   merge_confidence = merge_confidence_of (length memories) \<rparr>)"

subsection \<open>communication, accessibility, schedule, attention\<close>

definition update_if_dict :: "(string \<times> pyval) list \<Rightarrow> MemoryDict \<Rightarrow> (string \<times> pyval) list" where
  "update_if_dict kv_pairs mem =
     (case md_value_json mem of PDict d \<Rightarrow> dict_update kv_pairs d | _ \<Rightarrow> kv_pairs)"

definition merge_communication :: "MemoryDict list \<Rightarrow> MergeResult" where
  "merge_communication memories =
     (let kv_pairs = foldl update_if_dict [] memories
      in \<lparr> summary_text =
             truncate_summary
               (''Communication preferences: '' @ show_nat (length kv_pairs) @ '' settings''),
           summary_struct = [(''preferences'', PDict kv_pairs)],
           merge_confidence = merge_confidence_of (length memories) \<rparr>)"

record AccAcc =
  acc_flags :: "(string \<times> pyval) list"
  acc_kv_pairs :: "(string \<times> pyval) list"

definition acc_step :: "AccAcc \<Rightarrow> MemoryDict \<Rightarrow> AccAcc" where
  "acc_step acc mem =
     (case md_value_json mem of
        PDict d \<Rightarrow>
          (if md_value_shape mem = ''boolean_flags''
           then acc\<lparr>acc_flags := dict_update (acc_flags acc) d\<rparr>
           else acc\<lparr>acc_kv_pairs := dict_update (acc_kv_pairs acc) d\<rparr>)
      | _ \<Rightarrow> acc)"

definition merge_accessibility :: "MemoryDict list \<Rightarrow> MergeResult" where
  "merge_accessibility memories =
     (let acc = foldl acc_step \<lparr>acc_flags = [], acc_kv_pairs = []\<rparr> memories
      in \<lparr> summary_text =
             truncate_summary
               (''Accessibility: '' @ show_nat (length (acc_flags acc)) @ '' flags, ''
                  @ show_nat (length (acc_kv_pairs acc)) @ '' settings''),
           summary_struct =
             [(''flags'', PDict (acc_flags acc)), (''settings'', PDict (acc_kv_pairs acc))],
           merge_confidence = merge_confidence_of (length memories) \<rparr>)"

definition sched_step :: "pyval list \<Rightarrow> MemoryDict \<Rightarrow> pyval list" where
  "sched_step windows mem =
     (if md_value_shape mem = ''schedule_windows'' then
        (case md_value_json mem of
           PList xs \<Rightarrow> windows @ xs
         | PDict d \<Rightarrow> windows @ [PDict d]
         | _ \<Rightarrow> windows)
      else windows)"

text \<open>
  The window dedupe: a dictionary window is keyed by the tuple of its sorted items, so
  a value that cannot be hashed is a TypeError and two windows are the same when they
  are equal as dictionaries; a window that is not a dictionary is always kept.
\<close>

fun dedupe_windows :: "pyval list \<Rightarrow> pyval list \<Rightarrow> pyval list \<Rightarrow> py_error + pyval list" where
  "dedupe_windows [] seen deduped = Inr deduped"
| "dedupe_windows (PDict d # rest) seen deduped =
     (if \<not> list_all (\<lambda>kv. hashable (snd kv)) d then Inl (TypeError ''unhashable type'')
      else if list_ex (py_eq (PDict d)) seen then dedupe_windows rest seen deduped
      else dedupe_windows rest (seen @ [PDict d]) (deduped @ [PDict d]))"
| "dedupe_windows (w # rest) seen deduped = dedupe_windows rest seen (deduped @ [w])"

definition merge_schedule :: "MemoryDict list \<Rightarrow> py_error + MergeResult" where
  "merge_schedule memories =
     (case dedupe_windows (foldl sched_step [] memories) [] [] of
        Inl e \<Rightarrow> Inl e
      | Inr deduped \<Rightarrow>
          Inr \<lparr> summary_text =
                  truncate_summary (''Schedule: '' @ show_nat (length deduped) @ '' time windows''),
                summary_struct = [(''windows'', PList deduped)],
                merge_confidence = merge_confidence_of (length memories) \<rparr>)"

definition merge_attention :: "MemoryDict list \<Rightarrow> MergeResult" where
  "merge_attention memories =
     (let settings = foldl update_if_dict [] memories
      in \<lparr> summary_text =
             truncate_summary (''Attention settings: '' @ show_nat (length settings) @ '' preferences''),
           summary_struct = [(''settings'', PDict settings)],
           merge_confidence = merge_confidence_of (length memories) \<rparr>)"

subsection \<open>merge\_memories\_deterministic\<close>

definition merge_sort_key :: "MemoryDict \<Rightarrow> int \<times> string" where
  "merge_sort_key m = (md_created_at m, md_id m)"

definition merge_memories_deterministic ::
  "(string \<Rightarrow> string \<Rightarrow> real) \<Rightarrow> (pyval \<Rightarrow> string) \<Rightarrow> MemoryDict list \<Rightarrow> string
     \<Rightarrow> py_error + MergeResult" where
  "merge_memories_deterministic ratio str_of memories scope =
     (if memories = [] then
        Inr \<lparr> summary_text = ''No memories found.'', summary_struct = [], merge_confidence = 0 \<rparr>
      else (let sorted_memories = sort_key merge_sort_key memories in
            if scope = ''preferences'' then merge_preferences ratio str_of sorted_memories
            else if scope = ''constraints'' then merge_constraints sorted_memories
            else if scope = ''communication'' then Inr (merge_communication sorted_memories)
            else if scope = ''accessibility'' then Inr (merge_accessibility sorted_memories)
            else if scope = ''schedule'' then merge_schedule sorted_memories
            else if scope = ''attention'' then Inr (merge_attention sorted_memories)
            else Inr \<lparr> summary_text = ''Unknown scope: '' @ scope, summary_struct = [],
                       merge_confidence = 0 \<rparr>))"

definition is_digit :: "char \<Rightarrow> bool" where
  "is_digit c = (c \<in> set ''0123456789'')"

section \<open>Input sanitization (app/sanitization.py)\<close>

text \<open>
  The sanitizers of the read path, on ASCII text. Each returns the cleaned string or the
  ValueError it raises. The regular expressions are character-class tests on the whole
  (already stripped) string.
\<close>

definition is_lower_letter :: "char \<Rightarrow> bool" where
  "is_lower_letter c = (c \<in> set ''abcdefghijklmnopqrstuvwxyz'')"

definition is_upper_letter :: "char \<Rightarrow> bool" where
  "is_upper_letter c = (c \<in> set ''ABCDEFGHIJKLMNOPQRSTUVWXYZ'')"

definition is_alnum :: "char \<Rightarrow> bool" where
  "is_alnum c = (is_lower_letter c \<or> is_upper_letter c \<or> is_digit c)"

text \<open>\<^verbatim>\<open>html.escape\<close>, quotes included.\<close>

definition html_escape :: "string \<Rightarrow> string" where
  "html_escape s =
     concat (map (\<lambda>c. if c = CHR ''&'' then ''&amp;''
                        else if c = CHR ''<'' then ''&lt;''
                        else if c = CHR ''>'' then ''&gt;''
                        else if c = CHR 0x22 then ''&quot;''
                        else if c = CHR 0x27 then ''&#x27;''
                        else [c]) s)"

definition sanitize_user_id :: "string \<Rightarrow> py_error + string" where
  "sanitize_user_id user_id =
     (if user_id = [] then Inl (ValueError ''user_id cannot be empty'')
      else (let u = strip user_id in
            if length u > 255 then Inl (ValueError ''user_id exceeds maximum length of 255'')
            else if u = [] \<or> \<not> list_all (\<lambda>c. is_alnum c \<or> c \<in> set ''_-.@'') u
              then Inl (ValueError ''user_id contains invalid characters'')
            else Inr u))"

definition sanitize_scope :: "string \<Rightarrow> py_error + string" where
  "sanitize_scope sc =
     (if sc = [] then Inl (ValueError ''scope cannot be empty'')
      else (let s = lower (strip sc) in
            if length s > 50 then Inl (ValueError ''scope exceeds maximum length of 50'')
            else if s = [] \<or> \<not> list_all (\<lambda>c. is_lower_letter c \<or> c = CHR ''_'') s
              then Inl (ValueError ''scope contains invalid characters'')
            else Inr s))"

definition sanitize_domain :: "string option \<Rightarrow> py_error + string option" where
  "sanitize_domain domain =
     (case domain of
        None \<Rightarrow> Inr None
      | Some d0 \<Rightarrow>
          (let d = strip d0 in
           if d = [] then Inr None
           else if length d > 500 then Inl (ValueError ''domain exceeds maximum length of 500'')
           else if \<not> list_all (\<lambda>c. is_alnum c \<or> c \<in> set ''_-./'' \<or> is_space c) d
             then Inl (ValueError ''domain contains invalid characters'')
           else Inr (Some d)))"

definition sanitize_purpose :: "string \<Rightarrow> py_error + string" where
  "sanitize_purpose purpose =
     (if purpose = [] then Inl (ValueError ''purpose cannot be empty'')
      else (let p = strip purpose in
            if length p > 1000 then Inl (ValueError ''purpose exceeds maximum length of 1000'')
            else Inr (html_escape p)))"

section \<open>The v1 store, policy matrix and grants (app/models.py, app/schemas.py, app/main.py)\<close>

record Memory =
  m_id :: string
  m_user_id :: string
  m_scope :: string
  m_domain :: "string option"
  m_value_json :: pyval
  m_value_shape :: string
  m_source :: string
  m_ttl_days :: int
  m_created_at :: int
  m_expires_at :: int
  m_app_id :: string

record ReadGrant =
  grant_id :: string
  revocation_token_hash :: string
  grant_user_id :: string
  grant_app_id :: string
  grant_scope :: string
  grant_domain :: "string option"
  grant_purpose :: string
  grant_purpose_class :: string
  grant_max_age_days :: "int option"
  grant_created_at :: int
  grant_expires_at :: int
  revoked_at :: "int option"
  revoke_reason :: "string option"

record AuditEvent =
  audit_event_type :: string
  audit_app_id :: string
  audit_user_id :: "string option"
  audit_scope :: "string option"
  audit_domain :: "string option"
  audit_purpose :: "string option"
  audit_purpose_class :: "string option"
  audit_memory_ids :: "string list option"
  audit_revocation_grant_id :: "string option"
  audit_reason_code :: "string option"

record Store =
  memories :: "Memory list"
  read_grants :: "ReadGrant list"
  audit_events :: "AuditEvent list"

definition ALLOWED_SCOPES :: "string list" where
  "ALLOWED_SCOPES =
     [''preferences'', ''constraints'', ''communication'', ''accessibility'', ''schedule'',
      ''attention'']"

definition POLICY_MATRIX :: "(string \<times> string list) list" where
  "POLICY_MATRIX =
     [(''preferences'', [''content_generation'', ''recommendation'']),
      (''constraints'', [''recommendation'', ''scheduling'', ''task_execution'']),
      (''communication'', [''content_generation'', ''notification_delivery'', ''ui_rendering'']),
      (''accessibility'', [''ui_rendering'', ''content_generation'', ''notification_delivery'']),
      (''schedule'', [''scheduling'', ''task_execution'']),
      (''attention'', [''notification_delivery'', ''ui_rendering''])]"

definition check_policy :: "string \<Rightarrow> string \<Rightarrow> bool" where
  "check_policy sc purpose_class =
     (case map_of POLICY_MATRIX sc of None \<Rightarrow> False | Some allowed \<Rightarrow> purpose_class \<in> set allowed)"

definition create_audit_event :: "Store \<Rightarrow> AuditEvent \<Rightarrow> Store" where
  "create_audit_event db event = db\<lparr>audit_events := audit_events db @ [event]\<rparr>"

definition audit_base :: "string \<Rightarrow> string \<Rightarrow> AuditEvent" where
  "audit_base event_type app_id =
     \<lparr> audit_event_type = event_type, audit_app_id = app_id, audit_user_id = None,
       audit_scope = None, audit_domain = None, audit_purpose = None,
       audit_purpose_class = None, audit_memory_ids = None, audit_revocation_grant_id = None,
       audit_reason_code = None \<rparr>"

text \<open>
  \<open>_query_and_merge_memories\<close>: the caller's unexpired memories of the user and scope,
  of the given domain (or without domain), not older than \<open>max_age_days\<close> when that is
  given, the fifty newest; then the merge. Times are seconds.
\<close>

definition query_v1 ::
  "Store \<Rightarrow> string \<Rightarrow> string \<Rightarrow> string \<Rightarrow> string option \<Rightarrow> int option \<Rightarrow> int \<Rightarrow> Memory list" where
  "query_v1 db app_id user_id sc domain max_age_days now =
     take 50
       (sort_key (\<lambda>m. - m_created_at m)
          (filter
             (\<lambda>m. m_user_id m = user_id \<and> m_scope m = sc \<and> m_expires_at m > now
                  \<and> m_app_id m = app_id
                  \<and> (case domain of
                        None \<Rightarrow> m_domain m = None
                      | Some d \<Rightarrow> (if d \<noteq> [] then m_domain m = Some d else m_domain m = None))
                  \<and> (case max_age_days of
                        None \<Rightarrow> True
                      | Some days \<Rightarrow>
                          (if days \<noteq> 0 then m_created_at m \<ge> now - days * 86400 else True)))
             (memories db)))"

definition memory_dict :: "Memory \<Rightarrow> MemoryDict" where
  "memory_dict m =
     \<lparr> md_id = m_id m, md_value_json = m_value_json m, md_value_shape = m_value_shape m,
       md_created_at = m_created_at m \<rparr>"

definition query_and_merge_memories ::
  "(string \<Rightarrow> string \<Rightarrow> real) \<Rightarrow> (pyval \<Rightarrow> string) \<Rightarrow> Store \<Rightarrow> string \<Rightarrow> string \<Rightarrow> string
     \<Rightarrow> string option \<Rightarrow> int option \<Rightarrow> int \<Rightarrow> (py_error + MergeResult) \<times> string list" where
  "query_and_merge_memories ratio str_of db app_id user_id sc domain max_age_days now =
     (let ms = query_v1 db app_id user_id sc domain max_age_days now
      in (merge_memories_deterministic ratio str_of (map memory_dict ms) sc, map m_id ms))"

record MemoryReadRequest =
  rr_user_id :: string
  rr_scope :: string
  rr_domain :: "string option"
  rr_purpose :: string
  rr_max_age_days :: "int option"

record MemoryReadResponse =
  rresp_summary_text :: string
  rresp_summary_struct :: "(string \<times> pyval) list"
  rresp_confidence :: real
  rresp_revocation_token :: string
  rresp_expires_at :: int

record MemoryReadContinueRequest =
  cont_revocation_token :: string
  cont_max_age_days :: "int option"

record MemoryRevokeRequest =
  rv_revocation_token :: string

record MemoryRevokeResponse =
  revoked :: bool
  resp_revoked_at :: int

text \<open>
  What a request brings from outside: the clock, and for a read the freshly generated
  token and grant id. \<open>hash\<close>, the SHA-256 of a token, is a parameter of the handlers.
\<close>

record V1Env =
  v1_now :: int
  new_token :: string
  new_grant_id :: string

definition find_grant :: "Store \<Rightarrow> string \<Rightarrow> string \<Rightarrow> ReadGrant option" where
  "find_grant db token_hash app_id =
     find (\<lambda>g. revocation_token_hash g = token_hash \<and> grant_app_id g = app_id) (read_grants db)"

text \<open>
  \<open>read_memory\<close>. A scope outside the allowed six is refused by the request model
  (422), a sanitizer's ValueError is a 400, a purpose class outside the
  scope's row of the matrix is an audited 403, an exception of the merge or of the
  commit (the hash column is unique) is a 500. On success the grant row is stored,
  unrevoked, for 24 hours, under the hash of the new token. The request model's other
  bound, \<open>max_age_days\<close> at least 1, is not modelled: \<open>read_memory\<close> and
  \<open>continue_read_memory\<close> describe the handlers on the requests that pass it.
\<close>

definition read_memory ::
  "(string \<Rightarrow> string) \<Rightarrow> (string \<Rightarrow> string \<Rightarrow> real) \<Rightarrow> (pyval \<Rightarrow> string) \<Rightarrow> V1Env \<Rightarrow> Store \<Rightarrow> string
     \<Rightarrow> MemoryReadRequest \<Rightarrow> Store \<times> (http_error + MemoryReadResponse)" where
  "read_memory hash ratio str_of env db app_id read_request =
     (if rr_scope read_request \<notin> set ALLOWED_SCOPES
      then (db, Inl (HTTPException 422 ''scope must be one of the allowed scopes''))
      else
      case sanitize_user_id (rr_user_id read_request) of
        Inl e \<Rightarrow> (db, Inl (HTTPException 400 (error_text e)))
      | Inr user_id \<Rightarrow>
     (case sanitize_scope (rr_scope read_request) of
        Inl e \<Rightarrow> (db, Inl (HTTPException 400 (error_text e)))
      | Inr sc \<Rightarrow>
     (case (case rr_domain read_request of
              None \<Rightarrow> Inr None
            | Some d \<Rightarrow> (if d \<noteq> [] then sanitize_domain (Some d) else Inr None)) of
        Inl e \<Rightarrow> (db, Inl (HTTPException 400 (error_text e)))
      | Inr domain \<Rightarrow>
     (case sanitize_purpose (rr_purpose read_request) of
        Inl e \<Rightarrow> (db, Inl (HTTPException 400 (error_text e)))
      | Inr purpose \<Rightarrow>
          (let purpose_class = normalize_purpose purpose in
           if \<not> check_policy sc purpose_class then
             (create_audit_event db
                ((audit_base ''MEMORY_READ'' app_id)
                   \<lparr> audit_user_id := Some user_id, audit_scope := Some sc, audit_domain := domain,
                     audit_purpose := Some purpose, audit_purpose_class := Some purpose_class,
                     audit_reason_code := Some ''POLICY_DENIED'' \<rparr>),
              Inl (HTTPException 403
                     (''Purpose class '' @ [CHR 0x27] @ purpose_class @ [CHR 0x27]
                        @ '' not allowed for scope '' @ [CHR 0x27] @ sc @ [CHR 0x27])))
           else
             (case query_and_merge_memories ratio str_of db app_id user_id sc domain
                     (rr_max_age_days read_request) (v1_now env) of
                (Inl e, memory_ids) \<Rightarrow> (db, Inl (HTTPException 500 (error_text e)))
              | (Inr merged, memory_ids) \<Rightarrow>
                  (let token_hash = hash (new_token env);
                       expires_at = v1_now env + 24 * 3600;
                       read_grant =
                         \<lparr> grant_id = new_grant_id env,
                           revocation_token_hash = token_hash,
                           grant_user_id = rr_user_id read_request,
                           grant_app_id = app_id,
                           grant_scope = rr_scope read_request,
                           grant_domain = rr_domain read_request,
                           grant_purpose = rr_purpose read_request,
                           grant_purpose_class = purpose_class,
                           grant_max_age_days = rr_max_age_days read_request,
                           grant_created_at = v1_now env,
                           grant_expires_at = expires_at,
                           revoked_at = None,
                           revoke_reason = None \<rparr>
                   in if token_hash \<in> set (map revocation_token_hash (read_grants db))
                         \<or> new_grant_id env \<in> set (map grant_id (read_grants db))
                      then (db, Inl (HTTPException 500 ''integrity''))
                      else
                        (create_audit_event (db\<lparr>read_grants := read_grants db @ [read_grant]\<rparr>)
                           ((audit_base ''MEMORY_READ'' app_id)
                              \<lparr> audit_user_id := Some user_id, audit_scope := Some sc,
                                audit_domain := domain, audit_purpose := Some purpose,
                                audit_purpose_class := Some purpose_class,
                                audit_memory_ids :=
                                  (if memory_ids \<noteq> [] then Some memory_ids else None),
                                audit_revocation_grant_id := Some (new_grant_id env) \<rparr>),
                         Inr \<lparr> rresp_summary_text = summary_text merged,
                               rresp_summary_struct = summary_struct merged,
                               rresp_confidence = merge_confidence merged,
                               rresp_revocation_token = new_token env,
                               rresp_expires_at = expires_at \<rparr>))))))))"

text \<open>
  \<open>continue_read_memory\<close>: the grant is looked up by the token's hash and the caller's
  app; no row is a 404, a revoked row a 403 with detail REVOKED, an expired row the
  same; otherwise the merge is run again with the grant's parameters and audited.
\<close>

definition continue_read_memory ::
  "(string \<Rightarrow> string) \<Rightarrow> (string \<Rightarrow> string \<Rightarrow> real) \<Rightarrow> (pyval \<Rightarrow> string) \<Rightarrow> V1Env \<Rightarrow> Store \<Rightarrow> string
     \<Rightarrow> MemoryReadContinueRequest \<Rightarrow> Store \<times> (http_error + MemoryReadResponse)" where
  "continue_read_memory hash ratio str_of env db app_id continue_request =
     (case find_grant db (hash (cont_revocation_token continue_request)) app_id of
        None \<Rightarrow> (db, Inl (HTTPException 404 ''Revocation token not found''))
      | Some read_grant \<Rightarrow>
          (if revoked_at read_grant \<noteq> None then (db, Inl (HTTPException 403 ''REVOKED''))
           else if grant_expires_at read_grant < v1_now env
             then (db, Inl (HTTPException 403 ''REVOKED''))
           else
             (let max_age_days =
                    (case cont_max_age_days continue_request of
                       Some d \<Rightarrow> Some d
                     | None \<Rightarrow> grant_max_age_days read_grant)
              in case query_and_merge_memories ratio str_of db app_id (grant_user_id read_grant)
                        (grant_scope read_grant) (grant_domain read_grant) max_age_days
                        (v1_now env) of
                   (Inl e, memory_ids) \<Rightarrow> (db, Inl (HTTPException 500 (error_text e)))
                 | (Inr merged, memory_ids) \<Rightarrow>
                     (create_audit_event db
                        ((audit_base ''MEMORY_READ'' app_id)
                           \<lparr> audit_user_id := Some (grant_user_id read_grant),
                             audit_scope := Some (grant_scope read_grant),
                             audit_domain := grant_domain read_grant,
                             audit_purpose := Some (grant_purpose read_grant),
                             audit_purpose_class := Some (grant_purpose_class read_grant),
                             audit_revocation_grant_id := Some (grant_id read_grant),
                             audit_reason_code := Some ''CONTINUE'' \<rparr>),
                      Inr \<lparr> rresp_summary_text = summary_text merged,
                            rresp_summary_struct = summary_struct merged,
                            rresp_confidence = merge_confidence merged,
                            rresp_revocation_token = cont_revocation_token continue_request,
                            rresp_expires_at = grant_expires_at read_grant \<rparr>))))"

text \<open>
  \<open>revoke_memory\<close>: no row, or a row already revoked, is a 404; otherwise the row's
  \<open>revoked_at\<close> becomes the current time.
\<close>

fun update_first :: "('a \<Rightarrow> bool) \<Rightarrow> ('a \<Rightarrow> 'a) \<Rightarrow> 'a list \<Rightarrow> 'a list" where
  "update_first P f [] = []"
| "update_first P f (x # xs) = (if P x then f x # xs else x # update_first P f xs)"

definition revoke_memory ::
  "(string \<Rightarrow> string) \<Rightarrow> V1Env \<Rightarrow> Store \<Rightarrow> string \<Rightarrow> MemoryRevokeRequest
     \<Rightarrow> Store \<times> (http_error + MemoryRevokeResponse)" where
  "revoke_memory hash env db app_id revoke_request =
     (let token_hash = hash (rv_revocation_token revoke_request) in
      case find_grant db token_hash app_id of
        None \<Rightarrow> (db, Inl (HTTPException 404 ''Revocation token not found''))
      | Some read_grant \<Rightarrow>
          (if revoked_at read_grant \<noteq> None
           then (db, Inl (HTTPException 404 ''Revocation token not found''))
           else
             (create_audit_event
                (db\<lparr>read_grants :=
                      update_first
                        (\<lambda>g. revocation_token_hash g = token_hash \<and> grant_app_id g = app_id)
                        (\<lambda>g. g\<lparr>revoked_at := Some (v1_now env),
                                revoke_reason := Some ''user_requested''\<rparr>)
                        (read_grants db)\<rparr>)
                ((audit_base ''MEMORY_REVOKE'' app_id)
                   \<lparr> audit_user_id := Some (grant_user_id read_grant),
                     audit_scope := Some (grant_scope read_grant),
                     audit_domain := grant_domain read_grant,
                     audit_revocation_grant_id := Some (grant_id read_grant) \<rparr>),
              Inr \<lparr> revoked = True, resp_revoked_at = v1_now env \<rparr>)))"

text \<open>A call of one of the three grant endpoints by an app, and a run of such calls.\<close>

datatype v1_call =
    ReadCall string V1Env MemoryReadRequest
  | ContinueCall string V1Env MemoryReadContinueRequest
  | RevokeCall string V1Env MemoryRevokeRequest

fun v1_step ::
  "(string \<Rightarrow> string) \<Rightarrow> (string \<Rightarrow> string \<Rightarrow> real) \<Rightarrow> (pyval \<Rightarrow> string) \<Rightarrow> Store \<Rightarrow> v1_call \<Rightarrow> Store" where
  "v1_step hash ratio str_of db (ReadCall app_id env req) =
     fst (read_memory hash ratio str_of env db app_id req)"
| "v1_step hash ratio str_of db (ContinueCall app_id env req) =
     fst (continue_read_memory hash ratio str_of env db app_id req)"
| "v1_step hash ratio str_of db (RevokeCall app_id env req) =
     fst (revoke_memory hash env db app_id req)"

definition v1_run ::
  "(string \<Rightarrow> string) \<Rightarrow> (string \<Rightarrow> string \<Rightarrow> real) \<Rightarrow> (pyval \<Rightarrow> string) \<Rightarrow> Store \<Rightarrow> v1_call list \<Rightarrow> Store" where
  "v1_run hash ratio str_of db calls = foldl (v1_step hash ratio str_of) db calls"

definition revokes :: "(string \<Rightarrow> string) \<Rightarrow> string \<Rightarrow> string \<Rightarrow> v1_call \<Rightarrow> bool" where
  "revokes hash app_id token call =
     (case call of
        RevokeCall a env req \<Rightarrow> a = app_id \<and> hash (rv_revocation_token req) = hash token
      | _ \<Rightarrow> False)"

section \<open>Canonical types (app/memoryscope/core\_types.py)\<close>

datatype MemoryType = EVENT | IMPACT | SEED

datatype TruthMode =
    FACTUAL_CLAIM | SUBJECTIVE_EXPERIENCE | COUNTERFACTUAL | IMAGINED
  | SOCIALLY_SOURCED | PROCEDURAL | SOMATIC | IDENTITY_ROLE_BOUND

datatype MemoryState = ACTIVE | RESTRICTED | SEALED | DORMANT | REVOKED | TOMBSTONED

datatype OwnerType = OWNER_USER | OWNER_GROUP | OWNER_ORG | OWNER_SYSTEM | OWNER_EXTERNAL_SOURCE

datatype DisputeState = UNDISPUTED | UNVERIFIED | DISPUTED | CONTESTED

datatype Visibility = PRIVATE | SHARED_WITH_GROUP | SHARED_WITH_ORG | RESTRICTED_REVIEW

datatype SensitivityLevel = LOW | MEDIUM | HIGH | CRITICAL

datatype SensitivityHandling = NORMAL | NO_PROMPT | NO_SEARCH | SEALED_DEFAULT

datatype TimePrecision = EXACT | APPROXIMATE | RANGE | UNKNOWN

datatype DecayModel = HALF_LIFE | LINEAR | LOGARITHMIC | STEP

datatype ReconsolidationPolicy =
    NEVER_EDIT_SOURCE | APPEND_ONLY | ALLOW_RELABEL_AFFECT_ONLY | ALLOW_UPDATE_CLAIM_CONFIDENCE

datatype SourceType = SOURCE_USER | SOURCE_SYSTEM | SOURCE_IMPORT | SOURCE_HUMAN_AGENT

datatype SurfaceType = CHAT | EMAIL | TICKET | CALL_SUMMARY | FORM

datatype ScopeType =
    SCOPE_USER | SCOPE_ORG | SCOPE_APP | SCOPE_SESSION | SCOPE_PROJECT | SCOPE_CASE | SCOPE_ROLE

datatype PurposeType =
    CHAT_RESPONSE | TASK_EXECUTION | SAFETY_FILTERING | REFLECTION_REQUESTED_BY_USER
  | SUPPORT_AGENT_REVIEW | COMPLIANCE_AUDIT | DEBUGGING_REPLAY

text \<open>The \<^verbatim>\<open>.value\<close> of the string enums the policy engine reads.\<close>

fun MemoryType_value :: "MemoryType \<Rightarrow> string" where
  "MemoryType_value EVENT = ''event''"
| "MemoryType_value IMPACT = ''impact''"
| "MemoryType_value SEED = ''seed''"

fun TruthMode_value :: "TruthMode \<Rightarrow> string" where
  "TruthMode_value FACTUAL_CLAIM = ''factual_claim''"
| "TruthMode_value SUBJECTIVE_EXPERIENCE = ''subjective_experience''"
| "TruthMode_value COUNTERFACTUAL = ''counterfactual''"
| "TruthMode_value IMAGINED = ''imagined''"
| "TruthMode_value SOCIALLY_SOURCED = ''socially_sourced''"
| "TruthMode_value PROCEDURAL = ''procedural''"
| "TruthMode_value SOMATIC = ''somatic''"
| "TruthMode_value IDENTITY_ROLE_BOUND = ''identity_role_bound''"

fun MemoryState_value :: "MemoryState \<Rightarrow> string" where
  "MemoryState_value ACTIVE = ''active''"
| "MemoryState_value RESTRICTED = ''restricted''"
| "MemoryState_value SEALED = ''sealed''"
| "MemoryState_value DORMANT = ''dormant''"
| "MemoryState_value REVOKED = ''revoked''"
| "MemoryState_value TOMBSTONED = ''tombstoned''"

fun DisputeState_value :: "DisputeState \<Rightarrow> string" where
  "DisputeState_value UNDISPUTED = ''undisputed''"
| "DisputeState_value UNVERIFIED = ''unverified''"
| "DisputeState_value DISPUTED = ''disputed''"
| "DisputeState_value CONTESTED = ''contested''"

fun SensitivityLevel_value :: "SensitivityLevel \<Rightarrow> string" where
  "SensitivityLevel_value LOW = ''low''"
| "SensitivityLevel_value MEDIUM = ''medium''"
| "SensitivityLevel_value HIGH = ''high''"
| "SensitivityLevel_value CRITICAL = ''critical''"

fun SensitivityHandling_value :: "SensitivityHandling \<Rightarrow> string" where
  "SensitivityHandling_value NORMAL = ''normal''"
| "SensitivityHandling_value NO_PROMPT = ''no_prompt''"
| "SensitivityHandling_value NO_SEARCH = ''no_search''"
| "SensitivityHandling_value SEALED_DEFAULT = ''sealed_default''"

fun PurposeType_value :: "PurposeType \<Rightarrow> string" where
  "PurposeType_value CHAT_RESPONSE = ''chat_response''"
| "PurposeType_value TASK_EXECUTION = ''task_execution''"
| "PurposeType_value SAFETY_FILTERING = ''safety_filtering''"
| "PurposeType_value REFLECTION_REQUESTED_BY_USER = ''reflection_requested_by_user''"
| "PurposeType_value SUPPORT_AGENT_REVIEW = ''support_agent_review''"
| "PurposeType_value COMPLIANCE_AUDIT = ''compliance_audit''"
| "PurposeType_value DEBUGGING_REPLAY = ''debugging_replay''"

text \<open>\<^verbatim>\<open>MemoryState(v)\<close>: the member whose value is \<open>v\<close>, or a ValueError (here \<open>None\<close>).\<close>

definition MemoryState_of :: "pyval \<Rightarrow> MemoryState option" where
  "MemoryState_of v =
     (case v of
        PStr s \<Rightarrow>
          find (\<lambda>st. MemoryState_value st = s)
            [ACTIVE, RESTRICTED, SEALED, DORMANT, REVOKED, TOMBSTONED]
      | _ \<Rightarrow> None)"

text \<open>
  The nested models. Times are integers (seconds); the fields of \<open>MemoryObject\<close> that no
  modelled function reads (procedural and somatic payloads, history, reconsolidation
  trace) are left out.
\<close>

record Scope =
  scope_type :: ScopeType
  scope_id :: string

record Sensitivity =
  level :: SensitivityLevel
  categories :: "string list"
  handling :: SensitivityHandling

record Ownership =
  owner_type :: OwnerType
  owners :: "string list"
  claimant :: string
  subjects :: "string list"
  dispute_state :: DisputeState
  visibility :: Visibility

record Temporal =
  occurred_at_observed :: int
  occurred_at_claimed :: "int option"
  time_precision :: TimePrecision
  time_confidence :: real
  ordering_uncertainty :: bool

record Content =
  content_format :: string
  content_language :: string
  content_text :: "string option"
  content_json :: "(string \<times> pyval) list option"

record Affect =
  valence :: real
  arousal :: real
  labels :: "string list"
  affect_confidence :: real

record ImpactPayload =
  constraints :: "(string \<times> pyval) list list"

record SeedPayload =
  cues :: "string list"
  min_confidence :: real
  cooldown_seconds :: int

record Strength =
  initial :: real
  current :: real
  decay_model :: DecayModel
  half_life_days :: "int option"
  last_reinforced_at :: "int option"

record TransformEntry =
  transform_id :: string
  version :: string
  run_id :: string

record Provenance =
  source :: SourceType
  surface :: "SurfaceType option"
  conversation_id :: "string option"
  derived_from :: "string list"
  transform_chain :: "TransformEntry list"
  policy_version :: "string option"
  confidence :: real

record MemoryObject =
  mem_id :: string
  tenant_id :: string
  scope :: Scope
  mtype :: MemoryType
  truth_mode :: TruthMode
  state :: MemoryState
  sensitivity :: Sensitivity
  ownership :: Ownership
  temporal :: Temporal
  content :: Content
  affect :: Affect
  impact_payload :: "ImpactPayload option"
  seed_payload :: "SeedPayload option"
  strength :: Strength
  provenance :: Provenance
  reconsolidation_policy :: ReconsolidationPolicy

section \<open>Policy engine (app/memoryscope/policy\_engine.py)\<close>

text \<open>
  A policy document: its version, the \<open>defaults\<close> dictionary and the ordered rules,
  each \<open>{id, when, then}\<close> as \<open>_compile_rules\<close> leaves them.
\<close>

record Rule =
  rule_id :: string
  rule_when :: "(string \<times> pyval) list"
  rule_then :: "(string \<times> pyval) list"

record Policy =
  pol_version :: string
  defaults :: "(string \<times> string) list"
  rules :: "Rule list"

record PolicyTrace =
  trace_policy_version :: string
  matched_rules :: "string list"
  denied_reasons :: "string list"

definition default_policy :: Policy where
  "default_policy =
     \<lparr> pol_version = ''pol_2026_01_06_01'',
       defaults =
         [(''write'', ''allow''), (''read'', ''deny''), (''include_in_prompt'', ''deny''),
          (''tool_execution'', ''allow''), (''reinforcement'', ''allow''),
          (''derive_impacts'', ''allow''), (''derive_seeds'', ''allow'')],
       rules =
         [\<lparr> rule_id = ''seal_sensitive_events'',
             rule_when =
               [(''memory.type'', PStr ''event''),
                (''memory.sensitivity.categories'',
                   PList [PStr ''trauma'', PStr ''shame'', PStr ''moral_injury''])],
             rule_then =
               [(''set_state'', PStr ''sealed''), (''allow_read'', PBool False),
                (''include_in_prompt'', PBool False), (''derive_impacts'', PBool True),
                (''derive_seeds'', PBool True)] \<rparr>,
          \<lparr> rule_id = ''allow_impacts_for_chat'',
             rule_when =
               [(''memory.type'', PStr ''impact''),
                (''request.purpose'', PStr ''chat_response''),
                (''memory.sensitivity.level'', PList [PStr ''low'', PStr ''medium''])],
             rule_then = [(''allow_read'', PBool True), (''include_in_prompt'', PBool True)] \<rparr>,
          \<lparr> rule_id = ''deny_disputed_facts_in_chat'',
             rule_when =
               [(''memory.truth_mode'', PStr ''factual_claim''),
                (''memory.ownership.dispute_state'', PList [PStr ''disputed'', PStr ''contested'']),
                (''request.purpose'', PStr ''chat_response'')],
             rule_then = [(''allow_read'', PBool False)] \<rparr>,
          \<lparr> rule_id = ''deny_nonfactual_for_tools'',
             rule_when =
               [(''memory.truth_mode'',
                   PList [PStr ''counterfactual'', PStr ''imagined'', PStr ''socially_sourced'']),
                (''request.purpose'', PStr ''task_execution'')],
             rule_then = [(''allow_read'', PBool False)] \<rparr>] \<rparr>"

text \<open>
  \<open>_match_condition\<close>: walk the dotted path through the context (a missing key, a
  \<^verbatim>\<open>None\<close> or a non-dictionary on the way gives no match), then test membership when
  the condition value is a list and equality otherwise.
\<close>

fun resolve_path :: "string list \<Rightarrow> pyval \<Rightarrow> pyval option" where
  "resolve_path [] v = Some v"
| "resolve_path (part # parts) v =
     (case v of
        PDict d \<Rightarrow>
          (case map_of d part of
             None \<Rightarrow> None
           | Some PNone \<Rightarrow> None
           | Some w \<Rightarrow> resolve_path parts w)
      | _ \<Rightarrow> None)"

definition match_condition :: "string \<Rightarrow> pyval \<Rightarrow> pyval \<Rightarrow> bool" where
  "match_condition condition_key condition_value ctx =
     (case resolve_path (py_split CHR ''.'' condition_key) ctx of
        None \<Rightarrow> False
      | Some actual_value \<Rightarrow>
          (case condition_value of
             PList items \<Rightarrow> list_ex (py_eq actual_value) items
           | _ \<Rightarrow> py_eq actual_value condition_value))"

definition match_rule :: "Rule \<Rightarrow> pyval \<Rightarrow> bool" where
  "match_rule rule ctx = list_all (\<lambda>kv. match_condition (fst kv) (snd kv) ctx) (rule_when rule)"

definition ingest_context :: "MemoryObject \<Rightarrow> pyval" where
  "ingest_context memory =
     PDict
       [(''memory'',
         PDict
           [(''type'', PStr (MemoryType_value (mtype memory))),
            (''truth_mode'', PStr (TruthMode_value (truth_mode memory))),
            (''state'', PStr (MemoryState_value (state memory))),
            (''sensitivity'',
             PDict
               [(''level'', PStr (SensitivityLevel_value (level (sensitivity memory)))),
                (''categories'', PList (map PStr (categories (sensitivity memory)))),
                (''handling'', PStr (SensitivityHandling_value (handling (sensitivity memory))))]),
            (''ownership'',
             PDict
               [(''dispute_state'',
                 PStr (DisputeState_value (dispute_state (ownership memory))))])])]"

definition query_context :: "MemoryObject \<Rightarrow> PurposeType \<Rightarrow> pyval" where
  "query_context memory purpose =
     PDict
       [(''memory'',
         PDict
           [(''type'', PStr (MemoryType_value (mtype memory))),
            (''truth_mode'', PStr (TruthMode_value (truth_mode memory))),
            (''state'', PStr (MemoryState_value (state memory))),
            (''sensitivity'',
             PDict
               [(''level'', PStr (SensitivityLevel_value (level (sensitivity memory)))),
                (''categories'', PList (map PStr (categories (sensitivity memory))))]),
            (''ownership'',
             PDict
               [(''dispute_state'',
                 PStr (DisputeState_value (dispute_state (ownership memory))))])]),
        (''request'', PDict [(''purpose'', PStr (PurposeType_value purpose))])]"

text \<open>
  \<open>evaluate_ingest\<close>. The decision starts from the defaults (a missing default is a
  KeyError) and the rules are walked top to bottom; a matching rule may set the state
  (\<^verbatim>\<open>MemoryState(...)\<close> raises on an unknown value) and the two derivation flags.
\<close>

record IngestDecision =
  ing_allowed :: bool
  ing_state :: MemoryState
  derive_impacts :: bool
  derive_seeds :: bool
  ing_trace :: PolicyTrace

definition default_is_allow :: "Policy \<Rightarrow> string \<Rightarrow> py_error + bool" where
  "default_is_allow pol key =
     (case map_of (defaults pol) key of
        None \<Rightarrow> Inl (KeyError key)
      | Some v \<Rightarrow> Inr (v = ''allow''))"

fun ingest_rules :: "Rule list \<Rightarrow> pyval \<Rightarrow> IngestDecision \<Rightarrow> py_error + IngestDecision" where
  "ingest_rules [] ctx d = Inr d"
| "ingest_rules (rule # rest) ctx d =
     (if match_rule rule ctx then
        (let then' = rule_then rule;
             tr = (ing_trace d)\<lparr>matched_rules := matched_rules (ing_trace d) @ [rule_id rule]\<rparr>
         in case (case map_of then' ''set_state'' of
                    None \<Rightarrow> Inr (ing_state d)
                  | Some v \<Rightarrow>
                      (case MemoryState_of v of
                         None \<Rightarrow> Inl (ValueError ''set_state'')
                       | Some st \<Rightarrow> Inr st)) of
              Inl e \<Rightarrow> Inl e
            | Inr st \<Rightarrow>
                ingest_rules rest ctx
                  (d\<lparr> ing_state := st,
                      derive_impacts :=
                        (case map_of then' ''derive_impacts'' of
                           None \<Rightarrow> derive_impacts d
                         | Some v \<Rightarrow> v = PBool True),
                      derive_seeds :=
                        (case map_of then' ''derive_seeds'' of
                           None \<Rightarrow> derive_seeds d
                         | Some v \<Rightarrow> v = PBool True),
                      ing_trace :=
                        (if map_of then' ''allow_read'' = Some (PBool False)
                         then tr\<lparr>denied_reasons :=
                                   denied_reasons tr @ [''Rule '' @ rule_id rule @ '': read denied'']\<rparr>
                         else tr) \<rparr>))
      else ingest_rules rest ctx d)"

definition evaluate_ingest :: "Policy \<Rightarrow> MemoryObject \<Rightarrow> py_error + IngestDecision" where
  "evaluate_ingest pol memory =
     (case default_is_allow pol ''write'' of
        Inl e \<Rightarrow> Inl e
      | Inr w \<Rightarrow>
     (case default_is_allow pol ''derive_impacts'' of
        Inl e \<Rightarrow> Inl e
      | Inr di \<Rightarrow>
     (case default_is_allow pol ''derive_seeds'' of
        Inl e \<Rightarrow> Inl e
      | Inr ds \<Rightarrow>
          ingest_rules (rules pol) (ingest_context memory)
            \<lparr> ing_allowed = w, ing_state = state memory, derive_impacts = di, derive_seeds = ds,
              ing_trace =
                \<lparr> trace_policy_version = pol_version pol, matched_rules = [],
                  denied_reasons = [] \<rparr> \<rparr>)))"

text \<open>
  \<open>evaluate_query\<close>. Every matching rule's \<open>allow_read\<close> and \<open>include_in_prompt\<close> are
  collected; when any were given, the decision is their conjunction (most restrictive
  wins), otherwise the default stands.
\<close>

record QueryDecision =
  qry_allowed :: bool
  include_in_prompt :: bool
  qry_trace :: PolicyTrace

definition matching_rules :: "Policy \<Rightarrow> pyval \<Rightarrow> Rule list" where
  "matching_rules pol ctx = filter (\<lambda>rule. match_rule rule ctx) (rules pol)"

definition then_values :: "string \<Rightarrow> Rule list \<Rightarrow> pyval list" where
  "then_values key rs = List.map_filter (\<lambda>rule. map_of (rule_then rule) key) rs"

definition evaluate_query :: "Policy \<Rightarrow> MemoryObject \<Rightarrow> PurposeType \<Rightarrow> py_error + QueryDecision" where
  "evaluate_query pol memory purpose =
     (case default_is_allow pol ''read'' of
        Inl e \<Rightarrow> Inl e
      | Inr r \<Rightarrow>
     (case default_is_allow pol ''include_in_prompt'' of
        Inl e \<Rightarrow> Inl e
      | Inr ip \<Rightarrow>
          (let matched = matching_rules pol (query_context memory purpose);
               allow_decisions = then_values ''allow_read'' matched;
               include_decisions = then_values ''include_in_prompt'' matched;
               allowed = (if allow_decisions \<noteq> [] then list_all truthy allow_decisions else r)
           in Inr \<lparr> qry_allowed = allowed,
                    include_in_prompt =
                      (if include_decisions \<noteq> [] then list_all truthy include_decisions else ip),
                    qry_trace =
                      \<lparr> trace_policy_version = pol_version pol,
                        matched_rules = map rule_id matched,
                        denied_reasons =
                          (if allow_decisions \<noteq> [] \<and> \<not> allowed
                           then [''Rule denied read access''] else []) \<rparr> \<rparr>)))"

section \<open>Storage (app/memoryscope/storage.py)\<close>

text \<open>
  The store is the three v2 tables, each a list of rows in insertion order. A row of
  \<open>memories_v2\<close> is the stored object and the owning app; the indexed columns are
  projections of the object. Every store function commits on its own; \<open>ok\<close> says
  whether that commit succeeds. \<open>id\<close> is the primary key of \<open>memories_v2\<close>, so
  storing a second row with the same id is an integrity error.
\<close>

record MemoryRow =
  row_memory :: MemoryObject
  row_app_id :: string

record DerivedObjectLink =
  parent_id :: string
  child_id :: string
  relationship :: string
  link_rule :: string
  strength_transfer :: real
  link_created_at :: int

record AccessLogEntry =
  log_id :: string
  log_time :: int
  log_tenant_id :: string
  caller_client_id :: "string option"
  caller_user_id :: "string option"
  caller_ip :: "string option"
  log_scope :: Scope
  log_purpose :: PurposeType
  log_query_text :: "string option"
  log_query_op :: string
  decision_allowed :: bool
  decision_returned_ids :: "string list"
  decision_denied_ids :: "string list"
  decision_matched_rules :: "string list"
  decision_explanation :: string

record DB =
  memories_v2 :: "MemoryRow list"
  memory_links_v2 :: "DerivedObjectLink list"
  access_logs_v2 :: "AccessLogEntry list"

definition store_memory :: "bool \<Rightarrow> DB \<Rightarrow> MemoryObject \<Rightarrow> string \<Rightarrow> py_error + DB" where
  "store_memory ok db memory app_id =
     (if \<not> ok then Inl (StoreError ''commit'')
      else if mem_id memory \<in> set (map (mem_id \<circ> row_memory) (memories_v2 db))
        then Inl (StoreError ''integrity'')
      else Inr (db\<lparr>memories_v2 :=
                     memories_v2 db @ [\<lparr>row_memory = memory, row_app_id = app_id\<rparr>]\<rparr>))"

definition store_memory_link :: "bool \<Rightarrow> DB \<Rightarrow> DerivedObjectLink \<Rightarrow> py_error + DB" where
  "store_memory_link ok db link =
     (if \<not> ok then Inl (StoreError ''commit'')
      else Inr (db\<lparr>memory_links_v2 := memory_links_v2 db @ [link]\<rparr>))"

definition store_access_log :: "bool \<Rightarrow> DB \<Rightarrow> AccessLogEntry \<Rightarrow> py_error + DB" where
  "store_access_log ok db access_log =
     (if \<not> ok then Inl (StoreError ''commit'')
      else if log_id access_log \<in> set (map log_id (access_logs_v2 db))
        then Inl (StoreError ''integrity'')
      else Inr (db\<lparr>access_logs_v2 := access_logs_v2 db @ [access_log]\<rparr>))"

definition get_memory :: "DB \<Rightarrow> string \<Rightarrow> string \<Rightarrow> MemoryObject option" where
  "get_memory db memory_id tenant =
     map_option row_memory
       (find (\<lambda>r. mem_id (row_memory r) = memory_id \<and> tenant_id (row_memory r) = tenant)
          (memories_v2 db))"

definition update_memory_state ::
  "DB \<Rightarrow> string \<Rightarrow> string \<Rightarrow> MemoryState \<Rightarrow> DB \<times> MemoryObject option" where
  "update_memory_state db memory_id tenant new_state =
     (case get_memory db memory_id tenant of
        None \<Rightarrow> (db, None)
      | Some m \<Rightarrow>
          (db\<lparr>memories_v2 :=
                map (\<lambda>r. if mem_id (row_memory r) = memory_id \<and> tenant_id (row_memory r) = tenant
                          then r\<lparr>row_memory := (row_memory r)\<lparr>state := new_state\<rparr>\<rparr> else r)
                  (memories_v2 db)\<rparr>,
           Some (m\<lparr>state := new_state\<rparr>)))"

text \<open>
  \<open>query_memories\<close>. The filter dictionary has the six keys the function reads.
  The text search lowers and splits the query on whitespace and keeps the terms longer
  than two characters; a row passes when one of them matches \<open>content.text\<close> under the
  store's case-insensitive pattern operator \<open>ilike\<close>, which is a parameter here. Rows
  come back newest first, cut at \<open>limit\<close>. The store is free in the order of rows
  with the same \<open>occurred_at_observed\<close>; here they keep their insertion order (a
  stable sort).
\<close>

record QueryFilters =
  filter_state :: "MemoryState list option"
  filter_type :: "MemoryType list option"
  filter_truth_mode :: "TruthMode list option"
  exclude_sealed :: bool
  exclude_disputed :: bool
  min_strength :: "real option"

definition no_filters :: QueryFilters where
  "no_filters =
     \<lparr> filter_state = None, filter_type = None, filter_truth_mode = None,
       exclude_sealed = False, exclude_disputed = False, min_strength = None \<rparr>"

text \<open>\<^verbatim>\<open>s.split()\<close>: the maximal runs of non-whitespace characters.\<close>

fun py_words_acc :: "string \<Rightarrow> string \<Rightarrow> string list" where
  "py_words_acc cur [] = (if cur = [] then [] else [cur])"
| "py_words_acc cur (c # s) =
     (if is_space c then (if cur = [] then py_words_acc [] s else cur # py_words_acc [] s)
      else py_words_acc (cur @ [c]) s)"

definition py_words :: "string \<Rightarrow> string list" where
  "py_words s = py_words_acc [] s"

definition search_terms :: "string option \<Rightarrow> string list" where
  "search_terms query_text =
     (case query_text of
        None \<Rightarrow> []
      | Some qt \<Rightarrow> filter (\<lambda>term. length term > 2) (py_words (lower qt)))"

definition text_matches :: "(string \<Rightarrow> string \<Rightarrow> bool) \<Rightarrow> string list \<Rightarrow> MemoryObject \<Rightarrow> bool" where
  "text_matches ilike terms memory =
     (terms = [] \<or>
      list_ex (\<lambda>term. case content_text (content memory) of
                         None \<Rightarrow> False
                       | Some t \<Rightarrow> ilike (''%'' @ term @ ''%'') t) terms)"

definition passes_filters :: "QueryFilters \<Rightarrow> MemoryObject \<Rightarrow> bool" where
  "passes_filters f memory =
     ((case filter_state f of None \<Rightarrow> True | Some sts \<Rightarrow> state memory \<in> set sts) \<and>
      (case filter_type f of None \<Rightarrow> True | Some tys \<Rightarrow> mtype memory \<in> set tys) \<and>
      (case filter_truth_mode f of None \<Rightarrow> True | Some tms \<Rightarrow> truth_mode memory \<in> set tms) \<and>
      (exclude_sealed f \<longrightarrow> state memory \<noteq> SEALED) \<and>
      (exclude_disputed f \<longrightarrow> dispute_state (ownership memory) \<notin> set [DISPUTED, CONTESTED]) \<and>
      (case min_strength f of None \<Rightarrow> True | Some ms \<Rightarrow> current (strength memory) \<ge> ms))"

definition query_memories ::
  "(string \<Rightarrow> string \<Rightarrow> bool) \<Rightarrow> DB \<Rightarrow> string \<Rightarrow> Scope \<Rightarrow> QueryFilters \<Rightarrow> nat \<Rightarrow> string option
     \<Rightarrow> MemoryObject list" where
  "query_memories ilike db tenant sc filters limit query_text =
     take limit
       (sort_key (\<lambda>m. - occurred_at_observed (temporal m))
          (filter
             (\<lambda>m. tenant_id m = tenant \<and> scope_type (scope m) = scope_type sc
                  \<and> scope_id (scope m) = scope_id sc
                  \<and> passes_filters filters m
                  \<and> text_matches ilike (search_terms query_text) m)
             (map row_memory (memories_v2 db))))"

section \<open>Retrieval engine (app/memoryscope/retrieval.py)\<close>

record Seed =
  seed_id :: string
  seed_cues :: "string list"

record RetrievalResult =
  memory_ids :: "string list"
  impacts :: "(string \<times> pyval) list list"
  seeds :: "Seed list"
  events :: "string list"
  denied_ids :: "string list"

record RetrievalAcc =
  allowed_memories :: "MemoryObject list"
  acc_denied_ids :: "string list"
  acc_impacts :: "(string \<times> pyval) list list"
  acc_seeds :: "Seed list"
  acc_events :: "string list"

definition purpose_filters :: "PurposeType \<Rightarrow> QueryFilters" where
  "purpose_filters purpose =
     (if purpose = CHAT_RESPONSE \<or> purpose = TASK_EXECUTION
      then no_filters\<lparr>exclude_sealed := True, exclude_disputed := True\<rparr>
      else no_filters)"

text \<open>One pass of the loop over the fetched memories: policy first, then the type routing.\<close>

definition categorize :: "MemoryObject \<Rightarrow> RetrievalAcc \<Rightarrow> RetrievalAcc" where
  "categorize memory acc =
     (case mtype memory of
        IMPACT \<Rightarrow>
          (case impact_payload memory of
             None \<Rightarrow> acc
           | Some p \<Rightarrow> acc\<lparr>acc_impacts := acc_impacts acc @ constraints p\<rparr>)
      | SEED \<Rightarrow>
          acc\<lparr>acc_seeds := acc_seeds acc @
                 [\<lparr>seed_id = mem_id memory,
                   seed_cues = (case seed_payload memory of None \<Rightarrow> [] | Some p \<Rightarrow> cues p)\<rparr>]\<rparr>
      | EVENT \<Rightarrow>
          (if state memory \<noteq> SEALED
           then acc\<lparr>acc_events := acc_events acc @ [mem_id memory]\<rparr> else acc))"

fun retrieve_loop ::
  "Policy \<Rightarrow> PurposeType \<Rightarrow> MemoryObject list \<Rightarrow> RetrievalAcc \<Rightarrow> py_error + RetrievalAcc" where
  "retrieve_loop pol purpose [] acc = Inr acc"
| "retrieve_loop pol purpose (memory # rest) acc =
     (case evaluate_query pol memory purpose of
        Inl e \<Rightarrow> Inl e
      | Inr policy_result \<Rightarrow>
          (if \<not> qry_allowed policy_result
           then retrieve_loop pol purpose rest
                  (acc\<lparr>acc_denied_ids := acc_denied_ids acc @ [mem_id memory]\<rparr>)
           else retrieve_loop pol purpose rest
                  (categorize memory (acc\<lparr>allowed_memories := allowed_memories acc @ [memory]\<rparr>))))"

definition nonfactual :: "TruthMode \<Rightarrow> bool" where
  "nonfactual tm = (tm \<in> set [COUNTERFACTUAL, IMAGINED, SOCIALLY_SOURCED])"

text \<open>The second pass, for \<open>task_execution\<close> only: nonfactual memories move to the denied ids.\<close>

definition task_filter :: "PurposeType \<Rightarrow> RetrievalAcc \<Rightarrow> RetrievalAcc" where
  "task_filter purpose acc =
     (if purpose = TASK_EXECUTION
      then acc\<lparr> allowed_memories := filter (\<lambda>m. \<not> nonfactual (truth_mode m)) (allowed_memories acc),
                acc_denied_ids :=
                  acc_denied_ids acc @
                    map mem_id (filter (\<lambda>m. nonfactual (truth_mode m)) (allowed_memories acc)) \<rparr>
      else acc)"

definition retrieve_rows ::
  "Policy \<Rightarrow> PurposeType \<Rightarrow> MemoryObject list \<Rightarrow> py_error + RetrievalResult" where
  "retrieve_rows pol purpose all_memories =
     (case retrieve_loop pol purpose all_memories
             \<lparr> allowed_memories = [], acc_denied_ids = [], acc_impacts = [], acc_seeds = [],
               acc_events = [] \<rparr> of
        Inl e \<Rightarrow> Inl e
      | Inr acc0 \<Rightarrow>
          (let acc = task_filter purpose acc0
           in Inr \<lparr> memory_ids = map mem_id (allowed_memories acc),
                    impacts = acc_impacts acc,
                    seeds = acc_seeds acc,
                    events = acc_events acc,
                    denied_ids = acc_denied_ids acc \<rparr>))"

definition retrieve_for_purpose ::
  "(string \<Rightarrow> string \<Rightarrow> bool) \<Rightarrow> Policy \<Rightarrow> DB \<Rightarrow> string \<Rightarrow> Scope \<Rightarrow> PurposeType \<Rightarrow> string option
     \<Rightarrow> nat \<Rightarrow> py_error + RetrievalResult" where
  "retrieve_for_purpose ilike pol db tenant sc purpose query_text limit =
     retrieve_rows pol purpose
       (query_memories ilike db tenant sc (purpose_filters purpose) (limit * 2) query_text)"

section \<open>Impact extraction (app/memoryscope/impact\_extraction.py)\<close>

text \<open>
  Generated identifiers and the clock are inputs: the \<open>k\<close>-th constraint built for an
  event gets \<open>new_constraint_id k\<close>, the impact gets \<open>new_impact_id\<close>, and \<open>now_iso\<close>
  is the ISO form of the current time.
\<close>

record ExtractEnv =
  new_impact_id :: string
  new_constraint_id :: "nat \<Rightarrow> string"
  now_iso :: string

record ImpactExtractor =
  transform_version :: string

definition default_extractor :: ImpactExtractor where
  "default_extractor = \<lparr> transform_version = ''tx_impact_extract_v2.1.0'' \<rparr>"

text \<open>\<^verbatim>\<open>s.split(sep)\<close> for a non-empty separator string.\<close>

function py_split_str :: "string \<Rightarrow> string \<Rightarrow> string \<Rightarrow> string list" where
  "py_split_str sep cur [] = [cur]"
| "py_split_str sep cur (c # s) =
     (if sep \<noteq> [] \<and> prefix sep (c # s)
      then cur # py_split_str sep [] (drop (length sep) (c # s))
      else py_split_str sep (cur @ [c]) s)"
  by pat_completeness auto
termination
  by (relation "measure (\<lambda>(sep, cur, s). length s)") auto

definition policy_version_val :: "MemoryObject \<Rightarrow> pyval" where
  "policy_version_val event =
     (case policy_version (provenance event) of None \<Rightarrow> PNone | Some v \<Rightarrow> PStr v)"

definition constraint_provenance :: "ImpactExtractor \<Rightarrow> MemoryObject \<Rightarrow> pyval" where
  "constraint_provenance ex event =
     PDict [(''transform_id'', PStr (transform_version ex)),
            (''policy_version'', policy_version_val event)]"

definition constraint_merge :: "string \<Rightarrow> string \<Rightarrow> pyval" where
  "constraint_merge slot strategy =
     PDict [(''slot'', PStr slot), (''strategy'', PStr strategy),
            (''tie_breakers'', PList [PStr ''priority'', PStr ''created_at''])]"

definition create_safety_constraint ::
  "ImpactExtractor \<Rightarrow> ExtractEnv \<Rightarrow> nat \<Rightarrow> MemoryObject \<Rightarrow> string \<Rightarrow> bool \<Rightarrow> (string \<times> pyval) list" where
  "create_safety_constraint ex env k event mode consent_required =
     [(''constraint_id'', PStr (new_constraint_id env k)),
      (''kind'', PStr ''safety''),
      (''topic'', PStr ''safety''),
      (''target'', PStr ''response''),
      (''rule'', PStr ''safety_extraction_v2''),
      (''params'', PDict [(''mode'', PStr mode), (''consent_required'', PBool consent_required)]),
      (''weight'', PFloat 1),
      (''priority'', PInt 10),
      (''confidence'', PFloat (8 / 10)),
      (''created_at'', PStr (now_iso env @ ''Z'')),
      (''expires_at'', PNone),
      (''source_refs'', PList [PStr (mem_id event)]),
      (''provenance'', constraint_provenance ex event),
      (''merge'', constraint_merge ''safety'' ''intersection'')]"

definition create_avoid_constraint ::
  "ImpactExtractor \<Rightarrow> ExtractEnv \<Rightarrow> nat \<Rightarrow> MemoryObject \<Rightarrow> string \<Rightarrow> (string \<times> pyval) list" where
  "create_avoid_constraint ex env k event content_class =
     [(''constraint_id'', PStr (new_constraint_id env k)),
      (''kind'', PStr ''avoid''),
      (''topic'', PStr ''content''),
      (''target'', PStr ''response''),
      (''rule'', PStr ''avoid_extraction_v2''),
      (''params'', PDict [(''content_class'', PStr content_class)]),
      (''weight'', PFloat (9 / 10)),
      (''priority'', PInt 8),
      (''confidence'', PFloat (75 / 100)),
      (''created_at'', PStr (now_iso env @ ''Z'')),
      (''expires_at'', PNone),
      (''source_refs'', PList [PStr (mem_id event)]),
      (''provenance'', constraint_provenance ex event),
      (''merge'', constraint_merge ''avoid'' ''intersection'')]"

definition create_tone_constraint ::
  "ImpactExtractor \<Rightarrow> ExtractEnv \<Rightarrow> nat \<Rightarrow> MemoryObject \<Rightarrow> string \<Rightarrow> (string \<times> pyval) list" where
  "create_tone_constraint ex env k event tone_profile =
     [(''constraint_id'', PStr (new_constraint_id env k)),
      (''kind'', PStr ''tone''),
      (''topic'', PStr ''tone''),
      (''target'', PStr ''response''),
      (''rule'', PStr ''tone_extraction_v2''),
      (''params'', PDict [(''tone_profile'', PStr tone_profile)]),
      (''weight'', PFloat (7 / 10)),
      (''priority'', PInt 5),
      (''confidence'', PFloat (7 / 10)),
      (''created_at'', PStr (now_iso env @ ''Z'')),
      (''expires_at'', PNone),
      (''source_refs'', PList [PStr (mem_id event)]),
      (''provenance'', constraint_provenance ex event),
      (''merge'', constraint_merge ''tone'' ''latest_wins'')]"

definition create_style_constraint ::
  "ImpactExtractor \<Rightarrow> ExtractEnv \<Rightarrow> nat \<Rightarrow> MemoryObject \<Rightarrow> string \<Rightarrow> (string \<times> pyval) list" where
  "create_style_constraint ex env k event fmt =
     [(''constraint_id'', PStr (new_constraint_id env k)),
      (''kind'', PStr ''style''),
      (''topic'', PStr ''style''),
      (''target'', PStr ''response''),
      (''rule'', PStr ''style_extraction_v2''),
      (''params'', PDict [(''format'', PStr fmt)]),
      (''weight'', PFloat (6 / 10)),
      (''priority'', PInt 4),
      (''confidence'', PFloat (65 / 100)),
      (''created_at'', PStr (now_iso env @ ''Z'')),
      (''expires_at'', PNone),
      (''source_refs'', PList [PStr (mem_id event)]),
      (''provenance'', constraint_provenance ex event),
      (''merge'', constraint_merge ''style'' ''union'')]"

definition detect_tone_preference :: "string \<Rightarrow> string option" where
  "detect_tone_preference txt =
     (let text_lower = lower txt in
      if any_kw [''gentle'', ''soft'', ''kind'', ''caring''] text_lower then Some ''reassuring''
      else if any_kw [''direct'', ''straightforward'', ''clear''] text_lower then Some ''matter_of_fact''
      else if any_kw [''supportive'', ''helpful'', ''encouraging''] text_lower then Some ''supportive''
      else if any_kw [''firm'', ''strict'', ''serious''] text_lower then Some ''firm''
      else None)"

text \<open>
  The two regular expressions of \<open>_detect_style_preference\<close>, on ASCII text: a bullet
  mark (\<open>-\<close>, \<open>*\<close>, or the UTF-8 bytes of the bullet character) followed by
  whitespace, and a digit followed by a dot and whitespace.
\<close>

fun has_bullet :: "string \<Rightarrow> bool" where
  "has_bullet [] = False"
| "has_bullet (c # s) =
     (((c = CHR ''-'' \<or> c = CHR ''*'') \<and> (case s of [] \<Rightarrow> False | d # _ \<Rightarrow> is_space d))
      \<or> (prefix [CHR 0xE2, CHR 0x80, CHR 0xA2] (c # s)
          \<and> (case drop 2 s of [] \<Rightarrow> False | d # _ \<Rightarrow> is_space d))
      \<or> has_bullet s)"

fun has_numbered :: "string \<Rightarrow> bool" where
  "has_numbered [] = False"
| "has_numbered (c # s) =
     ((is_digit c \<and> (case s of d # e # _ \<Rightarrow> d = CHR ''.'' \<and> is_space e | _ \<Rightarrow> False))
      \<or> has_numbered s)"

definition detect_style_preference :: "string \<Rightarrow> string option" where
  "detect_style_preference txt =
     (let text_lower = lower txt in
      if has_bullet txt \<or> py_in ''bullet'' text_lower then Some ''bullets''
      else if has_numbered txt \<or> py_in ''numbered'' text_lower then Some ''numbered_steps''
      else if length (py_split_str [CHR 0x0A, CHR 0x0A] [] txt) > 3 \<or> py_in ''paragraph'' text_lower
        then Some ''short_paragraphs''
      else None)"

definition sensitive_level :: "MemoryObject \<Rightarrow> bool" where
  "sensitive_level event = (level (sensitivity event) \<in> set [HIGH, CRITICAL])"

definition extract_constraints ::
  "ImpactExtractor \<Rightarrow> ExtractEnv \<Rightarrow> MemoryObject \<Rightarrow> (string \<times> pyval) list list" where
  "extract_constraints ex env event =
     (let cats = categories (sensitivity event);
          c1 = (if sensitive_level event \<and> ''trauma'' \<in> set cats
                then [create_safety_constraint ex env 0 event ''supportive_reframe_only'' True]
                else []);
          c2 = (if sensitive_level event \<and> (''shame'' \<in> set cats \<or> ''moral_injury'' \<in> set cats)
                then c1 @ [create_avoid_constraint ex env (length c1) event ''judgment_language'',
                           create_tone_constraint ex env (length c1 + 1) event ''non_judgmental'']
                else c1);
          content_text = (case content_text (content event) of None \<Rightarrow> [] | Some t \<Rightarrow> t);
          c3 = (if mtype event = EVENT
                then (case detect_tone_preference content_text of
                        None \<Rightarrow> c2
                      | Some tone \<Rightarrow> c2 @ [create_tone_constraint ex env (length c2) event tone])
                else c2);
          c4 = (if mtype event = EVENT
                then (case detect_style_preference content_text of
                        None \<Rightarrow> c3
                      | Some style \<Rightarrow> c3 @ [create_style_constraint ex env (length c3) event style])
                else c3)
      in c4)"

definition transform_entry :: "ImpactExtractor \<Rightarrow> ExtractEnv \<Rightarrow> TransformEntry" where
  "transform_entry ex env =
     \<lparr> transform_id = transform_version ex,
       version = (if py_in ''_v'' (transform_version ex)
                  then last (py_split_str ''_v'' [] (transform_version ex)) else ''2.1.0''),
       run_id = ''run_'' @ now_iso env \<rparr>"

definition extract_impacts ::
  "ImpactExtractor \<Rightarrow> ExtractEnv \<Rightarrow> MemoryObject \<Rightarrow> bool \<Rightarrow> MemoryObject option" where
  "extract_impacts ex env event policy_allows =
     (if \<not> policy_allows then None
      else if state event = SEALED then None
      else (let cs = extract_constraints ex env event in
            if cs = [] then None
            else Some
              \<lparr> mem_id = new_impact_id env,
                tenant_id = tenant_id event,
                scope = scope event,
                mtype = IMPACT,
                truth_mode = PROCEDURAL,
                state = ACTIVE,
                sensitivity = sensitivity event,
                ownership = ownership event,
                temporal = temporal event,
                content = content event,
                affect = affect event,
                impact_payload = Some \<lparr> constraints = cs \<rparr>,
                seed_payload = None,
                strength = strength event,
                provenance =
                  \<lparr> source = SOURCE_SYSTEM, surface = None, conversation_id = None,
                    derived_from = [mem_id event],
                    transform_chain = [transform_entry ex env],
                    policy_version = policy_version (provenance event),
                    confidence = 7 / 10 \<rparr>,
                reconsolidation_policy = APPEND_ONLY \<rparr>))"

text \<open>
  \<open>extract_and_store_impact\<close>: the impact row and the link row are stored by two
  commits, \<open>impact_ok\<close> and \<open>link_ok\<close> saying whether each succeeds. The store that is
  returned is the committed one, also when a later step raises.
\<close>

definition extract_and_store_impact ::
  "bool \<Rightarrow> bool \<Rightarrow> ExtractEnv \<Rightarrow> int \<Rightarrow> DB \<Rightarrow> MemoryObject \<Rightarrow> string \<Rightarrow> ImpactExtractor \<Rightarrow> bool
     \<Rightarrow> DB \<times> (py_error + MemoryObject option)" where
  "extract_and_store_impact impact_ok link_ok env now db event app_id ex policy_allows =
     (case extract_impacts ex env event policy_allows of
        None \<Rightarrow> (db, Inr None)
      | Some impact \<Rightarrow>
          (case store_memory impact_ok db impact app_id of
             Inl e \<Rightarrow> (db, Inl e)
           | Inr db1 \<Rightarrow>
               (case store_memory_link link_ok db1
                       \<lparr> parent_id = mem_id event, child_id = mem_id impact,
                         relationship = ''derived_impact'', link_rule = transform_version ex,
                         strength_transfer = 4 / 10, link_created_at = now \<rparr> of
                  Inl e \<Rightarrow> (db1, Inl e)
                | Inr db2 \<Rightarrow> (db2, Inr (Some impact)))))"

section \<open>The v2 endpoints (app/memoryscope/v2\_api.py)\<close>

subsection \<open>POST /v2/memories\<close>

text \<open>
  The request as parsed; an absent optional field is \<open>None\<close>. \<open>build_memory\<close> is the
  construction of the \<open>MemoryObject\<close> with the request's defaults and the model's
  validators (an impact or seed without payload gets the empty one; an impact or seed
  with the default reconsolidation policy becomes append-only). The patterns and bounds
  the request model puts on its fields (a tenant id starts with \<open>t_\<close>) are not
  modelled: \<open>create_memory_v2\<close> describes the handler on the requests that pass them.
\<close>

record MemoryCreateRequestV2 =
  req_tenant_id :: string
  req_scope :: Scope
  req_type :: MemoryType
  req_truth_mode :: TruthMode
  req_state :: "MemoryState option"
  req_sensitivity :: "Sensitivity option"
  req_ownership :: Ownership
  req_temporal :: Temporal
  req_content :: Content
  req_affect :: "Affect option"
  req_impact_payload :: "ImpactPayload option"
  req_seed_payload :: "SeedPayload option"
  req_strength :: "Strength option"
  req_provenance :: Provenance
  req_reconsolidation_policy :: "ReconsolidationPolicy option"

record MemoryCreateResponseV2 =
  resp_id :: string
  resp_tenant_id :: string
  resp_state :: MemoryState
  resp_created_at :: int
  resp_policy_trace :: PolicyTrace

record IngestEnv =
  new_memory_id :: string
  extract_env :: ExtractEnv
  now :: int
  event_store_ok :: bool
  impact_store_ok :: bool
  link_store_ok :: bool

definition build_memory :: "string \<Rightarrow> MemoryCreateRequestV2 \<Rightarrow> MemoryObject" where
  "build_memory memory_id req =
     \<lparr> mem_id = memory_id,
       tenant_id = req_tenant_id req,
       scope = req_scope req,
       mtype = req_type req,
       truth_mode = req_truth_mode req,
       state = (case req_state req of None \<Rightarrow> ACTIVE | Some st \<Rightarrow> st),
       sensitivity =
         (case req_sensitivity req of
            None \<Rightarrow> \<lparr> level = LOW, categories = [], handling = NORMAL \<rparr>
          | Some sv \<Rightarrow> sv),
       ownership = req_ownership req,
       temporal = req_temporal req,
       content = req_content req,
       affect =
         (case req_affect req of
            None \<Rightarrow> \<lparr> valence = 0, arousal = 0, labels = [], affect_confidence = 0 \<rparr>
          | Some a \<Rightarrow> a),
       impact_payload =
         (case req_impact_payload req of
            None \<Rightarrow> (if req_type req = IMPACT then Some \<lparr> constraints = [] \<rparr> else None)
          | Some pl \<Rightarrow> Some pl),
       seed_payload =
         (case req_seed_payload req of
            None \<Rightarrow> (if req_type req = SEED
                      then Some \<lparr> cues = [], min_confidence = 55 / 100, cooldown_seconds = 3600 \<rparr>
                      else None)
          | Some pl \<Rightarrow> Some pl),
       strength =
         (case req_strength req of
            None \<Rightarrow> \<lparr> initial = 75 / 100, current = 75 / 100, decay_model = HALF_LIFE,
                       half_life_days = None, last_reinforced_at = None \<rparr>
          | Some sv \<Rightarrow> sv),
       provenance = req_provenance req,
       reconsolidation_policy =
         (let rp = (case req_reconsolidation_policy req of
                      None \<Rightarrow> NEVER_EDIT_SOURCE | Some r \<Rightarrow> r)
          in if rp = NEVER_EDIT_SOURCE \<and> req_type req \<noteq> EVENT then APPEND_ONLY else rp) \<rparr>"

text \<open>
  \<open>create_memory_v2\<close>: policy, then the event insert, then (for an event whose policy
  decision allows it) the extraction with its impact insert and link insert. Any
  exception becomes a 500 response. No step of this handler writes an access-log or
  audit row. The store is returned as committed so far.
\<close>

definition create_memory_v2 ::
  "Policy \<Rightarrow> IngestEnv \<Rightarrow> DB \<Rightarrow> string \<Rightarrow> MemoryCreateRequestV2
     \<Rightarrow> DB \<times> (http_error + MemoryCreateResponseV2)" where
  "create_memory_v2 pol env db app_id memory_request =
     (let memory0 = build_memory (new_memory_id env) memory_request in
      case evaluate_ingest pol memory0 of
        Inl e \<Rightarrow> (db, Inl (HTTPException 500 (''Failed to create memory: '' @ error_text e)))
      | Inr policy_result \<Rightarrow>
          (let memory = memory0\<lparr>state := ing_state policy_result\<rparr> in
           case store_memory (event_store_ok env) db memory app_id of
             Inl e \<Rightarrow> (db, Inl (HTTPException 500 (''Failed to create memory: '' @ error_text e)))
           | Inr db1 \<Rightarrow>
               (let response =
                      \<lparr> resp_id = mem_id memory, resp_tenant_id = tenant_id memory,
                        resp_state = state memory, resp_created_at = now env,
                        resp_policy_trace = ing_trace policy_result \<rparr>
                in if derive_impacts policy_result \<and> mtype memory = EVENT
                   then (case extract_and_store_impact (impact_store_ok env) (link_store_ok env)
                                 (extract_env env) (now env) db1 memory app_id default_extractor True of
                           (db2, Inl e) \<Rightarrow>
                             (db2, Inl (HTTPException 500
                                          (''Failed to create memory: '' @ error_text e)))
                         | (db2, Inr _) \<Rightarrow> (db2, Inr response))
                   else (db1, Inr response))))"

subsection \<open>POST /v2/memories/query\<close>

record MemoryQueryRequestV2 =
  qreq_tenant_id :: string
  qreq_scope :: Scope
  qreq_purpose :: PurposeType
  qreq_query_text :: "string option"
  qreq_limit :: nat

record MemoryQueryResponseV2 =
  qresp_memory_ids :: "string list"
  qresp_impacts :: "(string \<times> pyval) list list"
  qresp_seeds :: "Seed list"
  qresp_events :: "string list"
  qresp_denied_ids :: "string list"
  qresp_access_log_id :: string

record ReqEnv =
  env_log_id :: string
  env_now :: int
  env_client_ip :: "string option"
  env_log_store_ok :: bool

definition query_memories_v2 ::
  "(string \<Rightarrow> string \<Rightarrow> bool) \<Rightarrow> Policy \<Rightarrow> ReqEnv \<Rightarrow> DB \<Rightarrow> string \<Rightarrow> MemoryQueryRequestV2
     \<Rightarrow> DB \<times> (http_error + MemoryQueryResponseV2)" where
  "query_memories_v2 ilike pol env db app_id query_request =
     (case retrieve_for_purpose ilike pol db (qreq_tenant_id query_request)
             (qreq_scope query_request) (qreq_purpose query_request)
             (qreq_query_text query_request) (qreq_limit query_request) of
        Inl e \<Rightarrow> (db, Inl (HTTPException 500 (''Query failed: '' @ error_text e)))
      | Inr result \<Rightarrow>
          (let access_log =
                 \<lparr> log_id = env_log_id env, log_time = env_now env,
                   log_tenant_id = qreq_tenant_id query_request,
                   caller_client_id = Some app_id, caller_user_id = None,
                   caller_ip = env_client_ip env,
                   log_scope = qreq_scope query_request,
                   log_purpose = qreq_purpose query_request,
                   log_query_text = qreq_query_text query_request,
                   log_query_op = ''query'',
                   decision_allowed = True,
                   decision_returned_ids = memory_ids result,
                   decision_denied_ids = denied_ids result,
                   decision_matched_rules = [],
                   decision_explanation =
                     ''Retrieved '' @ show_nat (length (memory_ids result))
                       @ '' memories, denied '' @ show_nat (length (denied_ids result)) \<rparr>;
               db' = (case store_access_log (env_log_store_ok env) db access_log of
                        Inl e \<Rightarrow> db | Inr d \<Rightarrow> d)
           in (db',
               Inr \<lparr> qresp_memory_ids = memory_ids result,
                     qresp_impacts = impacts result,
                     qresp_seeds = seeds result,
                     qresp_events = events result,
                     qresp_denied_ids = denied_ids result,
                     qresp_access_log_id = env_log_id env \<rparr>)))"

section \<open>Reconstruction engine (app/memoryscope/reconstruction.py)\<close>

text \<open>
  Operations on untyped constraint parameters, with the TypeError or KeyError Python
  raises: \<^verbatim>\<open>key in x\<close>, \<^verbatim>\<open>x[key]\<close> and \<^verbatim>\<open>', '.join(items)\<close>.
\<close>

definition bind_err :: "py_error + 'a \<Rightarrow> ('a \<Rightarrow> py_error + 'b) \<Rightarrow> py_error + 'b" where
  "bind_err x f = (case x of Inl e \<Rightarrow> Inl e | Inr v \<Rightarrow> f v)"

fun py_contains :: "string \<Rightarrow> pyval \<Rightarrow> py_error + bool" where
  "py_contains key (PDict d) = Inr (key \<in> set (map fst d))"
| "py_contains key (PList xs) = Inr (list_ex (py_eq (PStr key)) xs)"
| "py_contains key (PStr s) = Inr (py_in key s)"
| "py_contains key _ = Inl (TypeError ''argument is not iterable'')"

fun py_getitem :: "pyval \<Rightarrow> string \<Rightarrow> py_error + pyval" where
  "py_getitem (PDict d) key = (case map_of d key of None \<Rightarrow> Inl (KeyError key) | Some v \<Rightarrow> Inr v)"
| "py_getitem _ key = Inl (TypeError ''indices must be integers'')"

fun join_strings :: "string \<Rightarrow> string list \<Rightarrow> string" where
  "join_strings sep [] = []"
| "join_strings sep [x] = x"
| "join_strings sep (x # y # xs) = x @ sep @ join_strings sep (y # xs)"

definition py_join :: "string \<Rightarrow> pyval list \<Rightarrow> py_error + string" where
  "py_join sep items =
     (if list_all is_str items then Inr (join_strings sep (map str_val items))
      else Inl (TypeError ''sequence item: expected str instance''))"

definition constraint_params :: "(string \<times> pyval) list \<Rightarrow> pyval" where
  "constraint_params c = dict_get c ''params'' (PDict [])"

definition constraints_of_kind :: "string \<Rightarrow> (string \<times> pyval) list list \<Rightarrow> (string \<times> pyval) list list" where
  "constraints_of_kind kind cs = filter (\<lambda>c. dict_get c ''kind'' (PStr ''unknown'') = PStr kind) cs"

text \<open>The value of one parameter, for every constraint of the group that has it.\<close>

definition param_step :: "string \<Rightarrow> pyval list \<Rightarrow> (string \<times> pyval) list \<Rightarrow> py_error + pyval list" where
  "param_step key items c =
     bind_err (py_contains key (constraint_params c))
       (\<lambda>present. if present
                    then bind_err (py_getitem (constraint_params c) key) (\<lambda>v. Inr (items @ [v]))
                    else Inr items)"

definition avoid_step :: "pyval list \<Rightarrow> (string \<times> pyval) list \<Rightarrow> py_error + pyval list" where
  "avoid_step items c =
     bind_err (param_step ''content_class'' items c)
       (\<lambda>items1.
          bind_err (py_contains ''phrase_ids'' (constraint_params c))
            (\<lambda>present. if present
                         then bind_err (py_getitem (constraint_params c) ''phrase_ids'')
                                (\<lambda>v. bind_err (py_iter v) (\<lambda>xs. Inr (items1 @ xs)))
                         else Inr items1))"

definition prefer_step ::
  "(pyval \<Rightarrow> string) \<Rightarrow> pyval list \<Rightarrow> (string \<times> pyval) list \<Rightarrow> py_error + pyval list" where
  "prefer_step str_of items c =
     bind_err (py_contains ''attribute'' (constraint_params c))
       (\<lambda>has_attribute.
          if \<not> has_attribute then Inr items
          else bind_err (py_contains ''value'' (constraint_params c))
                 (\<lambda>has_value.
                    if \<not> has_value then Inr items
                    else bind_err (py_getitem (constraint_params c) ''attribute'')
                           (\<lambda>a. bind_err (py_getitem (constraint_params c) ''value'')
                                  (\<lambda>v. Inr (items @ [PStr (py_str str_of a @ ''='' @ py_str str_of v)])))))"

definition context_line :: "string \<Rightarrow> py_error + pyval list \<Rightarrow> py_error + string list" where
  "context_line label items =
     bind_err items
       (\<lambda>xs. if xs = [] then Inr []
              else bind_err (py_join '', '' xs) (\<lambda>joined. Inr [label @ '': '' @ joined]))"

definition source_refs_step :: "pyval list \<Rightarrow> (string \<times> pyval) list \<Rightarrow> py_error + pyval list" where
  "source_refs_step ids c =
     bind_err (py_iter (dict_get c ''source_refs'' (PList []))) (\<lambda>refs. Inr (ids @ refs))"

text \<open>
  The lines built from the constraints, in the fixed order of the kinds, and the source
  ids collected from them. Grouping by kind hashes each \<open>kind\<close> first.
\<close>

definition impact_context ::
  "(pyval \<Rightarrow> string) \<Rightarrow> (string \<times> pyval) list list \<Rightarrow> py_error + (string list \<times> pyval list)" where
  "impact_context str_of cs =
     (if cs = [] then Inr ([], [])
      else if \<not> list_all (\<lambda>c. hashable (dict_get c ''kind'' (PStr ''unknown''))) cs
        then Inl (TypeError ''unhashable type'')
      else
        bind_err (context_line ''Avoid'' (fold_err avoid_step [] (constraints_of_kind ''avoid'' cs)))
       (\<lambda>l1. bind_err (context_line ''Prefer''
                          (fold_err (prefer_step str_of) [] (constraints_of_kind ''prefer'' cs)))
       (\<lambda>l2. bind_err (context_line ''Require''
                          (fold_err (param_step ''behavior'') [] (constraints_of_kind ''require'' cs)))
       (\<lambda>l3. bind_err (context_line ''Tone''
                          (fold_err (param_step ''tone_profile'') [] (constraints_of_kind ''tone'' cs)))
       (\<lambda>l4. bind_err (context_line ''Style''
                          (fold_err (param_step ''format'') [] (constraints_of_kind ''style'' cs)))
       (\<lambda>l5. bind_err (context_line ''Boundaries''
                          (fold_err (param_step ''boundary_type'') [] (constraints_of_kind ''boundary'' cs)))
       (\<lambda>l6. bind_err (context_line ''Safety''
                          (fold_err (param_step ''mode'') [] (constraints_of_kind ''safety'' cs)))
       (\<lambda>l7. bind_err (fold_err source_refs_step [] cs)
       (\<lambda>ids. Inr (l1 @ l2 @ l3 @ l4 @ l5 @ l6 @ l7, ids))))))))))"

record Reconstruction =
  reconstructed_context :: string
  rec_confidence :: real
  source_impacts :: "pyval list"
  source_seeds :: "string list"
  source_events :: "string list"

text \<open>
  \<open>reconstruct_result\<close> is \<open>reconstruct_context\<close> after its retrieval call. The
  confidence is computed in exact arithmetic. The order in which Python lists a set is
  not fixed; here the source ids keep the order of their first occurrence.
\<close>

definition reconstruct_result ::
  "(pyval \<Rightarrow> string) \<Rightarrow> bool \<Rightarrow> RetrievalResult \<Rightarrow> py_error + Reconstruction" where
  "reconstruct_result str_of include_events result =
     bind_err (impact_context str_of (impacts result))
       (\<lambda>(impact_lines, impact_ids).
          (let all_cues = concat (map seed_cues (seeds result));
               seed_lines =
                 (if all_cues \<noteq> []
                  then [''Associative cues: '' @ join_strings '', '' (take 10 all_cues)] else []);
               event_ids =
                 (if include_events
                  then take 5 (filter (\<lambda>mid. mid \<notin> set (denied_ids result)) (events result))
                  else []);
               event_lines =
                 (if include_events
                  then (if event_ids \<noteq> []
                        then [''Referenced events: '' @ show_nat (length event_ids)
                                @ '' (content not included)'']
                        else [])
                  else [''Events: excluded (sealed memories not reconstructed)'']);
               context_parts = impact_lines @ seed_lines @ event_lines;
               c1 = (if impact_ids \<noteq> [] then 4 / 10 else 0)
                    + (if seeds result \<noteq> [] then 2 / 10 else 0)
                    + (if include_events \<and> event_ids \<noteq> [] then 1 / 10 else 0);
               c2 = min 1 c1;
               c3 = (if impacts result \<noteq> [] then max c2 (5 / 10) else c2)
           in if \<not> list_all hashable impact_ids then Inl (TypeError ''unhashable type'')
              else Inr \<lparr> reconstructed_context =
                           (if context_parts \<noteq> [] then join_strings [CHR 0x0A] context_parts
                            else ''No relevant context found.''),
                         rec_confidence = c3,
                         source_impacts = py_set impact_ids,
                         source_seeds = map seed_id (seeds result),
                         source_events = event_ids \<rparr>))"

definition reconstruct_context ::
  "(string \<Rightarrow> string \<Rightarrow> bool) \<Rightarrow> (pyval \<Rightarrow> string) \<Rightarrow> Policy \<Rightarrow> DB \<Rightarrow> string \<Rightarrow> Scope \<Rightarrow> PurposeType
     \<Rightarrow> string option \<Rightarrow> bool \<Rightarrow> py_error + Reconstruction" where
  "reconstruct_context ilike str_of pol db tenant sc purpose query_text include_events =
     bind_err (retrieve_for_purpose ilike pol db tenant sc purpose query_text 100)
       (reconstruct_result str_of include_events)"

section \<open>Observability (app/memoryscope/observability.py)\<close>

text \<open>
  \<open>explain_decision\<close>. The explanation echoes the request and, when the log row is
  found, five of its fields (\<open>isoformat\<close>, the printing of a time, is a parameter);
  the memories named in the request contribute their ids and, for impacts, four fields
  of each constraint.
\<close>

record Explanation =
  explanation :: "(string \<times> pyval) list"
  memory_ids_used :: "string list"
  constraints_applied :: "(string \<times> pyval) list list"
  denials :: "(string \<times> pyval) list list"

definition find_access_log :: "DB \<Rightarrow> string \<Rightarrow> AccessLogEntry option" where
  "find_access_log db lid = find (\<lambda>l. log_id l = lid) (access_logs_v2 db)"

definition explained_constraints :: "string \<Rightarrow> MemoryObject \<Rightarrow> (string \<times> pyval) list list" where
  "explained_constraints memory_id memory =
     (if MemoryType_value (mtype memory) = ''impact'' then
        (case impact_payload memory of
           None \<Rightarrow> []
         | Some p \<Rightarrow>
             map (\<lambda>c. [(''constraint_id'', dict_get c ''constraint_id'' PNone),
                        (''kind'', dict_get c ''kind'' PNone),
                        (''params'', dict_get c ''params'' PNone),
                        (''source_memory'', PStr memory_id)])
               (constraints p))
      else [])"

definition explain_decision ::
  "(int \<Rightarrow> string) \<Rightarrow> DB \<Rightarrow> string \<Rightarrow> string option \<Rightarrow> string list option
     \<Rightarrow> (string \<times> pyval) list option \<Rightarrow> Explanation" where
  "explain_decision isoformat db tenant access_log_id requested_ids request_context =
     (let explanation0 =
            [(''access_log_id'', (case access_log_id of None \<Rightarrow> PNone | Some l \<Rightarrow> PStr l)),
             (''memory_ids'',
                PList (map PStr (case requested_ids of None \<Rightarrow> [] | Some ids \<Rightarrow> ids))),
             (''request_context'',
                PDict (case request_context of None \<Rightarrow> [] | Some rc \<Rightarrow> rc))];
          access_log =
            (case access_log_id of
               None \<Rightarrow> None
             | Some l \<Rightarrow> (if l \<noteq> [] then find_access_log db l else None));
          explanation1 =
            (case access_log of
               None \<Rightarrow> explanation0
             | Some al \<Rightarrow>
                 explanation0 @
                   [(''access_log'',
                     PDict [(''log_id'', PStr (log_id al)),
                            (''time'', PStr (isoformat (log_time al))),
                            (''purpose'', PStr (PurposeType_value (log_purpose al))),
                            (''decision_allowed'', PBool (decision_allowed al)),
                            (''decision_explanation'', PStr (decision_explanation al))])]);
          used0 = (case access_log of None \<Rightarrow> [] | Some al \<Rightarrow> decision_returned_ids al);
          denials0 =
            (case access_log of
               None \<Rightarrow> []
             | Some al \<Rightarrow>
                 map (\<lambda>mid. [(''memory_id'', PStr mid), (''reason'', PStr ''Policy denied'')])
                   (decision_denied_ids al));
          found =
            List.map_filter
              (\<lambda>memory_id. map_option (Pair memory_id) (get_memory db memory_id tenant))
              (case requested_ids of None \<Rightarrow> [] | Some ids \<Rightarrow> ids)
      in \<lparr> explanation = explanation1,
           memory_ids_used = remdups (used0 @ map fst found),
           constraints_applied = concat (map (\<lambda>(memory_id, memory). explained_constraints memory_id memory) found),
           denials = denials0 \<rparr>)"

text \<open>
  \<open>replay_request\<close>. The request is rebuilt from the log row; an override may replace
  the scope, the purpose and the query text (ill-typed values raise). The retrieval is
  run again, with the default policy and the default limit, and only the ids and the
  three counts of its result are returned. A query text that is no string but truthy
  makes the store query fail, which \<open>query_memories\<close> turns into no rows.
\<close>

fun ScopeType_of :: "pyval \<Rightarrow> ScopeType option" where
  "ScopeType_of (PStr s) =
     (if s = ''user'' then Some SCOPE_USER
      else if s = ''org'' then Some SCOPE_ORG
      else if s = ''app'' then Some SCOPE_APP
      else if s = ''session'' then Some SCOPE_SESSION
      else if s = ''project'' then Some SCOPE_PROJECT
      else if s = ''case'' then Some SCOPE_CASE
      else if s = ''role'' then Some SCOPE_ROLE
      else None)"
| "ScopeType_of _ = None"

definition PurposeType_of :: "pyval \<Rightarrow> PurposeType option" where
  "PurposeType_of v =
     (case v of
        PStr s \<Rightarrow>
          find (\<lambda>p. PurposeType_value p = s)
            [CHAT_RESPONSE, TASK_EXECUTION, SAFETY_FILTERING, REFLECTION_REQUESTED_BY_USER,
             SUPPORT_AGENT_REVIEW, COMPLIANCE_AUDIT, DEBUGGING_REPLAY]
      | _ \<Rightarrow> None)"

definition replay_scope :: "AccessLogEntry \<Rightarrow> (string \<times> pyval) list \<Rightarrow> py_error + Scope" where
  "replay_scope al override =
     (case map_of override ''scope'' of
        None \<Rightarrow> Inr (log_scope al)
      | Some sv \<Rightarrow>
          bind_err (py_getitem sv ''scope_type'')
            (\<lambda>st. bind_err (py_getitem sv ''scope_id'')
               (\<lambda>sid. case (ScopeType_of st, sid) of
                         (Some t, PStr i) \<Rightarrow> Inr \<lparr> scope_type = t, scope_id = i \<rparr>
                       | _ \<Rightarrow> Inl (ValueError ''scope''))))"

definition replay_purpose :: "AccessLogEntry \<Rightarrow> (string \<times> pyval) list \<Rightarrow> py_error + PurposeType" where
  "replay_purpose al override =
     (case map_of override ''purpose'' of
        None \<Rightarrow> Inr (log_purpose al)
      | Some pv \<Rightarrow>
          (case PurposeType_of pv of None \<Rightarrow> Inl (ValueError ''purpose'') | Some p \<Rightarrow> Inr p))"

definition replay_query_text :: "AccessLogEntry \<Rightarrow> (string \<times> pyval) list \<Rightarrow> pyval" where
  "replay_query_text al override =
     (case map_of override ''query_text'' of
        None \<Rightarrow> (case log_query_text al of None \<Rightarrow> PNone | Some t \<Rightarrow> PStr t)
      | Some v \<Rightarrow> v)"

definition replay_rows ::
  "(string \<Rightarrow> string \<Rightarrow> bool) \<Rightarrow> DB \<Rightarrow> string \<Rightarrow> Scope \<Rightarrow> PurposeType \<Rightarrow> pyval \<Rightarrow> MemoryObject list" where
  "replay_rows ilike db tenant sc purpose query_text =
     (case query_text of
        PStr t \<Rightarrow> query_memories ilike db tenant sc (purpose_filters purpose) (50 * 2) (Some t)
      | _ \<Rightarrow>
          (if truthy query_text then []
           else query_memories ilike db tenant sc (purpose_filters purpose) (50 * 2) None))"

record Replay =
  replay_result :: "(string \<times> pyval) list"
  replay_policy_trace :: "(string \<times> pyval) list"
  replay_access_log_id :: string

definition replay_request ::
  "(string \<Rightarrow> string \<Rightarrow> bool) \<Rightarrow> DB \<Rightarrow> string \<Rightarrow> string \<Rightarrow> (string \<times> pyval) list option
     \<Rightarrow> py_error + Replay" where
  "replay_request ilike db tenant access_log_id override_context =
     (case find_access_log db access_log_id of
        None \<Rightarrow>
          Inr \<lparr> replay_result = [(''error'', PStr ''Access log not found'')],
                replay_policy_trace = [], replay_access_log_id = access_log_id \<rparr>
      | Some al \<Rightarrow>
          (let override = (case override_context of None \<Rightarrow> [] | Some ov \<Rightarrow> ov) in
           bind_err (replay_scope al override)
             (\<lambda>sc. bind_err (replay_purpose al override)
                (\<lambda>purpose.
                   bind_err (retrieve_rows default_policy purpose
                               (replay_rows ilike db tenant sc purpose (replay_query_text al override)))
                     (\<lambda>result.
                        Inr \<lparr> replay_result =
                                [(''memory_ids'', PList (map PStr (memory_ids result))),
                                 (''impacts'', PInt (int (length (impacts result)))),
                                 (''seeds'', PInt (int (length (seeds result)))),
                                 (''events'', PInt (int (length (events result)))),
                                 (''denied_ids'', PList (map PStr (denied_ids result)))],
                              replay_policy_trace =
                                [(''policy_version'', PStr (pol_version default_policy))],
                              replay_access_log_id = access_log_id \<rparr>)))))"

section \<open>Notions used to state the results\<close>

text \<open>
  \<open>allowed_by\<close> is the outcome of the policy's query evaluation for one memory;
  \<open>has_read_defaults\<close> says the policy's defaults give \<open>read\<close> and
  \<open>include_in_prompt\<close>, without which the evaluation raises a KeyError;
  \<open>has_constraint cs kind params\<close> says that the constraint list holds a constraint of
  that kind with exactly those parameters, \<open>has_kind cs kind\<close> that it holds one of
  that kind at all; \<open>without_categories\<close> empties the sensitivity categories of a
  memory.
\<close>

definition allowed_by :: "Policy \<Rightarrow> PurposeType \<Rightarrow> MemoryObject \<Rightarrow> bool" where
  "allowed_by pol purpose m =
     (case evaluate_query pol m purpose of Inl _ \<Rightarrow> False | Inr d \<Rightarrow> qry_allowed d)"

definition has_read_defaults :: "Policy \<Rightarrow> bool" where
  "has_read_defaults pol =
     (map_of (defaults pol) ''read'' \<noteq> None \<and> map_of (defaults pol) ''include_in_prompt'' \<noteq> None)"

definition has_constraint :: "(string \<times> pyval) list list \<Rightarrow> string \<Rightarrow> (string \<times> pyval) list \<Rightarrow> bool" where
  "has_constraint cs kind params =
     list_ex (\<lambda>c. map_of c ''kind'' = Some (PStr kind) \<and> map_of c ''params'' = Some (PDict params)) cs"

definition has_kind :: "(string \<times> pyval) list list \<Rightarrow> string \<Rightarrow> bool" where
  "has_kind cs kind = list_ex (\<lambda>c. map_of c ''kind'' = Some (PStr kind)) cs"

definition without_categories :: "MemoryObject \<Rightarrow> MemoryObject" where
  "without_categories event = event\<lparr>sensitivity := (sensitivity event)\<lparr>categories := []\<rparr>\<rparr>"

text \<open>
  For the ingest handler: \<open>ingest_event\<close> is the event it builds and hands to the
  store (none when the policy evaluation raises), \<open>ingest_impact\<close> the impact it
  derives from that event (none when the policy forbids it, the memory is no event, or
  the extractor returns nothing) and \<open>ingest_link\<close> the link row between the two.
  \<open>stored_ids\<close> are the primary keys in use, \<open>with_rows\<close> and \<open>with_link\<close>
  the store with rows appended. \<open>server_error\<close> says a response is an error with
  status 500, \<open>created\<close> that it is the success response for the event.
\<close>

definition ingest_event :: "Policy \<Rightarrow> IngestEnv \<Rightarrow> MemoryCreateRequestV2 \<Rightarrow> MemoryObject option" where
  "ingest_event pol env req =
     (case evaluate_ingest pol (build_memory (new_memory_id env) req) of
        Inl _ \<Rightarrow> None
      | Inr d \<Rightarrow> Some ((build_memory (new_memory_id env) req)\<lparr>state := ing_state d\<rparr>))"

definition ingest_impact :: "Policy \<Rightarrow> IngestEnv \<Rightarrow> MemoryCreateRequestV2 \<Rightarrow> MemoryObject option" where
  "ingest_impact pol env req =
     (case evaluate_ingest pol (build_memory (new_memory_id env) req) of
        Inl _ \<Rightarrow> None
      | Inr d \<Rightarrow>
          (let event = (build_memory (new_memory_id env) req)\<lparr>state := ing_state d\<rparr>
           in if derive_impacts d \<and> mtype event = EVENT
              then extract_impacts default_extractor (extract_env env) event True
              else None))"

definition ingest_link :: "IngestEnv \<Rightarrow> MemoryObject \<Rightarrow> MemoryObject \<Rightarrow> DerivedObjectLink" where
  "ingest_link env event impact =
     \<lparr> parent_id = mem_id event, child_id = mem_id impact,
       relationship = ''derived_impact'', link_rule = transform_version default_extractor,
       strength_transfer = 4 / 10, link_created_at = now env \<rparr>"

definition stored_ids :: "DB \<Rightarrow> string set" where
  "stored_ids db = set (map (mem_id \<circ> row_memory) (memories_v2 db))"

definition with_rows :: "DB \<Rightarrow> string \<Rightarrow> MemoryObject list \<Rightarrow> DB" where
  "with_rows db app_id ms =
     db\<lparr>memories_v2 := memories_v2 db @ map (\<lambda>m. \<lparr>row_memory = m, row_app_id = app_id\<rparr>) ms\<rparr>"

definition with_link :: "DB \<Rightarrow> DerivedObjectLink \<Rightarrow> DB" where
  "with_link db link = db\<lparr>memory_links_v2 := memory_links_v2 db @ [link]\<rparr>"

definition server_error :: "http_error + MemoryCreateResponseV2 \<Rightarrow> bool" where
  "server_error res = (case res of Inl (HTTPException code detail) \<Rightarrow> code = 500 | Inr _ \<Rightarrow> False)"

definition created :: "http_error + MemoryCreateResponseV2 \<Rightarrow> MemoryObject \<Rightarrow> bool" where
  "created res event =
     (case res of Inl _ \<Rightarrow> False | Inr r \<Rightarrow> resp_id r = mem_id event \<and> resp_state r = state event)"

section \<open>Sample inputs\<close>

text \<open>
  The inputs of the scenarios: an event request for tenant \<open>t_demo\<close> in the scope of
  user \<open>u_123\<close>, with the given truth mode, sensitivity level and categories, time and
  text; the identifiers a run generates; and the empty store.
\<close>

definition sample_scope :: Scope where
  "sample_scope = \<lparr> scope_type = SCOPE_USER, scope_id = ''u_123'' \<rparr>"

definition sample_request :: "TruthMode \<Rightarrow> SensitivityLevel \<Rightarrow> string list \<Rightarrow> int \<Rightarrow> string \<Rightarrow> MemoryCreateRequestV2" where
  "sample_request tm lvl cats t txt =
     \<lparr> req_tenant_id = ''t_demo'',
       req_scope = sample_scope,
       req_type = EVENT,
       req_truth_mode = tm,
       req_state = Some ACTIVE,
       req_sensitivity = Some \<lparr> level = lvl, categories = cats, handling = NORMAL \<rparr>,
       req_ownership =
         \<lparr> owner_type = OWNER_USER, owners = [''u_123''], claimant = ''u_123'',
           subjects = [''u_123''], dispute_state = UNDISPUTED, visibility = PRIVATE \<rparr>,
       req_temporal =
         \<lparr> occurred_at_observed = t, occurred_at_claimed = None, time_precision = EXACT,
           time_confidence = 0, ordering_uncertainty = False \<rparr>,
       req_content =
         \<lparr> content_format = ''text'', content_language = ''en'', content_text = Some txt,
           content_json = None \<rparr>,
       req_affect = None,
       req_impact_payload = None,
       req_seed_payload = None,
       req_strength = None,
       req_provenance =
         \<lparr> source = SOURCE_USER, surface = Some CHAT, conversation_id = None, derived_from = [],
           transform_chain = [], policy_version = None, confidence = 1 \<rparr>,
       req_reconsolidation_policy = None \<rparr>"

definition shame_request :: MemoryCreateRequestV2 where
  "shame_request =
     sample_request SUBJECTIVE_EXPERIENCE HIGH [''shame''] 100 ''I felt ashamed about the mistake I made''"

definition sample_extract_env :: ExtractEnv where
  "sample_extract_env =
     \<lparr> new_impact_id = ''mem_i1'', new_constraint_id = (\<lambda>k. ''con_'' @ show_nat k),
       now_iso = ''2026-01-06T00:00:00'' \<rparr>"

definition sample_env :: IngestEnv where
  "sample_env =
     \<lparr> new_memory_id = ''mem_e1'', extract_env = sample_extract_env, now = 100,
       event_store_ok = True, impact_store_ok = True, link_store_ok = True \<rparr>"

definition empty_db :: DB where
  "empty_db = \<lparr> memories_v2 = [], memory_links_v2 = [], access_logs_v2 = [] \<rparr>"

definition shame_ingest :: "DB \<times> (http_error + MemoryCreateResponseV2)" where
  "shame_ingest = create_memory_v2 default_policy sample_env empty_db ''app_1'' shame_request"

definition quiet_shame_event :: MemoryObject where
  "quiet_shame_event =
     build_memory ''mem_e2''
       (sample_request SUBJECTIVE_EXPERIENCE MEDIUM [''shame''] 100
          ''I felt ashamed about the mistake I made'')"

definition failing_link_ingest :: "DB \<times> (http_error + MemoryCreateResponseV2)" where
  "failing_link_ingest =
     create_memory_v2 default_policy (sample_env\<lparr>link_store_ok := False\<rparr>) empty_db ''app_1''
       shame_request"

definition failing_impact_ingest :: "DB \<times> (http_error + MemoryCreateResponseV2)" where
  "failing_impact_ingest =
     create_memory_v2 default_policy (sample_env\<lparr>impact_store_ok := False\<rparr>) empty_db ''app_1''
       shame_request"

definition gentle_low_event :: MemoryObject where
  "gentle_low_event =
     build_memory ''mem_e3''
       (sample_request SUBJECTIVE_EXPERIENCE LOW [''shame'', ''trauma''] 100 ''Please be gentle'')"

text \<open>
  For the query scenarios: a stand-in for the store's pattern operator (substring match
  without regard to case, for patterns whose only wildcards are the surrounding
  percent signs), a factual and a counterfactual memory in one tenant and scope, the
  store holding both, a \<open>task_execution\<close> query on that scope, the generated log
  identifier, and a policy that allows every read. \<open>fetched\<close> names the rows a query
  request makes \<open>retrieve_for_purpose\<close> fetch.
\<close>

definition sample_ilike :: "string \<Rightarrow> string \<Rightarrow> bool" where
  "sample_ilike pattern t = py_in (filter (\<lambda>c. c \<noteq> CHR ''%'') (lower pattern)) (lower t)"

definition memory_A :: MemoryObject where
  "memory_A = build_memory ''mem_a'' (sample_request FACTUAL_CLAIM LOW [] 100 ''The meeting is on Monday'')"

definition memory_B :: MemoryObject where
  "memory_B =
     build_memory ''mem_b''
       (sample_request COUNTERFACTUAL LOW [] 200 ''If I had left earlier I would have caught the train'')"

definition db_AB :: DB where
  "db_AB =
     \<lparr> memories_v2 = [\<lparr>row_memory = memory_A, row_app_id = ''app_1''\<rparr>,
                      \<lparr>row_memory = memory_B, row_app_id = ''app_1''\<rparr>],
       memory_links_v2 = [], access_logs_v2 = [] \<rparr>"

definition task_query :: MemoryQueryRequestV2 where
  "task_query =
     \<lparr> qreq_tenant_id = ''t_demo'', qreq_scope = sample_scope, qreq_purpose = TASK_EXECUTION,
       qreq_query_text = None, qreq_limit = 50 \<rparr>"

definition sample_req_env :: ReqEnv where
  "sample_req_env =
     \<lparr> env_log_id = ''log_1'', env_now = 300, env_client_ip = None, env_log_store_ok = True \<rparr>"

definition fetched ::
  "(string \<Rightarrow> string \<Rightarrow> bool) \<Rightarrow> DB \<Rightarrow> MemoryQueryRequestV2 \<Rightarrow> MemoryObject list" where
  "fetched ilike db q =
     query_memories ilike db (qreq_tenant_id q) (qreq_scope q) (purpose_filters (qreq_purpose q))
       (qreq_limit q * 2) (qreq_query_text q)"

definition permissive_policy :: Policy where
  "permissive_policy =
     \<lparr> pol_version = ''pol_open'',
       defaults = [(''read'', ''allow''), (''include_in_prompt'', ''allow'')],
       rules = [] \<rparr>"

text \<open>
  For the v1 scenarios: a stand-in for the token hash, for the similarity ratio and for
  \<open>str\<close>; the empty store; a read of user \<open>u1\<close>'s preferences for the purpose
  ``generate content''; what a request at time \<open>t\<close> brings; the store after that
  read, after a following continue, and after the following revoke; and two preference
  memories created at the same time.
\<close>

definition sample_hash :: "string \<Rightarrow> string" where
  "sample_hash t = ''sha256:'' @ t"

definition no_ratio :: "string \<Rightarrow> string \<Rightarrow> real" where
  "no_ratio a b = 0"

definition no_str_of :: "pyval \<Rightarrow> string" where
  "no_str_of v = ''?''"

definition empty_store :: Store where
  "empty_store = \<lparr> memories = [], read_grants = [], audit_events = [] \<rparr>"

definition sample_read :: MemoryReadRequest where
  "sample_read =
     \<lparr> rr_user_id = ''u1'', rr_scope = ''preferences'', rr_domain = None,
       rr_purpose = ''generate content'', rr_max_age_days = None \<rparr>"

definition env_at :: "int \<Rightarrow> V1Env" where
  "env_at t = \<lparr> v1_now = t, new_token = ''tok_1'', new_grant_id = ''grant_1'' \<rparr>"

definition after_read :: "Store \<times> (http_error + MemoryReadResponse)" where
  "after_read = read_memory sample_hash no_ratio no_str_of (env_at 10) empty_store ''app_1'' sample_read"

definition after_continue :: Store where
  "after_continue =
     v1_run sample_hash no_ratio no_str_of (fst after_read)
       [ContinueCall ''app_1'' (env_at 20) \<lparr>cont_revocation_token = ''tok_1'', cont_max_age_days = None\<rparr>]"

definition after_revoke :: Store where
  "after_revoke =
     fst (revoke_memory sample_hash (env_at 30) after_continue ''app_1'' \<lparr>rv_revocation_token = ''tok_1''\<rparr>)"

definition pref_memory_1 :: MemoryDict where
  "pref_memory_1 =
     \<lparr> md_id = ''0a'', md_value_json =
         PDict [(''likes'', PList [PStr ''Tea'', PStr ''coffee'']), (''dislikes'', PList [PStr ''milk''])],
       md_value_shape = ''likes_dislikes'', md_created_at = 10 \<rparr>"

definition pref_memory_2 :: MemoryDict where
  "pref_memory_2 =
     \<lparr> md_id = ''0b'', md_value_json = PDict [(''Favorite_Food'', PStr ''pizza'')],
       md_value_shape = ''kv_map'', md_created_at = 10 \<rparr>"

section \<open>Purpose normalization: results\<close>

lemma normalize_purpose_range: "normalize_purpose p \<in> set purpose_classes"
  by (simp add: normalize_purpose_def purpose_classes_def Let_def)

lemma normalize_purpose_fixed:
  "normalize_purpose ''content_generation'' = ''content_generation''"
  "normalize_purpose ''recommendation'' = ''recommendation''"
  "normalize_purpose ''scheduling'' = ''scheduling''"
  "normalize_purpose ''ui_rendering'' = ''ui_rendering''"
  "normalize_purpose ''notification_delivery'' = ''notification_delivery''"
  "normalize_purpose ''task_execution'' = ''task_execution''"
  by (simp_all add: normalize_purpose_def any_kw_def lower_def lower_char_def Let_def)

text \<open>
  C9. Normalizing a purpose twice is the same as normalizing it once: every string
  \<open>normalize_purpose\<close> returns is one of the six purpose classes, and each of the six
  is mapped to itself. The purpose class is a function of the purpose string alone.
\<close>

theorem normalize_purpose_idempotent:
  "normalize_purpose (normalize_purpose p) = normalize_purpose p
   \<and> normalize_purpose p \<in> set purpose_classes
   \<and> list_all (\<lambda>c. normalize_purpose c = c) purpose_classes"
proof -
  have r: "normalize_purpose p \<in> set purpose_classes"
    by (rule normalize_purpose_range)
  have f: "list_all (\<lambda>c. normalize_purpose c = c) purpose_classes"
    by (simp add: purpose_classes_def normalize_purpose_fixed)
  from r f have "normalize_purpose (normalize_purpose p) = normalize_purpose p"
    by (simp add: list_all_iff)
  with r f show ?thesis by simp
qed

theorem normalize_purpose_idempotent_witness:
  "normalize_purpose (normalize_purpose ''Schedule a Meeting'') = ''scheduling''"
proof -
  have "normalize_purpose ''Schedule a Meeting'' = ''scheduling''"
    by (simp add: normalize_purpose_def any_kw_def lower_def lower_char_def Let_def)
  with normalize_purpose_idempotent [of "''Schedule a Meeting''"] show ?thesis
    by simp
qed

section \<open>Policy engine and retrieval: auxiliary facts\<close>

lemma split_keys [simp]:
  "py_split CHR ''.'' ''memory.type'' = [''memory'', ''type'']"
  "py_split CHR ''.'' ''memory.truth_mode'' = [''memory'', ''truth_mode'']"
  "py_split CHR ''.'' ''memory.sensitivity.categories'' = [''memory'', ''sensitivity'', ''categories'']"
  "py_split CHR ''.'' ''memory.sensitivity.level'' = [''memory'', ''sensitivity'', ''level'']"
  "py_split CHR ''.'' ''memory.ownership.dispute_state'' = [''memory'', ''ownership'', ''dispute_state'']"
  "py_split CHR ''.'' ''request.purpose'' = [''request'', ''purpose'']"
  by simp_all

lemma evaluate_ingest_default:
  "evaluate_ingest default_policy m =
     Inr \<lparr> ing_allowed = True, ing_state = state m, derive_impacts = True, derive_seeds = True,
           ing_trace = \<lparr> trace_policy_version = ''pol_2026_01_06_01'', matched_rules = [],
                         denied_reasons = [] \<rparr> \<rparr>"
  by (simp add: evaluate_ingest_def default_policy_def default_is_allow_def ingest_context_def
      match_rule_def match_condition_def del: py_split.simps)

lemma shame_text_no_tone:
  "detect_tone_preference ''I felt ashamed about the mistake I made'' = None"
  by (simp add: detect_tone_preference_def any_kw_def lower_def lower_char_def Let_def)

lemma shame_text_no_style:
  "detect_style_preference ''I felt ashamed about the mistake I made'' = None"
  by (simp add: detect_style_preference_def lower_def lower_char_def Let_def is_space_def is_digit_def)

lemma show_nat_small [simp]: "show_nat 0 = ''0''" "show_nat 1 = ''1''" "show_nat (Suc 0) = ''1''"
  by simp_all

lemma shame_constraints:
  "map (\<lambda>c. (map_of c ''kind'', map_of c ''params''))
      (extract_constraints default_extractor sample_extract_env (build_memory ''mem_e1'' shame_request))
    = [(Some (PStr ''avoid''), Some (PDict [(''content_class'', PStr ''judgment_language'')])),
       (Some (PStr ''tone''), Some (PDict [(''tone_profile'', PStr ''non_judgmental'')]))]"
  by (simp add: extract_constraints_def build_memory_def shame_request_def sample_request_def
      sensitive_level_def shame_text_no_tone shame_text_no_style Let_def
      create_avoid_constraint_def create_tone_constraint_def)

lemma evaluate_query_total:
  "has_read_defaults pol \<Longrightarrow> \<exists>d. evaluate_query pol m p = Inr d"
  by (auto simp: has_read_defaults_def evaluate_query_def default_is_allow_def Let_def)

lemma categorize_keeps [simp]:
  "allowed_memories (categorize m acc) = allowed_memories acc"
  "acc_denied_ids (categorize m acc) = acc_denied_ids acc"
  by (auto simp: categorize_def split: MemoryType.splits option.splits)

lemma retrieve_loop_shape:
  "has_read_defaults pol \<Longrightarrow>
   \<exists>acc'. retrieve_loop pol p ms acc = Inr acc'
     \<and> allowed_memories acc' = allowed_memories acc @ filter (allowed_by pol p) ms
     \<and> acc_denied_ids acc' =
         acc_denied_ids acc @ map mem_id (filter (\<lambda>m. \<not> allowed_by pol p m) ms)"
proof (induction ms arbitrary: acc)
  case Nil
  then show ?case by simp
next
  case (Cons m ms)
  from Cons.prems obtain d where d: "evaluate_query pol m p = Inr d"
    using evaluate_query_total by blast
  show ?case
  proof (cases "qry_allowed d")
    case True
    with d Cons.IH [OF Cons.prems, of "categorize m (acc\<lparr>allowed_memories := allowed_memories acc @ [m]\<rparr>)"]
    show ?thesis by (auto simp: allowed_by_def)
  next
    case False
    with d Cons.IH [OF Cons.prems, of "acc\<lparr>acc_denied_ids := acc_denied_ids acc @ [mem_id m]\<rparr>"]
    show ?thesis by (auto simp: allowed_by_def)
  qed
qed

lemma retrieve_rows_shape:
  assumes "has_read_defaults pol"
  shows "\<exists>r. retrieve_rows pol p ms = Inr r
     \<and> memory_ids r =
         map mem_id (filter (\<lambda>m. allowed_by pol p m \<and> (p = TASK_EXECUTION \<longrightarrow> \<not> nonfactual (truth_mode m))) ms)
     \<and> denied_ids r =
         map mem_id (filter (\<lambda>m. \<not> allowed_by pol p m) ms)
           @ (if p = TASK_EXECUTION
              then map mem_id (filter (\<lambda>m. allowed_by pol p m \<and> nonfactual (truth_mode m)) ms)
              else [])"
proof -
  let ?acc0 = "\<lparr> allowed_memories = [], acc_denied_ids = [], acc_impacts = [], acc_seeds = [],
               acc_events = [] \<rparr>"
  from retrieve_loop_shape [OF assms, of p ms ?acc0]
  obtain acc' where a: "retrieve_loop pol p ms ?acc0 = Inr acc'"
    and b: "allowed_memories acc' = filter (allowed_by pol p) ms"
    and c: "acc_denied_ids acc' = map mem_id (filter (\<lambda>m. \<not> allowed_by pol p m) ms)"
    by auto
  show ?thesis
  proof (cases "p = TASK_EXECUTION")
    case True
    with a b c show ?thesis
      by (simp add: retrieve_rows_def task_filter_def Let_def)
  next
    case False
    with a b c show ?thesis
      by (simp add: retrieve_rows_def task_filter_def Let_def)
  qed
qed

lemma default_task_allow_read:
  "then_values ''allow_read'' (matching_rules default_policy (query_context m TASK_EXECUTION))
     = (if nonfactual (truth_mode m) then [PBool False] else [])"
  by (cases "truth_mode m")
     (simp_all add: default_policy_def
      matching_rules_def then_values_def match_rule_def match_condition_def query_context_def
      List.map_filter_simps nonfactual_def del: py_split.simps)

section \<open>Ingest: the sealing rule\<close>

lemma shame_event_fields:
  "state (build_memory i (sample_request tm lvl cats t txt)) = ACTIVE"
  "mtype (build_memory i (sample_request tm lvl cats t txt)) = EVENT"
  "mem_id (build_memory i (sample_request tm lvl cats t txt)) = i"
  "categories (sensitivity (build_memory i (sample_request tm lvl cats t txt))) = cats"
  "level (sensitivity (build_memory i (sample_request tm lvl cats t txt))) = lvl"
  "content_text (content (build_memory i (sample_request tm lvl cats t txt))) = Some txt"
  by (simp_all add: build_memory_def sample_request_def)

lemma shame_extract:
  "\<exists>impact. extract_impacts default_extractor sample_extract_env (build_memory ''mem_e1'' shame_request) True = Some impact
     \<and> mem_id impact = ''mem_i1'' \<and> state impact = ACTIVE \<and> content_text (content impact) = Some ''I felt ashamed about the mistake I made''"
  using shame_constraints
  by (auto simp add: extract_impacts_def Let_def shame_request_def shame_event_fields sample_extract_env_def)

lemma create_memory_v2_default:
  "create_memory_v2 default_policy env db app_id req =
     (let memory = build_memory (new_memory_id env) req in
      case store_memory (event_store_ok env) db memory app_id of
        Inl e \<Rightarrow> (db, Inl (HTTPException 500 (''Failed to create memory: '' @ error_text e)))
      | Inr db1 \<Rightarrow>
          (let response =
                 \<lparr> resp_id = mem_id memory, resp_tenant_id = tenant_id memory,
                   resp_state = state memory, resp_created_at = now env,
                   resp_policy_trace =
                     \<lparr> trace_policy_version = ''pol_2026_01_06_01'', matched_rules = [],
                       denied_reasons = [] \<rparr> \<rparr>
           in if mtype memory = EVENT
              then (case extract_and_store_impact (impact_store_ok env) (link_store_ok env)
                            (extract_env env) (now env) db1 memory app_id default_extractor True of
                      (db2, Inl e) \<Rightarrow>
                        (db2, Inl (HTTPException 500 (''Failed to create memory: '' @ error_text e)))
                    | (db2, Inr _) \<Rightarrow> (db2, Inr response))
              else (db1, Inr response)))"
  by (simp add: create_memory_v2_def evaluate_ingest_default Let_def split: sum.splits)

lemma default_extractor_version:
  "transform_version default_extractor = ''tx_impact_extract_v2.1.0''"
  by (simp add: default_extractor_def)

lemma sample_env_fields [simp]:
  "new_memory_id sample_env = ''mem_e1''" "extract_env sample_env = sample_extract_env"
  "now sample_env = 100" "event_store_ok sample_env" "impact_store_ok sample_env"
  "link_store_ok sample_env"
  by (simp_all add: sample_env_def)

text \<open>
  C1. The claim is that an event whose sensitivity categories contain trauma, shame or
  moral\_injury matches \<open>seal_sensitive_events\<close> at ingest and is stored and
  reported as sealed. Evaluated on the code, it is not: the rule's condition on
  \<open>memory.sensitivity.categories\<close> tests whether the memory's whole category list is
  an element of the rule's list of strings, which no list is. For the event with
  categories \<open>[shame]\<close> no rule matches, the response carries state active, and both
  the event and its derived impact are stored as active.
\<close>

theorem shame_event_stays_active:
  "evaluate_ingest default_policy (build_memory ''mem_e1'' shame_request) =
     Inr \<lparr> ing_allowed = True, ing_state = ACTIVE, derive_impacts = True, derive_seeds = True,
           ing_trace = \<lparr> trace_policy_version = ''pol_2026_01_06_01'', matched_rules = [],
                         denied_reasons = [] \<rparr> \<rparr>
   \<and> categories (sensitivity (build_memory ''mem_e1'' shame_request)) = [''shame'']
   \<and> (\<exists>r. snd shame_ingest = Inr r \<and> resp_state r = ACTIVE)
   \<and> map (\<lambda>r. (mem_id (row_memory r), state (row_memory r))) (memories_v2 (fst shame_ingest))
       = [(''mem_e1'', ACTIVE), (''mem_i1'', ACTIVE)]"
proof -
  let ?e = "build_memory ''mem_e1'' shame_request"
  obtain impact where i: "extract_impacts default_extractor sample_extract_env ?e True = Some impact"
     "mem_id impact = ''mem_i1''" "state impact = ACTIVE"
    using shame_extract by blast
  have f: "state ?e = ACTIVE" "mtype ?e = EVENT" "mem_id ?e = ''mem_e1''"
    "categories (sensitivity ?e) = [''shame'']"
    by (simp_all add: shame_request_def shame_event_fields)
  have 1: "evaluate_ingest default_policy ?e =
     Inr \<lparr> ing_allowed = True, ing_state = ACTIVE, derive_impacts = True, derive_seeds = True,
           ing_trace = \<lparr> trace_policy_version = ''pol_2026_01_06_01'', matched_rules = [],
                         denied_reasons = [] \<rparr> \<rparr>"
    by (simp add: evaluate_ingest_default f)
  have 3: "fst shame_ingest =
     \<lparr> memories_v2 = [\<lparr>row_memory = ?e, row_app_id = ''app_1''\<rparr>,
                        \<lparr>row_memory = impact, row_app_id = ''app_1''\<rparr>],
        memory_links_v2 = [\<lparr> parent_id = ''mem_e1'', child_id = ''mem_i1'',
                         relationship = ''derived_impact'', link_rule = ''tx_impact_extract_v2.1.0'',
                         strength_transfer = 4 / 10, link_created_at = 100 \<rparr>],
        access_logs_v2 = [] \<rparr>"
    and 4: "\<exists>r. snd shame_ingest = Inr r \<and> resp_state r = ACTIVE"
    by (simp_all add: shame_ingest_def create_memory_v2_default Let_def f i empty_db_def
        store_memory_def extract_and_store_impact_def store_memory_link_def default_extractor_version)
  show ?thesis
    unfolding 3 using 1 4 i f by simp
qed

section \<open>Impact extraction: results\<close>

lemma has_constraint_simps [simp]:
  "has_constraint [] k ps = False"
  "has_constraint (c # cs) k ps =
     ((map_of c ''kind'' = Some (PStr k) \<and> map_of c ''params'' = Some (PDict ps))
      \<or> has_constraint cs k ps)"
  "has_constraint (xs @ ys) k ps = (has_constraint xs k ps \<or> has_constraint ys k ps)"
  by (simp_all add: has_constraint_def)

lemma constraint_kind_params [simp]:
  "map_of (create_safety_constraint ex env k ev mode cr) ''kind'' = Some (PStr ''safety'')"
  "map_of (create_safety_constraint ex env k ev mode cr) ''params''
     = Some (PDict [(''mode'', PStr mode), (''consent_required'', PBool cr)])"
  "map_of (create_avoid_constraint ex env k ev cc) ''kind'' = Some (PStr ''avoid'')"
  "map_of (create_avoid_constraint ex env k ev cc) ''params''
     = Some (PDict [(''content_class'', PStr cc)])"
  "map_of (create_tone_constraint ex env k ev tp) ''kind'' = Some (PStr ''tone'')"
  "map_of (create_tone_constraint ex env k ev tp) ''params''
     = Some (PDict [(''tone_profile'', PStr tp)])"
  "map_of (create_style_constraint ex env k ev fmt) ''kind'' = Some (PStr ''style'')"
  "map_of (create_style_constraint ex env k ev fmt) ''params''
     = Some (PDict [(''format'', PStr fmt)])"
  by (simp_all add: create_safety_constraint_def create_avoid_constraint_def
      create_tone_constraint_def create_style_constraint_def)

lemma extract_constraints_sensitive:
  assumes "sensitive_level event"
  shows "(''shame'' \<in> set (categories (sensitivity event)) \<or> ''moral_injury'' \<in> set (categories (sensitivity event))
           \<longrightarrow> has_constraint (extract_constraints ex env event) ''avoid'' [(''content_class'', PStr ''judgment_language'')]
             \<and> has_constraint (extract_constraints ex env event) ''tone'' [(''tone_profile'', PStr ''non_judgmental'')])
       \<and> (''trauma'' \<in> set (categories (sensitivity event))
           \<longrightarrow> has_constraint (extract_constraints ex env event) ''safety''
                 [(''mode'', PStr ''supportive_reframe_only''), (''consent_required'', PBool True)])"
  using assms
  by (simp add: extract_constraints_def Let_def split: option.splits)

lemma has_constraint_nonempty: "has_constraint cs k ps \<Longrightarrow> cs \<noteq> []"
  by (auto simp: has_constraint_def)

lemma has_kind_simps [simp]:
  "has_kind [] k = False"
  "has_kind (c # cs) k = (map_of c ''kind'' = Some (PStr k) \<or> has_kind cs k)"
  "has_kind (xs @ ys) k = (has_kind xs k \<or> has_kind ys k)"
  by (simp_all add: has_kind_def)

lemma detect_tone_not_non_judgmental:
  "detect_tone_preference t \<noteq> Some ''non_judgmental''"
  by (simp add: detect_tone_preference_def Let_def)

lemma extract_constraints_not_sensitive:
  assumes "\<not> sensitive_level event"
  shows "extract_constraints ex env event = extract_constraints ex env (without_categories event)"
    and "\<not> has_kind (extract_constraints ex env event) ''avoid''"
    and "\<not> has_kind (extract_constraints ex env event) ''safety''"
    and "\<not> has_constraint (extract_constraints ex env event) ''tone'' [(''tone_profile'', PStr ''non_judgmental'')]"
proof -
  show "extract_constraints ex env event = extract_constraints ex env (without_categories event)"
    using assms
    by (simp add: extract_constraints_def without_categories_def sensitive_level_def Let_def
        create_tone_constraint_def create_style_constraint_def constraint_provenance_def
        policy_version_val_def split: option.splits)
  show "\<not> has_kind (extract_constraints ex env event) ''avoid''"
    using assms by (simp add: extract_constraints_def Let_def split: option.splits)
  show "\<not> has_kind (extract_constraints ex env event) ''safety''"
    using assms by (simp add: extract_constraints_def Let_def split: option.splits)
  show "\<not> has_constraint (extract_constraints ex env event) ''tone'' [(''tone_profile'', PStr ''non_judgmental'')]"
    using assms detect_tone_not_non_judgmental [of "case content_text (content event) of None \<Rightarrow> [] | Some t \<Rightarrow> t"]
    by (auto simp add: extract_constraints_def Let_def split: option.splits)
qed

lemma extract_impacts_payload:
  "extract_impacts ex env event pa = Some impact \<Longrightarrow>
     impact_payload impact = Some \<lparr> constraints = extract_constraints ex env event \<rparr>"
  by (auto simp: extract_impacts_def Let_def split: if_splits)

lemma gentle_tone: "detect_tone_preference ''Please be gentle'' = Some ''reassuring''"
  by (simp add: detect_tone_preference_def any_kw_def lower_def lower_char_def Let_def)

lemma gentle_low_extract:
  "\<exists>impact. extract_impacts default_extractor sample_extract_env gentle_low_event True = Some impact"
  by (simp add: gentle_low_event_def extract_impacts_def extract_constraints_def Let_def
      shame_event_fields sensitive_level_def gentle_tone split: option.splits)

text \<open>
  C7, as the code has it. For an event that is not sealed, whose sensitivity level is
  high or critical and whose categories contain shame or moral\_injury, extraction
  with policy permission yields an impact whose constraints include an avoid constraint
  with parameters \<open>content_class = judgment_language\<close> and a tone constraint with
  parameters \<open>tone_profile = non_judgmental\<close>, and, when trauma is among the
  categories, a safety constraint with \<open>mode = supportive_reframe_only\<close> and
  \<open>consent_required = true\<close>. For an event of level low or medium the categories
  produce no constraint: the payload of the extraction is the one the same event
  without categories gives, and an impact that is extracted holds no avoid constraint,
  no safety constraint and no tone constraint with \<open>tone_profile = non_judgmental\<close>.
\<close>

theorem sensitive_event_constraints:
  assumes "state event \<noteq> SEALED"
  shows "((level (sensitivity event) = HIGH \<or> level (sensitivity event) = CRITICAL)
           \<and> (''shame'' \<in> set (categories (sensitivity event))
               \<or> ''moral_injury'' \<in> set (categories (sensitivity event)))
          \<longrightarrow> (\<exists>impact p. extract_impacts ex env event True = Some impact
                 \<and> impact_payload impact = Some p
                 \<and> has_constraint (constraints p) ''avoid'' [(''content_class'', PStr ''judgment_language'')]
                 \<and> has_constraint (constraints p) ''tone'' [(''tone_profile'', PStr ''non_judgmental'')]
                 \<and> (''trauma'' \<in> set (categories (sensitivity event))
                      \<longrightarrow> has_constraint (constraints p) ''safety''
                            [(''mode'', PStr ''supportive_reframe_only''), (''consent_required'', PBool True)])))
       \<and> ((level (sensitivity event) = LOW \<or> level (sensitivity event) = MEDIUM)
          \<longrightarrow> map_option impact_payload (extract_impacts ex env event True)
                 = map_option impact_payload (extract_impacts ex env (without_categories event) True)
              \<and> (\<forall>impact p. extract_impacts ex env event True = Some impact
                     \<and> impact_payload impact = Some p
                   \<longrightarrow> \<not> has_kind (constraints p) ''avoid''
                     \<and> \<not> has_kind (constraints p) ''safety''
                     \<and> \<not> has_constraint (constraints p) ''tone'' [(''tone_profile'', PStr ''non_judgmental'')]))"
proof (intro conjI impI)
  assume a: "(level (sensitivity event) = HIGH \<or> level (sensitivity event) = CRITICAL)
           \<and> (''shame'' \<in> set (categories (sensitivity event))
               \<or> ''moral_injury'' \<in> set (categories (sensitivity event)))"
  then have s: "sensitive_level event"
    by (auto simp: sensitive_level_def)
  note c = extract_constraints_sensitive [OF s, of ex env]
  from c a have "extract_constraints ex env event \<noteq> []"
    using has_constraint_nonempty by blast
  with assms c a show "\<exists>impact p. extract_impacts ex env event True = Some impact
                 \<and> impact_payload impact = Some p
                 \<and> has_constraint (constraints p) ''avoid'' [(''content_class'', PStr ''judgment_language'')]
                 \<and> has_constraint (constraints p) ''tone'' [(''tone_profile'', PStr ''non_judgmental'')]
                 \<and> (''trauma'' \<in> set (categories (sensitivity event))
                      \<longrightarrow> has_constraint (constraints p) ''safety''
                            [(''mode'', PStr ''supportive_reframe_only''), (''consent_required'', PBool True)])"
    by (simp add: extract_impacts_def Let_def)
next
  assume "level (sensitivity event) = LOW \<or> level (sensitivity event) = MEDIUM"
  then have n: "\<not> sensitive_level event"
    by (auto simp: sensitive_level_def)
  note c = extract_constraints_not_sensitive [OF n, of ex env]
  show "map_option impact_payload (extract_impacts ex env event True)
                 = map_option impact_payload (extract_impacts ex env (without_categories event) True)"
    using c(1) by (simp add: extract_impacts_def Let_def without_categories_def)
  show "\<forall>impact p. extract_impacts ex env event True = Some impact
                     \<and> impact_payload impact = Some p
                   \<longrightarrow> \<not> has_kind (constraints p) ''avoid''
                     \<and> \<not> has_kind (constraints p) ''safety''
                     \<and> \<not> has_constraint (constraints p) ''tone'' [(''tone_profile'', PStr ''non_judgmental'')]"
    using c(2,3,4) extract_impacts_payload [of ex env event True] by auto
qed

theorem sensitive_event_constraints_witness:
  "(\<exists>impact p. extract_impacts default_extractor sample_extract_env
        (build_memory ''mem_e1'' (sample_request SUBJECTIVE_EXPERIENCE HIGH [''shame'', ''trauma''] 100 ''It was a hard day'')) True = Some impact
           \<and> impact_payload impact = Some p
           \<and> has_constraint (constraints p) ''avoid'' [(''content_class'', PStr ''judgment_language'')]
           \<and> has_constraint (constraints p) ''tone'' [(''tone_profile'', PStr ''non_judgmental'')]
           \<and> has_constraint (constraints p) ''safety''
                      [(''mode'', PStr ''supportive_reframe_only''), (''consent_required'', PBool True)])
   \<and> (\<exists>impact p. extract_impacts default_extractor sample_extract_env gentle_low_event True = Some impact
           \<and> impact_payload impact = Some p
           \<and> \<not> has_kind (constraints p) ''avoid''
           \<and> \<not> has_kind (constraints p) ''safety''
           \<and> \<not> has_constraint (constraints p) ''tone'' [(''tone_profile'', PStr ''non_judgmental'')])"
proof -
  have h: "\<exists>impact p. extract_impacts default_extractor sample_extract_env
        (build_memory ''mem_e1'' (sample_request SUBJECTIVE_EXPERIENCE HIGH [''shame'', ''trauma''] 100 ''It was a hard day'')) True = Some impact
           \<and> impact_payload impact = Some p
           \<and> has_constraint (constraints p) ''avoid'' [(''content_class'', PStr ''judgment_language'')]
           \<and> has_constraint (constraints p) ''tone'' [(''tone_profile'', PStr ''non_judgmental'')]
           \<and> has_constraint (constraints p) ''safety''
                      [(''mode'', PStr ''supportive_reframe_only''), (''consent_required'', PBool True)]"
    using sensitive_event_constraints [of "build_memory ''mem_e1'' (sample_request SUBJECTIVE_EXPERIENCE HIGH [''shame'', ''trauma''] 100 ''It was a hard day'')"
      default_extractor sample_extract_env]
    by (simp add: shame_event_fields)
  obtain impact where i: "extract_impacts default_extractor sample_extract_env gentle_low_event True = Some impact"
    using gentle_low_extract by blast
  then obtain p where p: "impact_payload impact = Some p"
    using extract_impacts_payload by blast
  have f: "state gentle_low_event \<noteq> SEALED" "level (sensitivity gentle_low_event) = LOW"
    by (simp_all add: gentle_low_event_def shame_event_fields)
  from sensitive_event_constraints [OF f(1), of default_extractor sample_extract_env] f(2) i p
  have "\<not> has_kind (constraints p) ''avoid''
           \<and> \<not> has_kind (constraints p) ''safety''
           \<and> \<not> has_constraint (constraints p) ''tone'' [(''tone_profile'', PStr ''non_judgmental'')]"
    by simp
  with h i p show ?thesis
    by blast
qed

text \<open>
  C7 as stated, without the condition on the level, fails: the event below is not
  sealed and carries the category shame, but its level is medium, so the guard on the
  level skips the sensitivity constraints; its text asks for no tone or style either,
  and nothing is extracted.
\<close>

theorem medium_shame_event_no_constraints:
  "state quiet_shame_event \<noteq> SEALED
   \<and> mtype quiet_shame_event = EVENT
   \<and> ''shame'' \<in> set (categories (sensitivity quiet_shame_event))
   \<and> extract_impacts default_extractor sample_extract_env quiet_shame_event True = None"
  by (simp add: quiet_shame_event_def shame_event_fields extract_impacts_def extract_constraints_def
      sensitive_level_def shame_text_no_tone shame_text_no_style Let_def)

text \<open>
  C10. An impact produced by the extractor carries the event's \<open>content\<close> unchanged,
  \<open>content.text\<close> included, next to the inherited sensitivity, ownership, temporal,
  affect and strength; and when \<open>extract_and_store_impact\<close> succeeds, the row it
  appended to \<open>memories_v2\<close> is that impact, so the event's text is stored in the
  impact row.
\<close>

theorem impact_copies_event_content:
  "(extract_impacts ex env event policy_allows = Some impact
      \<longrightarrow> content impact = content event
        \<and> content_text (content impact) = content_text (content event)
        \<and> sensitivity impact = sensitivity event \<and> ownership impact = ownership event
        \<and> temporal impact = temporal event \<and> affect impact = affect event
        \<and> strength impact = strength event)
   \<and> (extract_and_store_impact impact_ok link_ok env t db event app_id ex policy_allows
         = (db', Inr (Some impact))
      \<longrightarrow> memories_v2 db' = memories_v2 db @ [\<lparr>row_memory = impact, row_app_id = app_id\<rparr>]
        \<and> content (row_memory (last (memories_v2 db'))) = content event)"
  by (auto simp: extract_impacts_def extract_and_store_impact_def store_memory_def
      store_memory_link_def Let_def split: if_splits option.splits sum.splits)

theorem impact_copies_event_content_witness:
  "\<exists>impact. extract_impacts default_extractor sample_extract_env
                (build_memory ''mem_e1'' shame_request) True = Some impact
     \<and> content_text (content impact) = Some ''I felt ashamed about the mistake I made''
     \<and> content_text (content (row_memory (last (memories_v2 (fst shame_ingest)))))
         = Some ''I felt ashamed about the mistake I made''"
proof -
  obtain impact where i: "extract_impacts default_extractor sample_extract_env
                (build_memory ''mem_e1'' shame_request) True = Some impact"
    using shame_extract by blast
  have e: "extract_and_store_impact True True sample_extract_env 100
             \<lparr> memories_v2 = [\<lparr>row_memory = build_memory ''mem_e1'' shame_request, row_app_id = ''app_1''\<rparr>],
               memory_links_v2 = [], access_logs_v2 = [] \<rparr>
             (build_memory ''mem_e1'' shame_request) ''app_1'' default_extractor True
           = (fst shame_ingest, Inr (Some impact))"
    using shame_extract i
    by (simp add: shame_ingest_def create_memory_v2_default Let_def empty_db_def
        store_memory_def extract_and_store_impact_def store_memory_link_def
        shame_request_def shame_event_fields)
  from impact_copies_event_content [of default_extractor sample_extract_env
        "build_memory ''mem_e1'' shame_request" True impact True True 100 _ "''app_1''" "fst shame_ingest"] i e
  show ?thesis
    by (simp add: shame_request_def shame_event_fields)
qed

section \<open>Ingest: what a failed step leaves behind\<close>

lemma server_error_simps [simp]:
  "server_error (Inl (HTTPException c d)) = (c = 500)"
  "server_error (Inr r) = False"
  by (simp_all add: server_error_def)

lemma created_simps [simp]:
  "created (Inl e) ev = False"
  "created (Inr r) ev = (resp_id r = mem_id ev \<and> resp_state r = state ev)"
  by (simp_all add: created_def)

lemma store_memory_cases:
  "store_memory ok db m app =
     (if \<not> ok then Inl (StoreError ''commit'')
      else if mem_id m \<in> stored_ids db then Inl (StoreError ''integrity'')
      else Inr (with_rows db app [m]))"
  by (simp add: store_memory_def stored_ids_def with_rows_def)

lemma stored_ids_with_rows [simp]:
  "stored_ids (with_rows db app ms) = stored_ids db \<union> mem_id ` set ms"
  by (auto simp: stored_ids_def with_rows_def)

lemma with_rows_with_rows [simp]:
  "with_rows (with_rows db app xs) app ys = with_rows db app (xs @ ys)"
  by (simp add: with_rows_def)

lemma extract_and_store_impact_cases:
  "extract_and_store_impact iok lok xenv t db ev app ex pa =
     (case extract_impacts ex xenv ev pa of
        None \<Rightarrow> (db, Inr None)
      | Some impact \<Rightarrow>
          (if \<not> iok then (db, Inl (StoreError ''commit''))
           else if mem_id impact \<in> stored_ids db then (db, Inl (StoreError ''integrity''))
           else if \<not> lok then (with_rows db app [impact], Inl (StoreError ''commit''))
           else (with_link (with_rows db app [impact])
                   \<lparr> parent_id = mem_id ev, child_id = mem_id impact,
                     relationship = ''derived_impact'', link_rule = transform_version ex,
                     strength_transfer = 4 / 10, link_created_at = t \<rparr>,
                 Inr (Some impact))))"
  by (simp add: extract_and_store_impact_def store_memory_cases store_memory_link_def with_link_def
      split: option.splits)

lemma failing_link_ingest_eval:
  "isl (snd failing_link_ingest)"
  "map (mem_id \<circ> row_memory) (memories_v2 (fst failing_link_ingest)) = [''mem_e1'', ''mem_i1'']"
  "memory_links_v2 (fst failing_link_ingest) = []"
  "access_logs_v2 (fst shame_ingest) = []"
proof -
  let ?e = "build_memory ''mem_e1'' shame_request"
  obtain impact where i: "extract_impacts default_extractor sample_extract_env ?e True = Some impact"
     "mem_id impact = ''mem_i1''"
    using shame_extract by blast
  have f: "state ?e = ACTIVE" "mtype ?e = EVENT" "mem_id ?e = ''mem_e1''"
    by (simp_all add: shame_request_def shame_event_fields)
  have e: "new_memory_id (sample_env\<lparr>link_store_ok := False\<rparr>) = ''mem_e1''"
    "extract_env (sample_env\<lparr>link_store_ok := False\<rparr>) = sample_extract_env"
    "event_store_ok (sample_env\<lparr>link_store_ok := False\<rparr>)"
    "impact_store_ok (sample_env\<lparr>link_store_ok := False\<rparr>)"
    "\<not> link_store_ok (sample_env\<lparr>link_store_ok := False\<rparr>)"
    by (simp_all add: sample_env_def)
  show "isl (snd failing_link_ingest)"
    and "map (mem_id \<circ> row_memory) (memories_v2 (fst failing_link_ingest)) = [''mem_e1'', ''mem_i1'']"
    and "memory_links_v2 (fst failing_link_ingest) = []"
    by (simp_all add: failing_link_ingest_def create_memory_v2_default Let_def f i e empty_db_def
        store_memory_def extract_and_store_impact_def store_memory_link_def)
  show "access_logs_v2 (fst shame_ingest) = []"
    by (simp add: shame_ingest_def create_memory_v2_default Let_def f i empty_db_def
        store_memory_def extract_and_store_impact_def store_memory_link_def)
qed

lemma sample_ingest_steps:
  assumes "new_memory_id env = ''mem_e1''" "extract_env env = sample_extract_env"
  shows "\<exists>event impact. ingest_event default_policy env shame_request = Some event
           \<and> ingest_impact default_policy env shame_request = Some impact
           \<and> mem_id event = ''mem_e1'' \<and> mem_id impact = ''mem_i1''"
proof -
  let ?e = "build_memory ''mem_e1'' shame_request"
  obtain impact where i: "extract_impacts default_extractor sample_extract_env ?e True = Some impact"
     "mem_id impact = ''mem_i1''"
    using shame_extract by blast
  have f: "state ?e = ACTIVE" "mtype ?e = EVENT" "mem_id ?e = ''mem_e1''"
    by (simp_all add: shame_request_def shame_event_fields)
  have u: "?e\<lparr>state := state ?e\<rparr> = ?e"
    by simp
  have "ingest_event default_policy env shame_request = Some ?e"
    by (simp only: ingest_event_def evaluate_ingest_default assms sum.case IngestDecision.simps u)
  moreover have "ingest_impact default_policy env shame_request = Some impact"
    by (simp only: ingest_impact_def evaluate_ingest_default assms sum.case IngestDecision.simps u
        Let_def) (simp add: f i)
  ultimately show ?thesis
    using f i by blast
qed

text \<open>
  C6, as the code has it. An ingest is not one transaction: the event insert, the
  impact insert and the link insert are committed one after the other, and the handler
  writes no access-log or audit row. A step that fails (its commit fails, or the id is
  taken) makes the request fail with status 500 and leaves what the steps before it
  committed: nothing when the policy evaluation or the event insert fails, the event row
  alone when the impact insert fails, the event row and the impact row without a link
  when the link insert fails. A successful ingest stores the event row alone when no
  impact is derived, and otherwise the event row, the impact row and their link.
\<close>

theorem ingest_commits_stepwise:
  assumes "create_memory_v2 pol env db app_id req = (db', res)"
  shows "access_logs_v2 db' = access_logs_v2 db
   \<and> (ingest_event pol env req = None \<longrightarrow> db' = db \<and> server_error res)
   \<and> (\<forall>event. ingest_event pol env req = Some event \<longrightarrow>
        (\<not> event_store_ok env \<or> mem_id event \<in> stored_ids db \<longrightarrow> db' = db \<and> server_error res)
      \<and> (event_store_ok env \<and> mem_id event \<notin> stored_ids db \<longrightarrow>
           (ingest_impact pol env req = None \<longrightarrow>
              db' = with_rows db app_id [event] \<and> created res event)
         \<and> (\<forall>impact. ingest_impact pol env req = Some impact \<longrightarrow>
              (\<not> impact_store_ok env \<or> mem_id impact \<in> stored_ids db \<or> mem_id impact = mem_id event
                 \<longrightarrow> db' = with_rows db app_id [event] \<and> server_error res)
            \<and> (impact_store_ok env \<and> mem_id impact \<notin> stored_ids db \<and> mem_id impact \<noteq> mem_id event
                 \<longrightarrow> (\<not> link_store_ok env \<longrightarrow>
                         db' = with_rows db app_id [event, impact] \<and> server_error res)
                   \<and> (link_store_ok env \<longrightarrow>
                         db' = with_link (with_rows db app_id [event, impact])
                                 (ingest_link env event impact)
                         \<and> created res event)))))"
proof (cases "evaluate_ingest pol (build_memory (new_memory_id env) req)")
  case (Inl e)
  with assms show ?thesis
    by (auto simp: create_memory_v2_def Let_def ingest_event_def)
next
  case (Inr d)
  let ?m = "(build_memory (new_memory_id env) req)\<lparr>state := ing_state d\<rparr>"
  have ev: "ingest_event pol env req = Some ?m"
    by (simp add: ingest_event_def Inr)
  have im: "ingest_impact pol env req =
      (if derive_impacts d \<and> mtype ?m = EVENT
       then extract_impacts default_extractor (extract_env env) ?m True else None)"
    by (simp add: ingest_impact_def Inr Let_def)
  have run: "create_memory_v2 pol env db app_id req =
     (case store_memory (event_store_ok env) db ?m app_id of
             Inl e \<Rightarrow> (db, Inl (HTTPException 500 (''Failed to create memory: '' @ error_text e)))
           | Inr db1 \<Rightarrow>
               (let response =
                      \<lparr> resp_id = mem_id ?m, resp_tenant_id = tenant_id ?m,
                        resp_state = state ?m, resp_created_at = now env,
                        resp_policy_trace = ing_trace d \<rparr>
                in if derive_impacts d \<and> mtype ?m = EVENT
                   then (case extract_and_store_impact (impact_store_ok env) (link_store_ok env)
                                 (extract_env env) (now env) db1 ?m app_id default_extractor True of
                           (db2, Inl e) \<Rightarrow>
                             (db2, Inl (HTTPException 500
                                          (''Failed to create memory: '' @ error_text e)))
                         | (db2, Inr _) \<Rightarrow> (db2, Inr response))
                   else (db1, Inr response)))"
    by (simp add: create_memory_v2_def Inr Let_def)
  show ?thesis
  proof (cases "\<not> event_store_ok env \<or> mem_id ?m \<in> stored_ids db")
    case True
    then have "store_memory (event_store_ok env) db ?m app_id
        = Inl (StoreError (if \<not> event_store_ok env then ''commit'' else ''integrity''))"
      by (simp add: store_memory_cases)
    with assms run have "db' = db" "server_error res"
      by auto
    with True show ?thesis
      by (auto simp: ev)
  next
    case ok: False
    then have st: "store_memory (event_store_ok env) db ?m app_id = Inr (with_rows db app_id [?m])"
      by (simp add: store_memory_cases)
    show ?thesis
    proof (cases "ingest_impact pol env req")
      case None
      with assms ok show ?thesis
        unfolding run ev st
        by (auto simp: im extract_and_store_impact_cases Let_def with_rows_def split: if_splits)
    next
      case (Some impact)
      then have d: "derive_impacts d \<and> mtype ?m = EVENT"
        and x: "extract_impacts default_extractor (extract_env env) ?m True = Some impact"
        by (auto simp: im split: if_splits)
      let ?db1 = "with_rows db app_id [?m]"
      have xs: "extract_and_store_impact (impact_store_ok env) (link_store_ok env)
              (extract_env env) (now env) ?db1 ?m app_id default_extractor True =
           (if \<not> impact_store_ok env then (?db1, Inl (StoreError ''commit''))
            else if mem_id impact \<in> stored_ids ?db1 then (?db1, Inl (StoreError ''integrity''))
            else if \<not> link_store_ok env then (with_rows ?db1 app_id [impact], Inl (StoreError ''commit''))
            else (with_link (with_rows ?db1 app_id [impact]) (ingest_link env ?m impact),
                  Inr (Some impact)))"
        by (simp only: extract_and_store_impact_cases x option.case ingest_link_def)
      have ids: "stored_ids ?db1 = stored_ids db \<union> {mem_id ?m}"
        by simp
      have logs: "access_logs_v2 ?db1 = access_logs_v2 db"
        "access_logs_v2 (with_rows ?db1 app_id [impact]) = access_logs_v2 db"
        "access_logs_v2 (with_link (with_rows ?db1 app_id [impact]) (ingest_link env ?m impact))
           = access_logs_v2 db"
        by (simp_all add: with_rows_def with_link_def)
      have two: "with_rows ?db1 app_id [impact] = with_rows db app_id [?m, impact]"
        by simp
      show ?thesis
      proof (cases "\<not> impact_store_ok env \<or> mem_id impact \<in> stored_ids db \<or> mem_id impact = mem_id ?m")
        case True
        then have "extract_and_store_impact (impact_store_ok env) (link_store_ok env)
              (extract_env env) (now env) ?db1 ?m app_id default_extractor True =
            (?db1, Inl (StoreError (if \<not> impact_store_ok env then ''commit'' else ''integrity'')))"
          unfolding xs ids by auto
        with assms run st d have "db' = ?db1" "server_error res"
          by (auto simp: Let_def)
        with True ok logs show ?thesis
          unfolding ev Some by auto
      next
        case iok: False
        show ?thesis
        proof (cases "link_store_ok env")
          case True
          with iok have "extract_and_store_impact (impact_store_ok env) (link_store_ok env)
              (extract_env env) (now env) ?db1 ?m app_id default_extractor True =
            (with_link (with_rows db app_id [?m, impact]) (ingest_link env ?m impact), Inr (Some impact))"
            unfolding xs ids two by auto
          with assms run st d
          have "db' = with_link (with_rows db app_id [?m, impact]) (ingest_link env ?m impact)"
            "created res ?m"
            by (auto simp: Let_def)
          with True ok iok logs two show ?thesis
            unfolding ev Some by auto
        next
          case False
          with iok have "extract_and_store_impact (impact_store_ok env) (link_store_ok env)
              (extract_env env) (now env) ?db1 ?m app_id default_extractor True =
            (with_rows db app_id [?m, impact], Inl (StoreError ''commit''))"
            unfolding xs ids two by auto
          with assms run st d
          have "db' = with_rows db app_id [?m, impact]" "server_error res"
            by (auto simp: Let_def)
          with False ok iok logs two show ?thesis
            unfolding ev Some by auto
        qed
      qed
    qed
  qed
qed

theorem ingest_commits_stepwise_witness:
  "server_error (snd failing_impact_ingest)
   \<and> map (mem_id \<circ> row_memory) (memories_v2 (fst failing_impact_ingest)) = [''mem_e1'']
   \<and> memory_links_v2 (fst failing_impact_ingest) = []
   \<and> server_error (snd failing_link_ingest)
   \<and> map (mem_id \<circ> row_memory) (memories_v2 (fst failing_link_ingest)) = [''mem_e1'', ''mem_i1'']
   \<and> memory_links_v2 (fst failing_link_ingest) = []"
proof -
  have c1: "create_memory_v2 default_policy (sample_env\<lparr>impact_store_ok := False\<rparr>) empty_db ''app_1''
       shame_request = (fst failing_impact_ingest, snd failing_impact_ingest)"
    by (simp add: failing_impact_ingest_def)
  have c2: "create_memory_v2 default_policy (sample_env\<lparr>link_store_ok := False\<rparr>) empty_db ''app_1''
       shame_request = (fst failing_link_ingest, snd failing_link_ingest)"
    by (simp add: failing_link_ingest_def)
  obtain e1 i1 where s1: "ingest_event default_policy (sample_env\<lparr>impact_store_ok := False\<rparr>) shame_request = Some e1"
     "ingest_impact default_policy (sample_env\<lparr>impact_store_ok := False\<rparr>) shame_request = Some i1"
     "mem_id e1 = ''mem_e1''" "mem_id i1 = ''mem_i1''"
    using sample_ingest_steps [of "sample_env\<lparr>impact_store_ok := False\<rparr>"] by auto
  obtain e2 i2 where s2: "ingest_event default_policy (sample_env\<lparr>link_store_ok := False\<rparr>) shame_request = Some e2"
     "ingest_impact default_policy (sample_env\<lparr>link_store_ok := False\<rparr>) shame_request = Some i2"
     "mem_id e2 = ''mem_e1''" "mem_id i2 = ''mem_i1''"
    using sample_ingest_steps [of "sample_env\<lparr>link_store_ok := False\<rparr>"] by auto
  have n: "stored_ids empty_db = {}"
    by (simp add: stored_ids_def empty_db_def)
  from ingest_commits_stepwise [OF c1] s1 n
  have 1: "fst failing_impact_ingest = with_rows empty_db ''app_1'' [e1]
       \<and> server_error (snd failing_impact_ingest)"
    by simp
  from ingest_commits_stepwise [OF c2] s2 n
  have 2: "fst failing_link_ingest = with_rows empty_db ''app_1'' [e2, i2]
       \<and> server_error (snd failing_link_ingest)"
    by simp
  from 1 2 s1 s2 show ?thesis
    by (simp add: with_rows_def empty_db_def)
qed

text \<open>
  C6 as stated fails: when the commit of the link row fails, the request fails, yet the
  event row and the impact row are in the store, without their link. And a successful
  ingest has written no log row.
\<close>

theorem failed_link_leaves_rows:
  "isl (snd failing_link_ingest)
   \<and> map (mem_id \<circ> row_memory) (memories_v2 (fst failing_link_ingest)) = [''mem_e1'', ''mem_i1'']
   \<and> memory_links_v2 (fst failing_link_ingest) = []
   \<and> access_logs_v2 (fst shame_ingest) = []"
  by (simp add: failing_link_ingest_eval)

section \<open>Queries for task execution\<close>

lemma default_has_read_defaults: "has_read_defaults default_policy"
  by (simp add: has_read_defaults_def default_policy_def)

lemma default_read_defaults:
  "map_of (defaults default_policy) ''read'' = Some ''deny''"
  "map_of (defaults default_policy) ''include_in_prompt'' = Some ''deny''"
  by (simp_all add: default_policy_def)

lemma default_denies_task: "\<not> allowed_by default_policy TASK_EXECUTION m"
  using default_task_allow_read [of m]
  by (simp add: allowed_by_def evaluate_query_def default_is_allow_def Let_def
      default_read_defaults)

lemma query_memories_v2_response:
  "snd (query_memories_v2 ilike pol env db app_id q) =
     (case retrieve_rows pol (qreq_purpose q) (fetched ilike db q) of
        Inl e \<Rightarrow> Inl (HTTPException 500 (''Query failed: '' @ error_text e))
      | Inr result \<Rightarrow>
          Inr \<lparr> qresp_memory_ids = memory_ids result, qresp_impacts = impacts result,
                qresp_seeds = seeds result, qresp_events = events result,
                qresp_denied_ids = denied_ids result, qresp_access_log_id = env_log_id env \<rparr>)"
  by (simp add: query_memories_v2_def retrieve_for_purpose_def fetched_def Let_def
      split: sum.splits)

lemma fetched_distinct:
  assumes "distinct (map (mem_id \<circ> row_memory) (memories_v2 db))"
  shows "distinct (map mem_id (fetched ilike db q))"
proof -
  from assms have d: "distinct (map mem_id (map row_memory (memories_v2 db)))"
    by simp
  have "distinct (map mem_id (filter P (map row_memory (memories_v2 db))))" for P
    using d by (rule distinct_map_filter)
  then have "distinct (map mem_id (sort_key k (filter P (map row_memory (memories_v2 db)))))" for P and k :: "MemoryObject \<Rightarrow> int"
    by (simp add: distinct_map)
  then have "distinct (map mem_id (take n (sort_key k (filter P (map row_memory (memories_v2 db))))))" for P n and k :: "MemoryObject \<Rightarrow> int"
    by (simp add: take_map [symmetric] del: distinct_map)
  then show ?thesis
    by (simp add: fetched_def query_memories_def del: distinct_map)
qed

lemma fetched_AB: "fetched sample_ilike db_AB task_query = [memory_B, memory_A]"
  by (simp add: fetched_def query_memories_def db_AB_def task_query_def purpose_filters_def
      no_filters_def passes_filters_def text_matches_def search_terms_def memory_A_def memory_B_def
      build_memory_def sample_request_def)


lemma sample_memory_fields:
  "truth_mode (build_memory i (sample_request tm lvl cats t txt)) = tm"
  "tenant_id (build_memory i (sample_request tm lvl cats t txt)) = ''t_demo''"
  "scope (build_memory i (sample_request tm lvl cats t txt)) = sample_scope"
  by (simp_all add: build_memory_def sample_request_def)

lemma retrieve_loop_default_task:
  "retrieve_loop default_policy TASK_EXECUTION ms acc =
     Inr (acc\<lparr>acc_denied_ids := acc_denied_ids acc @ map mem_id ms\<rparr>)"
proof (induction ms arbitrary: acc)
  case Nil
  show ?case by simp
next
  case (Cons m ms)
  obtain d where d: "evaluate_query default_policy m TASK_EXECUTION = Inr d"
    using evaluate_query_total [OF default_has_read_defaults] by blast
  with default_denies_task [of m] have "\<not> qry_allowed d"
    by (simp add: allowed_by_def)
  with d Cons.IH show ?case by simp
qed

lemma retrieve_rows_default_task:
  "retrieve_rows default_policy TASK_EXECUTION ms =
     Inr \<lparr> memory_ids = [], impacts = [], seeds = [], events = [], denied_ids = map mem_id ms \<rparr>"
  by (simp add: retrieve_rows_def retrieve_loop_default_task task_filter_def Let_def)

text \<open>
  C4. Whatever the policy's rules are (its defaults only have to give \<open>read\<close> and
  \<open>include_in_prompt\<close>, or the evaluation raises): when a \<open>task_execution\<close> query
  fetches a memory whose truth mode is counterfactual, imagined or socially\_sourced,
  the query answers with a result, the memory's id is among the result's denied ids,
  and it is not among its memory ids. The ids of the stored memories are distinct, as
  the primary key of the table makes them.
\<close>

theorem nonfactual_denied_for_task_execution:
  assumes "has_read_defaults pol"
    and "qreq_purpose q = TASK_EXECUTION"
    and "m \<in> set (fetched ilike db q)"
    and "truth_mode m \<in> {COUNTERFACTUAL, IMAGINED, SOCIALLY_SOURCED}"
    and "distinct (map (mem_id \<circ> row_memory) (memories_v2 db))"
  shows "\<exists>r. snd (query_memories_v2 ilike pol env db app_id q) = Inr r
           \<and> mem_id m \<in> set (qresp_denied_ids r)
           \<and> mem_id m \<notin> set (qresp_memory_ids r)"
proof -
  let ?ms = "fetched ilike db q"
  from retrieve_rows_shape [OF assms(1), of TASK_EXECUTION ?ms]
  obtain r where r: "retrieve_rows pol TASK_EXECUTION ?ms = Inr r"
    and ids: "memory_ids r =
         map mem_id (filter (\<lambda>m. allowed_by pol TASK_EXECUTION m \<and> \<not> nonfactual (truth_mode m)) ?ms)"
    and den: "denied_ids r =
         map mem_id (filter (\<lambda>m. \<not> allowed_by pol TASK_EXECUTION m) ?ms)
           @ map mem_id (filter (\<lambda>m. allowed_by pol TASK_EXECUTION m \<and> nonfactual (truth_mode m)) ?ms)"
    by auto
  from assms(4) have nf: "nonfactual (truth_mode m)"
    by (auto simp: nonfactual_def)
  from assms(3) nf have 1: "mem_id m \<in> set (denied_ids r)"
    unfolding den by (cases "allowed_by pol TASK_EXECUTION m") auto
  have inj: "inj_on mem_id (set ?ms)"
    using fetched_distinct [OF assms(5), of ilike q] by (simp add: distinct_map)
  have 2: "mem_id m \<notin> set (memory_ids r)"
  proof
    assume "mem_id m \<in> set (memory_ids r)"
    then obtain m' where m': "m' \<in> set ?ms" "\<not> nonfactual (truth_mode m')" "mem_id m' = mem_id m"
      unfolding ids by auto
    with inj assms(3) have "m' = m"
      by (auto dest: inj_onD)
    with m' nf show False by simp
  qed
  from r 1 2 show ?thesis
    by (simp add: query_memories_v2_response assms(2))
qed

theorem nonfactual_denied_for_task_execution_witness:
  "\<exists>r. snd (query_memories_v2 sample_ilike permissive_policy sample_req_env db_AB ''app_1'' task_query)
          = Inr r
       \<and> ''mem_b'' \<in> set (qresp_denied_ids r) \<and> ''mem_b'' \<notin> set (qresp_memory_ids r)"
proof -
  have p: "has_read_defaults permissive_policy"
    by (simp add: has_read_defaults_def permissive_policy_def)
  have h: "qreq_purpose task_query = TASK_EXECUTION"
    "memory_B \<in> set (fetched sample_ilike db_AB task_query)"
    "truth_mode memory_B \<in> {COUNTERFACTUAL, IMAGINED, SOCIALLY_SOURCED}"
    by (simp_all add: fetched_AB)
       (simp_all add: task_query_def memory_B_def sample_memory_fields)
  have d: "distinct (map (mem_id \<circ> row_memory) (memories_v2 db_AB))"
    by (simp add: db_AB_def memory_A_def memory_B_def shame_event_fields)
  have i: "mem_id memory_B = ''mem_b''"
    by (simp add: memory_B_def shame_event_fields)
  from nonfactual_denied_for_task_execution [OF p h d, of sample_req_env "''app_1''"] i
  show ?thesis by simp
qed

text \<open>
  C3, as the code has it. When a \<open>task_execution\<close> query fetches a factual\_claim
  memory A and a counterfactual memory B, the result's denied ids contain B's id; A's
  id is among the memory ids if the policy's query evaluation allows A and among the
  denied ids if it does not. The default policy does not allow A: its default is
  \<open>read = deny\<close> and none of its rules allows a read for \<open>task_execution\<close>.
\<close>

theorem task_query_factual_and_counterfactual:
  assumes "has_read_defaults pol"
    and "qreq_purpose q = TASK_EXECUTION"
    and "A \<in> set (fetched ilike db q)" and "B \<in> set (fetched ilike db q)"
    and "truth_mode A = FACTUAL_CLAIM" and "truth_mode B = COUNTERFACTUAL"
  shows "\<exists>r. snd (query_memories_v2 ilike pol env db app_id q) = Inr r
           \<and> mem_id B \<in> set (qresp_denied_ids r)
           \<and> (if allowed_by pol TASK_EXECUTION A
               then mem_id A \<in> set (qresp_memory_ids r)
               else mem_id A \<in> set (qresp_denied_ids r))
           \<and> \<not> allowed_by default_policy TASK_EXECUTION A"
proof -
  let ?ms = "fetched ilike db q"
  from retrieve_rows_shape [OF assms(1), of TASK_EXECUTION ?ms]
  obtain r where r: "retrieve_rows pol TASK_EXECUTION ?ms = Inr r"
    and ids: "memory_ids r =
         map mem_id (filter (\<lambda>m. allowed_by pol TASK_EXECUTION m \<and> \<not> nonfactual (truth_mode m)) ?ms)"
    and den: "denied_ids r =
         map mem_id (filter (\<lambda>m. \<not> allowed_by pol TASK_EXECUTION m) ?ms)
           @ map mem_id (filter (\<lambda>m. allowed_by pol TASK_EXECUTION m \<and> nonfactual (truth_mode m)) ?ms)"
    by auto
  from assms(5,6) have nf: "\<not> nonfactual (truth_mode A)" "nonfactual (truth_mode B)"
    by (simp_all add: nonfactual_def)
  from assms(4) nf have 1: "mem_id B \<in> set (denied_ids r)"
    unfolding den by (cases "allowed_by pol TASK_EXECUTION B") auto
  from assms(3) nf have 2: "allowed_by pol TASK_EXECUTION A \<Longrightarrow> mem_id A \<in> set (memory_ids r)"
    unfolding ids by auto
  from assms(3) have 3: "\<not> allowed_by pol TASK_EXECUTION A \<Longrightarrow> mem_id A \<in> set (denied_ids r)"
    unfolding den by auto
  from r 1 2 3 default_denies_task [of A] show ?thesis
    by (simp add: query_memories_v2_response assms(2))
qed

theorem task_query_factual_and_counterfactual_witness:
  "\<exists>r. snd (query_memories_v2 sample_ilike default_policy sample_req_env db_AB ''app_1'' task_query)
          = Inr r
       \<and> ''mem_b'' \<in> set (qresp_denied_ids r) \<and> ''mem_a'' \<in> set (qresp_denied_ids r)"
proof -
  have h: "qreq_purpose task_query = TASK_EXECUTION"
    "memory_A \<in> set (fetched sample_ilike db_AB task_query)"
    "memory_B \<in> set (fetched sample_ilike db_AB task_query)"
    "truth_mode memory_A = FACTUAL_CLAIM" "truth_mode memory_B = COUNTERFACTUAL"
    by (simp_all add: fetched_AB)
       (simp_all add: task_query_def memory_A_def memory_B_def sample_memory_fields)
  have i: "mem_id memory_A = ''mem_a''" "mem_id memory_B = ''mem_b''"
    by (simp_all add: memory_A_def memory_B_def shame_event_fields)
  from task_query_factual_and_counterfactual [OF default_has_read_defaults h,
      of sample_req_env "''app_1''"] i
  show ?thesis by auto
qed

text \<open>
  C3 as stated fails under the default policy: with A and B stored in the same tenant
  and scope, the \<open>task_execution\<close> query returns no memory id at all and denies both.
\<close>

theorem default_policy_denies_factual_for_task:
  "snd (query_memories_v2 sample_ilike default_policy sample_req_env db_AB ''app_1'' task_query) =
     Inr \<lparr> qresp_memory_ids = [], qresp_impacts = [], qresp_seeds = [], qresp_events = [],
           qresp_denied_ids = [''mem_b'', ''mem_a''], qresp_access_log_id = ''log_1'' \<rparr>
   \<and> mem_id memory_A = ''mem_a'' \<and> truth_mode memory_A = FACTUAL_CLAIM
   \<and> mem_id memory_B = ''mem_b'' \<and> truth_mode memory_B = COUNTERFACTUAL
   \<and> tenant_id memory_A = tenant_id memory_B \<and> scope memory_A = scope memory_B
   \<and> map row_memory (memories_v2 db_AB) = [memory_A, memory_B]"
proof -
  have p: "qreq_purpose task_query = TASK_EXECUTION"
    by (simp add: task_query_def)
  have "snd (query_memories_v2 sample_ilike default_policy sample_req_env db_AB ''app_1'' task_query) =
     Inr \<lparr> qresp_memory_ids = [], qresp_impacts = [], qresp_seeds = [], qresp_events = [],
           qresp_denied_ids = map mem_id [memory_B, memory_A], qresp_access_log_id = ''log_1'' \<rparr>"
    by (simp add: query_memories_v2_response fetched_AB p retrieve_rows_default_task
        sample_req_env_def)
  then show ?thesis
    by (simp add: memory_A_def memory_B_def shame_event_fields sample_memory_fields db_AB_def)
qed

section \<open>Deterministic merge: results\<close>

lemma merge_sort_key_inj:
  "inj_on md_id (set ms) \<Longrightarrow> inj_on merge_sort_key (set ms)"
  by (auto simp: inj_on_def merge_sort_key_def)

lemma sort_key_permutation:
  assumes "mset ms' = mset ms" and "inj_on md_id (set ms)"
  shows "sort_key merge_sort_key ms' = sort_key merge_sort_key ms"
proof -
  from assms(1) have s: "set ms' = set ms"
    by (rule mset_eq_setD)
  have "mset ms' = mset (sort_key merge_sort_key ms)"
    using assms(1) by simp
  moreover have "inj_on merge_sort_key (set ms')"
    using merge_sort_key_inj [OF assms(2)] s by simp
  moreover have "sorted (map merge_sort_key (sort_key merge_sort_key ms))"
    by simp
  ultimately show ?thesis
    by (rule sort_key_inj_key_eq)
qed

text \<open>
  C8. The merge is a function of the memory records and the scope, so two evaluations
  on the same records give the same summary text, summary structure and confidence (or
  the same error). It also does not depend on the order of the list: for two lists
  with the same records in any order, where a record is identified by its id (the
  primary key of the table the records are read from), the results are equal, because
  the records are sorted by (created\_at, id) before anything else is done.
\<close>

theorem merge_order_independent:
  assumes "mset ms' = mset ms" and "inj_on md_id (set ms)"
  shows "merge_memories_deterministic ratio str_of ms' sc
           = merge_memories_deterministic ratio str_of ms sc"
proof -
  from assms(1) have "(ms' = []) = (ms = [])"
    by (metis mset_zero_iff)
  with sort_key_permutation [OF assms] show ?thesis
    by (simp add: merge_memories_deterministic_def Let_def)
qed

lemma sorted_12: "sort_key merge_sort_key [pref_memory_1, pref_memory_2] = [pref_memory_1, pref_memory_2]"
  by (simp add: merge_sort_key_def pref_memory_1_def pref_memory_2_def)

lemma strip_simple [simp]:
  "strip ''tea'' = ''tea''" "strip ''coffee'' = ''coffee''" "strip ''milk'' = ''milk''"
  "strip ''favorite_food'' = ''favorite_food''"
  by (simp_all add: strip_def is_space_def)

lemma lower_simple [simp]:
  "lower ''Tea'' = ''tea''" "lower ''coffee'' = ''coffee''" "lower ''milk'' = ''milk''"
  "lower ''Favorite_Food'' = ''favorite_food''"
  by (simp_all add: lower_def lower_char_def)

lemma merged_12:
  "merge_memories_deterministic no_ratio no_str_of [pref_memory_1, pref_memory_2] ''preferences'' =
     Inr \<lparr> summary_text = ''Likes: 2, Dislikes: 1, Settings: 1'',
           summary_struct =
             [(''likes'', PList [PStr ''Tea'', PStr ''coffee'']), (''dislikes'', PList [PStr ''milk'']),
              (''settings'', PDict [(''favorite_food'', PStr ''pizza'')])],
           merge_confidence = 7 / 10 \<rparr>"
  unfolding merge_memories_deterministic_def sorted_12 Let_def
  by (simp add: merge_preferences_def pref_step_def pref_memory_1_def pref_memory_2_def
      dict_get_def merge_kv_item_def normalize_key_def dedupe_with_fuzzy_def
      fuzzy_match_strings_def no_ratio_def py_str_def truncate_summary_def merge_confidence_of_def
      Let_def)

theorem merge_order_independent_witness:
  "merge_memories_deterministic no_ratio no_str_of [pref_memory_2, pref_memory_1] ''preferences'' =
     Inr \<lparr> summary_text = ''Likes: 2, Dislikes: 1, Settings: 1'',
           summary_struct =
             [(''likes'', PList [PStr ''Tea'', PStr ''coffee'']), (''dislikes'', PList [PStr ''milk'']),
              (''settings'', PDict [(''favorite_food'', PStr ''pizza'')])],
           merge_confidence = 7 / 10 \<rparr>"
proof -
  have m: "mset [pref_memory_2, pref_memory_1] = mset [pref_memory_1, pref_memory_2]"
    by (simp add: add_mset_commute)
  have i: "inj_on md_id (set [pref_memory_1, pref_memory_2])"
    by (simp add: pref_memory_1_def pref_memory_2_def)
  from merge_order_independent [OF m i, of no_ratio no_str_of "''preferences''"] merged_12
  show ?thesis by simp
qed

section \<open>Grants: issue, continue, revoke\<close>

lemma read_memory_cases:
  assumes "read_memory hash ratio str_of env db app_id req = (db', res)"
  shows "(isl res \<and> read_grants db' = read_grants db)
       \<or> (\<exists>g resp. res = Inr resp \<and> rresp_revocation_token resp = new_token env
             \<and> read_grants db' = read_grants db @ [g]
             \<and> revocation_token_hash g = hash (new_token env)
             \<and> grant_app_id g = app_id \<and> revoked_at g = None
             \<and> hash (new_token env) \<notin> set (map revocation_token_hash (read_grants db)))"
  using assms
  by (auto simp: read_memory_def create_audit_event_def Let_def
      split: sum.splits prod.splits if_splits)

lemma continue_keeps_grants:
  "read_grants (fst (continue_read_memory hash ratio str_of env db app_id req)) = read_grants db"
  by (auto simp: continue_read_memory_def create_audit_event_def Let_def
      split: option.splits sum.splits prod.splits)

lemma find_append_Some: "find P xs = Some x \<Longrightarrow> find P (xs @ ys) = Some x"
  by (induction xs) (auto split: if_splits)

lemma find_append_None: "find P xs = None \<Longrightarrow> find P (xs @ ys) = find P ys"
  by (induction xs) (auto split: if_splits)

lemma find_update_first_other:
  "(\<And>x. P x \<Longrightarrow> \<not> Q x \<and> \<not> Q (f x)) \<Longrightarrow> find Q (update_first P f xs) = find Q xs"
  by (induction xs) auto

lemma find_update_first_same:
  "(\<And>x. P x \<Longrightarrow> P (f x)) \<Longrightarrow> find P (update_first P f xs) = map_option f (find P xs)"
  by (induction xs) auto

lemma read_keeps_found:
  assumes "find_grant db h a = Some g"
  shows "find_grant (fst (read_memory hash ratio str_of env db app_id req)) h a = Some g"
proof -
  obtain db' res where r: "read_memory hash ratio str_of env db app_id req = (db', res)"
    by (cases "read_memory hash ratio str_of env db app_id req") blast
  from read_memory_cases [OF r] assms show ?thesis
    unfolding r by (auto simp: find_grant_def find_append_Some)
qed

lemma revoke_other_keeps_found:
  assumes "find_grant db h a = Some g"
    and "\<not> (app_id = a \<and> hash (rv_revocation_token req) = h)"
  shows "find_grant (fst (revoke_memory hash env db app_id req)) h a = Some g"
proof -
  let ?P = "\<lambda>g. revocation_token_hash g = hash (rv_revocation_token req) \<and> grant_app_id g = app_id"
  let ?Q = "\<lambda>g. revocation_token_hash g = h \<and> grant_app_id g = a"
  let ?f = "\<lambda>g. g\<lparr>revoked_at := Some (v1_now env), revoke_reason := Some ''user_requested''\<rparr>"
  have "find ?Q (update_first ?P ?f (read_grants db)) = find ?Q (read_grants db)"
    using assms(2) by (intro find_update_first_other) auto
  with assms(1) show ?thesis
    by (auto simp: revoke_memory_def Let_def find_grant_def create_audit_event_def
        split: option.splits)
qed

lemma revoke_revoked:
  assumes "find_grant db (hash (rv_revocation_token req)) a = Some g" and "revoked_at g \<noteq> None"
  shows "revoke_memory hash env db a req
           = (db, Inl (HTTPException 404 ''Revocation token not found''))"
  using assms by (auto simp: revoke_memory_def Let_def)

lemma revoke_unknown:
  assumes "find_grant db (hash (rv_revocation_token req)) a = None"
  shows "revoke_memory hash env db a req
           = (db, Inl (HTTPException 404 ''Revocation token not found''))"
  using assms by (simp add: revoke_memory_def Let_def)

lemma revoke_live:
  assumes "find_grant db (hash token) a = Some g" and "revoked_at g = None"
  shows "snd (revoke_memory hash env db a \<lparr>rv_revocation_token = token\<rparr>)
           = Inr \<lparr>revoked = True, resp_revoked_at = v1_now env\<rparr>
         \<and> find_grant (fst (revoke_memory hash env db a \<lparr>rv_revocation_token = token\<rparr>)) (hash token) a
             = Some (g\<lparr>revoked_at := Some (v1_now env), revoke_reason := Some ''user_requested''\<rparr>)"
  using assms
  by (simp add: revoke_memory_def Let_def find_grant_def create_audit_event_def
      find_update_first_same)

lemma continue_revoked:
  assumes "find_grant db (hash token) a = Some g" and "revoked_at g \<noteq> None"
  shows "continue_read_memory hash ratio str_of env db a
           \<lparr>cont_revocation_token = token, cont_max_age_days = d\<rparr>
           = (db, Inl (HTTPException 403 ''REVOKED''))"
  using assms by (auto simp: continue_read_memory_def)

lemma step_keeps_live:
  assumes "find_grant db h a = Some g" and "\<not> revokes hash a token c" and "h = hash token"
  shows "find_grant (v1_step hash ratio str_of db c) h a = Some g"
proof (cases c)
  case (ReadCall app env req)
  with assms show ?thesis by (simp add: read_keeps_found)
next
  case (ContinueCall app env req)
  with assms show ?thesis by (simp add: find_grant_def continue_keeps_grants)
next
  case (RevokeCall app env req)
  with assms show ?thesis
    by (auto simp: revokes_def intro: revoke_other_keeps_found)
qed

lemma run_keeps_live:
  assumes "find_grant db (hash token) a = Some g" and "\<forall>c \<in> set calls. \<not> revokes hash a token c"
  shows "find_grant (v1_run hash ratio str_of db calls) (hash token) a = Some g"
  using assms
proof (induction calls arbitrary: db)
  case Nil
  then show ?case by (simp add: v1_run_def)
next
  case (Cons c calls)
  from Cons.prems have "find_grant (v1_step hash ratio str_of db c) (hash token) a = Some g"
    by (auto intro: step_keeps_live)
  with Cons.IH [of "v1_step hash ratio str_of db c"] Cons.prems show ?case
    by (simp add: v1_run_def)
qed

lemma step_keeps_revoked:
  assumes "find_grant db h a = Some g" and "revoked_at g \<noteq> None"
  shows "find_grant (v1_step hash ratio str_of db c) h a = Some g"
proof (cases c)
  case (ReadCall app env req)
  with assms show ?thesis by (simp add: read_keeps_found)
next
  case (ContinueCall app env req)
  with assms show ?thesis by (simp add: find_grant_def continue_keeps_grants)
next
  case (RevokeCall app env req)
  show ?thesis
  proof (cases "app = a \<and> hash (rv_revocation_token req) = h")
    case True
    with assms have "revoke_memory hash env db a req
        = (db, Inl (HTTPException 404 ''Revocation token not found''))"
      by (intro revoke_revoked) auto
    with True RevokeCall assms show ?thesis by simp
  next
    case False
    with RevokeCall assms show ?thesis
      by (simp add: revoke_other_keeps_found)
  qed
qed

lemma run_keeps_revoked:
  assumes "find_grant db h a = Some g" and "revoked_at g \<noteq> None"
  shows "find_grant (v1_run hash ratio str_of db calls) h a = Some g"
  using assms
proof (induction calls arbitrary: db)
  case Nil
  then show ?case by (simp add: v1_run_def)
next
  case (Cons c calls)
  from Cons.prems have "find_grant (v1_step hash ratio str_of db c) h a = Some g"
    by (auto intro: step_keeps_revoked)
  with Cons.IH [of "v1_step hash ratio str_of db c"] Cons.prems show ?case
    by (simp add: v1_run_def)
qed

lemma read_success_live:
  assumes "read_memory hash ratio str_of env db app_id req = (db', Inr resp)"
  shows "\<exists>g. find_grant db' (hash (rresp_revocation_token resp)) app_id = Some g \<and> revoked_at g = None"
proof -
  from read_memory_cases [OF assms] obtain g where
    g: "rresp_revocation_token resp = new_token env" "read_grants db' = read_grants db @ [g]"
      "revocation_token_hash g = hash (new_token env)" "grant_app_id g = app_id"
      "revoked_at g = None"
      "hash (new_token env) \<notin> set (map revocation_token_hash (read_grants db))"
    by auto
  from g(6) have "find (\<lambda>g. revocation_token_hash g = hash (new_token env) \<and> grant_app_id g = app_id)
        (read_grants db) = None"
    by (force simp: find_None_iff)
  with g show ?thesis
    by (auto simp: find_grant_def find_append_None)
qed

text \<open>
  C5. The endpoints resolve every caller to the one default app, so all calls carry the
  same app. Suppose a read succeeds and returns a token. After any calls that do not
  revoke that token, a revoke with it succeeds: it answers \<open>{revoked: true,
  revoked_at}\<close> with the current time and the grant row carries that time. From then
  on, after any further calls whatever, a continue with the token answers 403 with
  detail REVOKED and a revoke with it answers 404 and changes nothing, the same answer
  a token without grant row gets.
\<close>

theorem grant_round_trip:
  assumes "read_memory hash ratio str_of env0 s0 app_id req = (s1, Inr resp)"
    and "token = rresp_revocation_token resp"
    and "\<forall>c \<in> set before. \<not> revokes hash app_id token c"
    and "s2 = v1_run hash ratio str_of s1 before"
    and "s3 = fst (revoke_memory hash env1 s2 app_id \<lparr>rv_revocation_token = token\<rparr>)"
    and "s4 = v1_run hash ratio str_of s3 after"
  shows "snd (revoke_memory hash env1 s2 app_id \<lparr>rv_revocation_token = token\<rparr>)
           = Inr \<lparr>revoked = True, resp_revoked_at = v1_now env1\<rparr>
       \<and> (\<exists>g. find_grant s3 (hash token) app_id = Some g \<and> revoked_at g = Some (v1_now env1))
       \<and> continue_read_memory hash ratio str_of env2 s4 app_id
            \<lparr>cont_revocation_token = token, cont_max_age_days = d\<rparr>
           = (s4, Inl (HTTPException 403 ''REVOKED''))
       \<and> revoke_memory hash env2 s4 app_id \<lparr>rv_revocation_token = token\<rparr>
           = (s4, Inl (HTTPException 404 ''Revocation token not found''))
       \<and> (find_grant s4 (hash unknown) app_id = None \<longrightarrow>
            snd (revoke_memory hash env2 s4 app_id \<lparr>rv_revocation_token = unknown\<rparr>)
              = snd (revoke_memory hash env2 s4 app_id \<lparr>rv_revocation_token = token\<rparr>))"
proof -
  from read_success_live [OF assms(1)] assms(2)
  obtain g where g: "find_grant s1 (hash token) app_id = Some g" "revoked_at g = None"
    by auto
  have g2: "find_grant s2 (hash token) app_id = Some g"
    unfolding assms(4) using g(1) assms(3) by (rule run_keeps_live)
  let ?g' = "g\<lparr>revoked_at := Some (v1_now env1), revoke_reason := Some ''user_requested''\<rparr>"
  have "snd (revoke_memory hash env1 s2 app_id \<lparr>rv_revocation_token = token\<rparr>)
           = Inr \<lparr>revoked = True, resp_revoked_at = v1_now env1\<rparr>
         \<and> find_grant (fst (revoke_memory hash env1 s2 app_id \<lparr>rv_revocation_token = token\<rparr>))
              (hash token) app_id = Some ?g'"
    using g2 g(2) by (rule revoke_live)
  then have r: "snd (revoke_memory hash env1 s2 app_id \<lparr>rv_revocation_token = token\<rparr>)
           = Inr \<lparr>revoked = True, resp_revoked_at = v1_now env1\<rparr>"
    and g3: "find_grant s3 (hash token) app_id = Some ?g'"
    using assms(5) by simp_all
  have rv: "revoked_at ?g' \<noteq> None" by simp
  have g4: "find_grant s4 (hash token) app_id = Some ?g'"
    unfolding assms(6) using g3 rv by (rule run_keeps_revoked)
  have c: "continue_read_memory hash ratio str_of env2 s4 app_id
            \<lparr>cont_revocation_token = token, cont_max_age_days = d\<rparr>
           = (s4, Inl (HTTPException 403 ''REVOKED''))"
    using g4 rv by (rule continue_revoked)
  have v: "revoke_memory hash env2 s4 app_id \<lparr>rv_revocation_token = token\<rparr>
           = (s4, Inl (HTTPException 404 ''Revocation token not found''))"
    using g4 rv by (intro revoke_revoked) auto
  have u: "find_grant s4 (hash unknown) app_id = None \<longrightarrow>
            snd (revoke_memory hash env2 s4 app_id \<lparr>rv_revocation_token = unknown\<rparr>)
              = snd (revoke_memory hash env2 s4 app_id \<lparr>rv_revocation_token = token\<rparr>)"
    using v by (simp add: revoke_unknown)
  from r g3 c v u show ?thesis by simp
qed


lemma sample_read_response:
  "snd after_read =
     Inr \<lparr> rresp_summary_text = ''No memories found.'', rresp_summary_struct = [],
           rresp_confidence = 0, rresp_revocation_token = ''tok_1'', rresp_expires_at = 86410 \<rparr>"
proof -
  have 1: "sanitize_user_id ''u1'' = Inr ''u1''"
    by (simp add: sanitize_user_id_def strip_def is_space_def is_alnum_def is_lower_letter_def
        is_upper_letter_def is_digit_def Let_def)
  have 2: "sanitize_scope ''preferences'' = Inr ''preferences''"
    by (simp add: sanitize_scope_def strip_def is_space_def is_lower_letter_def lower_def
        lower_char_def Let_def)
  have 3: "sanitize_purpose ''generate content'' = Inr ''generate content''"
    by (simp add: sanitize_purpose_def strip_def is_space_def html_escape_def Let_def)
  have 4: "normalize_purpose ''generate content'' = ''content_generation''"
    by (simp add: normalize_purpose_def any_kw_def lower_def lower_char_def Let_def)
  have 5: "check_policy ''preferences'' ''content_generation''"
    by (simp add: check_policy_def POLICY_MATRIX_def)
  show ?thesis
    by (simp add: after_read_def read_memory_def sample_read_def 1 2 3 4 5 ALLOWED_SCOPES_def
        query_and_merge_memories_def query_v1_def empty_store_def
        merge_memories_deterministic_def env_at_def Let_def create_audit_event_def)
qed

theorem grant_round_trip_witness:
  "snd after_read =
     Inr \<lparr> rresp_summary_text = ''No memories found.'', rresp_summary_struct = [],
           rresp_confidence = 0, rresp_revocation_token = ''tok_1'', rresp_expires_at = 86410 \<rparr>
   \<and> snd (revoke_memory sample_hash (env_at 30) after_continue ''app_1''
           \<lparr>rv_revocation_token = ''tok_1''\<rparr>)
       = Inr \<lparr>revoked = True, resp_revoked_at = 30\<rparr>
   \<and> snd (continue_read_memory sample_hash no_ratio no_str_of (env_at 40) after_revoke ''app_1''
            \<lparr>cont_revocation_token = ''tok_1'', cont_max_age_days = None\<rparr>)
       = Inl (HTTPException 403 ''REVOKED'')
   \<and> snd (revoke_memory sample_hash (env_at 40) after_revoke ''app_1''
            \<lparr>rv_revocation_token = ''tok_1''\<rparr>)
       = Inl (HTTPException 404 ''Revocation token not found'')"
proof -
  let ?resp = "\<lparr> rresp_summary_text = ''No memories found.'', rresp_summary_struct = [],
           rresp_confidence = 0, rresp_revocation_token = ''tok_1'', rresp_expires_at = 86410 \<rparr>"
  have rd: "read_memory sample_hash no_ratio no_str_of (env_at 10) empty_store ''app_1'' sample_read
             = (fst after_read, Inr ?resp)"
    using sample_read_response by (simp add: after_read_def prod_eq_iff)
  have tk: "''tok_1'' = rresp_revocation_token ?resp"
    by simp
  have nb: "\<forall>c \<in> set [ContinueCall ''app_1'' (env_at 20)
               \<lparr>cont_revocation_token = ''tok_1'', cont_max_age_days = None\<rparr>].
              \<not> revokes sample_hash ''app_1'' ''tok_1'' c"
    by (simp add: revokes_def)
  have s4: "after_revoke = v1_run sample_hash no_ratio no_str_of after_revoke []"
    by (simp add: v1_run_def)
  from grant_round_trip [OF rd tk nb after_continue_def after_revoke_def s4,
      of "env_at 40" None "''tok_2''"] sample_read_response
  show ?thesis
    by (simp add: env_at_def)
qed

end
